(* ===== verification/Prelude.thy ===== *)
theory Prelude
  imports Main "HOL-Library.Multiset"
begin

text \<open>
  Shared material of the development: the names of the model's basic types, the
  collections of facts the component theories fill and use, and the generic lemmas on
  lists, options and association lists that more than one component needs. Nothing
  here models a line of the program; the lemmas are facts about HOL lists that the
  component proofs would otherwise repeat.

  \<^item> \<open>std_defs\<close> collects the defining equations of the small models of the Rust
    standard library (theory \<open>Std\<close>), \<open>hm_defs\<close> those of the hash map
    (theory \<open>HashMap\<close>), \<open>header_defs\<close> and \<open>hmap_defs\<close> those of the two
    components of \<^verbatim>\<open>header.rs\<close>. A proof that has to look through an operation says
    \<open>simp add: hmap_defs\<close>.
  \<^item> \<open>hm_inv_intros\<close> collects the preservation lemmas of the hash map's
    representation invariant, \<open>hm_get_simps\<close> the lookup-after-update equations.
\<close>

section \<open>Types\<close>

text \<open>
  \<^verbatim>\<open>Cow<'h, str>\<close> is text that is either borrowed or owned. Equality, hashing and
  every operation of \<^verbatim>\<open>header.rs\<close> read a \<^verbatim>\<open>Cow\<close> through its contents only, so the
  model keeps the contents: a \<open>string\<close>, that is a list of bytes, compared bytewise as
  Rust compares \<^verbatim>\<open>str\<close>. Theory \<open>Cow\<close> has the type with its two variants.
\<close>

type_synonym cow_str = string

section \<open>Fact collections\<close>

named_theorems std_defs
named_theorems hm_defs
named_theorems header_defs
named_theorems hmap_defs
named_theorems hm_inv_intros
named_theorems hm_get_simps

section \<open>Association lists with distinct keys\<close>

lemma filter_key_absent:
  "k \<notin> fst ` set xs \<Longrightarrow> filter (\<lambda>e. fst e = k) xs = []"
  by (induction xs) auto

lemma filter_key_distinct:
  "distinct (map fst xs) \<Longrightarrow>
     filter (\<lambda>e. fst e = k) xs = (case map_of xs k of None \<Rightarrow> [] | Some v \<Rightarrow> [(k, v)])"
proof (induction xs)
  case Nil
  then show ?case by simp
next
  case (Cons e xs)
  obtain a b where e: "e = (a, b)" by (cases e)
  show ?case
  proof (cases "a = k")
    case True
    with Cons.prems e have "k \<notin> fst ` set xs" by auto
    with True e show ?thesis by (simp add: filter_key_absent)
  next
    case False
    with Cons e show ?thesis by simp
  qed
qed

text \<open>
  A list with distinct keys splits around the entry of a key that it maps: the entry
  stands once, and the key occurs neither before nor after it.
\<close>

lemma distinct_fst_split:
  assumes "distinct (map fst xs)" and "map_of xs k = Some v"
  shows "\<exists>pre post. xs = pre @ (k, v) # post \<and> k \<notin> fst ` set pre \<and> k \<notin> fst ` set post"
proof -
  from assms have "(k, v) \<in> set xs" by (simp add: map_of_eq_Some_iff)
  then obtain pre post where xs: "xs = pre @ (k, v) # post"
    by (auto simp: in_set_conv_decomp)
  with assms(1) have "k \<notin> fst ` set pre" and "k \<notin> fst ` set post"
    by auto
  with xs show ?thesis by blast
qed

section \<open>Splitting at a separator\<close>

lemma takeWhile_neq_append: "c \<notin> set xs \<Longrightarrow> takeWhile (\<lambda>x. x \<noteq> c) (xs @ c # ys) = xs"
  by (induction xs) auto

lemma dropWhile_neq_append:
  "c \<notin> set xs \<Longrightarrow> dropWhile (\<lambda>x. x \<noteq> c) (xs @ c # ys) = c # ys"
  by (induction xs) auto

section \<open>Flattening\<close>

text \<open>
  The header map's iterators flatten a list of groups. The facts below say what a
  filter, a length and a multiset of such a flattening are.
\<close>

lemma concat_map_Nil_absent:
  "(\<And>e. e \<in> set xs \<Longrightarrow> f e = []) \<Longrightarrow> concat (map f xs) = []"
  by (induction xs) auto

lemma length_concat_map:
  "length (concat (map f xs)) = sum_list (map (\<lambda>x. length (f x)) xs)"
  by (simp add: length_concat comp_def)

lemma mset_concat_map:
  "mset (concat (map f xs)) = sum_list (map (\<lambda>x. mset (f x)) xs)"
  by (simp add: mset_concat comp_def)

lemma sum_list_map_mset_cong:
  fixes f :: "'a \<Rightarrow> 'b::comm_monoid_add"
  assumes "mset xs = mset ys"
  shows "sum_list (map f xs) = sum_list (map f ys)"
proof -
  have "mset (map f xs) = mset (map f ys)"
    using assms by simp
  then have "sum_mset (mset (map f xs)) = sum_mset (mset (map f ys))"
    by (rule arg_cong)
  then show ?thesis by (simp only: sum_mset_sum_list)
qed

lemma mset_concat_map_cong:
  "mset xs = mset ys \<Longrightarrow> mset (concat (map f xs)) = mset (concat (map f ys))"
  unfolding mset_concat_map by (rule sum_list_map_mset_cong)

lemma length_concat_map_cong:
  "mset xs = mset ys \<Longrightarrow> length (concat (map f xs)) = length (concat (map f ys))"
  unfolding length_concat_map by (rule sum_list_map_mset_cong)

end
