(* ===== verification/Std.thy ===== *)
theory Std
  imports Prelude
begin

text \<open>
  The functions of the Rust standard library that \<^verbatim>\<open>header.rs\<close> calls on options,
  vectors and iterators, each as the HOL function that computes its result. An
  iterator is modelled by the list of the items it yields, in the order it yields
  them: every iterator of the file is finite and is either collected or counted.

  \<^item> \<^verbatim>\<open>Option::is_some\<close>, \<^verbatim>\<open>Option::into_iter\<close> and \<^verbatim>\<open>Option::and_then\<close>
    (the library's \<open>Option.bind\<close>);
  \<^item> \<^verbatim>\<open>Iterator::flat_map\<close> and \<^verbatim>\<open>Iterator::next\<close>; \<^verbatim>\<open>Iterator::count\<close> and
    \<^verbatim>\<open>Vec::len\<close> are \<open>length\<close>, \<^verbatim>\<open>Iterator::collect\<close> is the list itself;
  \<^item> \<^verbatim>\<open>Vec::push\<close> and \<^verbatim>\<open>Vec::append\<close>, which returns the emptied source
    beside the extended vector;
  \<^item> \<^verbatim>\<open>mem::replace\<close>, which returns the old contents beside the new ones;
  \<^item> the trait \<^verbatim>\<open>Hasher\<close> as far as a derived \<^verbatim>\<open>Hash\<close> uses it: a hasher is its
    method \<^verbatim>\<open>write\<close>, a function from the state and the bytes written to the new
    state (\<open>hasher\<close>); \<open>write_u8\<close> writes one byte, \<open>hash_str\<close> is the \<^verbatim>\<open>Hash\<close>
    of \<^verbatim>\<open>str\<close>, which writes the bytes of the text and then the byte \<^verbatim>\<open>0xff\<close>, and
    \<open>stream_write\<close> is the hasher that keeps what it is fed;
  \<^item> formatting as far as \<^verbatim>\<open>write!\<close> uses it: the sink of a formatter is its
    method \<^verbatim>\<open>write_str\<close>, which takes the sink and a text to the new sink or to
    the error \<^verbatim>\<open>fmt::Error\<close> (\<open>writer\<close>, \<open>fmt_error\<close>); \<open>write_fmt\<close> writes the
    pieces of formatted text one after the other and returns the first error;
    \<open>string_write_str\<close> is the sink of \<^verbatim>\<open>String\<close>, which appends and never fails.
\<close>

section \<open>Definitions\<close>

fun is_some :: "'a option \<Rightarrow> bool" where
  "is_some None = False"
| "is_some (Some x) = True"

fun option_into_iter :: "'a option \<Rightarrow> 'a list" where
  "option_into_iter None = []"
| "option_into_iter (Some x) = [x]"

text \<open>
  \<^verbatim>\<open>Iterator::next\<close> on an iterator modelled by the list of its items: the first
  item and the rest, or nothing and the exhausted iterator.
\<close>

fun iter_next :: "'a list \<Rightarrow> 'a option \<times> 'a list" where
  "iter_next [] = (None, [])"
| "iter_next (x # xs) = (Some x, xs)"

definition flat_map :: "('a \<Rightarrow> 'b list) \<Rightarrow> 'a list \<Rightarrow> 'b list" where
  "flat_map f xs = concat (map f xs)"

definition vec_push :: "'a list \<Rightarrow> 'a \<Rightarrow> 'a list" where
  "vec_push v x = v @ [x]"

text \<open>
  \<^verbatim>\<open>v.append(&mut other)\<close> moves every element of \<open>other\<close> to the end of \<open>v\<close>:
  the result is the new \<open>v\<close> and the new \<open>other\<close>, which is empty.
\<close>

definition vec_append :: "'a list \<Rightarrow> 'a list \<Rightarrow> 'a list \<times> 'a list" where
  "vec_append v other = (v @ other, [])"

text \<open>
  \<^verbatim>\<open>mem::replace(dest, src)\<close> stores \<open>src\<close> in \<open>dest\<close> and returns what \<open>dest\<close>
  held: the result is the returned value and the new contents of \<open>dest\<close>.
\<close>

definition mem_replace :: "'a \<Rightarrow> 'a \<Rightarrow> 'a \<times> 'a" where
  "mem_replace dest src = (dest, src)"

type_synonym 'h hasher = "'h \<Rightarrow> string \<Rightarrow> 'h"

definition write_u8 :: "'h hasher \<Rightarrow> 'h \<Rightarrow> char \<Rightarrow> 'h" where
  "write_u8 write state i = write state [i]"

definition hash_str :: "'h hasher \<Rightarrow> string \<Rightarrow> 'h \<Rightarrow> 'h" where
  "hash_str write s state = write_u8 write (write state s) (CHR 0xFF)"

definition stream_write :: "string hasher" where
  "stream_write state bytes = state @ bytes"

datatype fmt_error = FmtError

type_synonym 'f writer = "'f \<Rightarrow> string \<Rightarrow> fmt_error + 'f"

fun write_fmt :: "'f writer \<Rightarrow> 'f \<Rightarrow> string list \<Rightarrow> fmt_error + 'f" where
  "write_fmt write_str f [] = Inr f"
| "write_fmt write_str f (piece # pieces) =
     (case write_str f piece of
        Inl e \<Rightarrow> Inl e
      | Inr f' \<Rightarrow> write_fmt write_str f' pieces)"

definition string_write_str :: "string writer" where
  "string_write_str buf s = Inr (buf @ s)"

section \<open>Lemmas\<close>

lemmas [std_defs] = flat_map_def vec_push_def vec_append_def mem_replace_def

lemma is_some_iff [simp]: "is_some x \<longleftrightarrow> x \<noteq> None"
  by (cases x) simp_all

lemma option_into_iter_eq_Nil [simp]: "option_into_iter x = [] \<longleftrightarrow> x = None"
  by (cases x) simp_all

lemma flat_map_simps [simp]:
  "flat_map f [] = []"
  "flat_map f (x # xs) = f x @ flat_map f xs"
  by (simp_all add: flat_map_def)

lemma flat_map_append [simp]: "flat_map f (xs @ ys) = flat_map f xs @ flat_map f ys"
  by (simp add: flat_map_def)

lemma flat_map_option:
  "flat_map f (option_into_iter x) = (case x of None \<Rightarrow> [] | Some v \<Rightarrow> f v)"
  by (cases x) simp_all

lemma length_flat_map: "length (flat_map f xs) = sum_list (map (\<lambda>x. length (f x)) xs)"
  by (simp add: flat_map_def length_concat_map)

lemma mset_flat_map_cong:
  "mset xs = mset ys \<Longrightarrow> mset (flat_map f xs) = mset (flat_map f ys)"
  unfolding flat_map_def by (rule mset_concat_map_cong)

lemma length_flat_map_cong:
  "mset xs = mset ys \<Longrightarrow> length (flat_map f xs) = length (flat_map f ys)"
  unfolding flat_map_def by (rule length_concat_map_cong)

lemma filter_flat_map: "filter P (flat_map f xs) = flat_map (\<lambda>x. filter P (f x)) xs"
  by (simp add: flat_map_def filter_concat comp_def)

lemma flat_map_Nil_absent:
  "(\<And>e. e \<in> set xs \<Longrightarrow> f e = []) \<Longrightarrow> flat_map f xs = []"
  by (simp add: flat_map_def concat_map_Nil_absent)

lemma foldl_count:
  "foldl (\<lambda>count _. count + 1) (c :: 'c::semiring_1) xs = c + of_nat (length xs)"
  by (induction xs arbitrary: c) (simp_all add: algebra_simps)

lemma foldl_vec_push: "foldl vec_push v xs = v @ xs"
  by (induction xs arbitrary: v) (simp_all add: vec_push_def)

lemma set_flat_map: "set (flat_map f xs) = (\<Union>x\<in>set xs. set (f x))"
  by (simp add: flat_map_def)

section \<open>Hashing\<close>

lemma hash_str_stream: "hash_str stream_write s state = state @ s @ [CHR 0xFF]"
  by (simp add: hash_str_def write_u8_def stream_write_def)

section \<open>Formatting\<close>

lemma write_fmt_string: "write_fmt string_write_str buf pieces = Inr (buf @ concat pieces)"
  by (induction pieces arbitrary: buf) (simp_all add: string_write_str_def)

lemma write_fmt_failing: "pieces \<noteq> [] \<Longrightarrow> write_fmt (\<lambda>f s. Inl e) f pieces = Inl e"
  by (cases pieces) simp_all

end
