(* ===== verification/HashMap.thy ===== *)
theory HashMap
  imports Std
begin

text \<open>
  The part of \<^verbatim>\<open>std::collections::HashMap\<close> that the header map is built on:
  \<^verbatim>\<open>new\<close>, \<^verbatim>\<open>get\<close>, \<^verbatim>\<open>insert\<close>, \<^verbatim>\<open>remove\<close>, \<^verbatim>\<open>entry(k).or_insert(d)\<close> with the
  write through the reference it returns, \<^verbatim>\<open>len\<close>, \<^verbatim>\<open>is_empty\<close>, \<^verbatim>\<open>iter\<close>,
  \<^verbatim>\<open>into_iter\<close> and the equality of two maps.

  A map is represented by the list of its entries in the order in which its iterators
  visit them, one entry per key (\<open>hm_inv\<close>). The library leaves that order open, and
  it may change whenever the table grows. The model fixes one order (a new key goes
  to the end, an existing key keeps its place), and the relation \<open>hm_equiv\<close> relates
  the representations of one map in all orders: the lemmas of the last section show
  that every operation takes equivalent maps to equivalent maps and that lookups do
  not see the order, so a result proved for an arbitrary representation holds for
  whatever order the real table has.

  The abstraction of a map is its lookup function \<open>hm_get m\<close>, a partial function
  from keys to values; the lemmas collected in \<open>hm_get_simps\<close> say what each
  operation does to it.
\<close>

section \<open>Definitions\<close>

type_synonym ('k, 'v) hash_map = "('k \<times> 'v) list"

definition hm_inv :: "('k, 'v) hash_map \<Rightarrow> bool" where
  "hm_inv m \<longleftrightarrow> distinct (map fst m)"

definition hm_new :: "('k, 'v) hash_map" where
  "hm_new = []"

primrec hm_get :: "('k, 'v) hash_map \<Rightarrow> 'k \<Rightarrow> 'v option" where
  "hm_get [] k = None"
| "hm_get (e # es) k = (if fst e = k then Some (snd e) else hm_get es k)"

text \<open>
  Storing a value: the entry of an existing key keeps its key and its place and takes
  the new value; a new key gets an entry at the end.
\<close>

primrec hm_put :: "'k \<Rightarrow> 'v \<Rightarrow> ('k, 'v) hash_map \<Rightarrow> ('k, 'v) hash_map" where
  "hm_put k v [] = [(k, v)]"
| "hm_put k v (e # es) = (if fst e = k then (fst e, v) # es else e # hm_put k v es)"

text \<open>\<^verbatim>\<open>insert\<close> returns the value the key had, beside the updated map.\<close>

definition hm_insert :: "'k \<Rightarrow> 'v \<Rightarrow> ('k, 'v) hash_map \<Rightarrow> 'v option \<times> ('k, 'v) hash_map" where
  "hm_insert k v m = (hm_get m k, hm_put k v m)"

primrec hm_del :: "'k \<Rightarrow> ('k, 'v) hash_map \<Rightarrow> ('k, 'v) hash_map" where
  "hm_del k [] = []"
| "hm_del k (e # es) = (if fst e = k then es else e # hm_del k es)"

text \<open>\<^verbatim>\<open>remove\<close> returns the value the key had, beside the map without the key.\<close>

definition hm_remove :: "'k \<Rightarrow> ('k, 'v) hash_map \<Rightarrow> 'v option \<times> ('k, 'v) hash_map" where
  "hm_remove k m = (hm_get m k, hm_del k m)"

text \<open>
  \<^verbatim>\<open>entry(k).or_insert(d)\<close> makes sure that the key has an entry, with the value
  \<open>d\<close> if it had none, and returns a mutable reference to the entry's value. The
  model returns the value the reference points to, beside the map after the call.
  A write through the reference is \<open>hm_put\<close> at the same key, which has an
  entry by then, so the write changes that entry where it stands.
\<close>

definition hm_or_insert :: "'k \<Rightarrow> 'v \<Rightarrow> ('k, 'v) hash_map \<Rightarrow> 'v \<times> ('k, 'v) hash_map" where
  "hm_or_insert k d m = (case hm_get m k of None \<Rightarrow> (d, m @ [(k, d)]) | Some v \<Rightarrow> (v, m))"

definition hm_len :: "('k, 'v) hash_map \<Rightarrow> nat" where
  "hm_len m = length m"

definition hm_is_empty :: "('k, 'v) hash_map \<Rightarrow> bool" where
  "hm_is_empty m \<longleftrightarrow> hm_len m = 0"

text \<open>Both iterators yield the entries in the order of the representation.\<close>

definition hm_iter :: "('k, 'v) hash_map \<Rightarrow> ('k \<times> 'v) list" where
  "hm_iter m = m"

definition hm_into_iter :: "('k, 'v) hash_map \<Rightarrow> ('k \<times> 'v) list" where
  "hm_into_iter m = m"

text \<open>
  Equality of maps, as the library implements it: the same number of entries, and
  every entry of the first map is found in the second with an equal value.
\<close>

definition hm_eq :: "('k, 'v) hash_map \<Rightarrow> ('k, 'v) hash_map \<Rightarrow> bool" where
  "hm_eq a b \<longleftrightarrow>
     (if hm_len a \<noteq> hm_len b then False
      else list_all (\<lambda>(key, val). case hm_get b key of None \<Rightarrow> False | Some v \<Rightarrow> val = v)
             (hm_iter a))"

text \<open>Two representations of one map: the same entries, in any order.\<close>

definition hm_equiv :: "('k, 'v) hash_map \<Rightarrow> ('k, 'v) hash_map \<Rightarrow> bool" where
  "hm_equiv a b \<longleftrightarrow> hm_inv a \<and> hm_inv b \<and> set a = set b"

section \<open>Lookup\<close>

lemmas [hm_defs] = hm_new_def hm_insert_def hm_remove_def hm_len_def hm_is_empty_def
  hm_iter_def hm_into_iter_def

lemma hm_get_map_of: "hm_get m k = map_of m k"
  by (induction m) auto

lemma hm_get_None_iff: "hm_get m k = None \<longleftrightarrow> k \<notin> fst ` set m"
  by (simp add: hm_get_map_of map_of_eq_None_iff)

lemma hm_get_Some_iff: "hm_inv m \<Longrightarrow> hm_get m k = Some v \<longleftrightarrow> (k, v) \<in> set m"
  by (simp add: hm_get_map_of hm_inv_def)

lemma hm_get_new [hm_get_simps]: "hm_get hm_new k = None"
  by (simp add: hm_new_def)

lemma hm_get_put [hm_get_simps]:
  "hm_get (hm_put k v m) k' = (if k' = k then Some v else hm_get m k')"
  by (induction m) auto

lemma hm_get_append:
  "hm_get (m @ n) k = (case hm_get m k of None \<Rightarrow> hm_get n k | Some v \<Rightarrow> Some v)"
  by (induction m) auto

lemma hm_get_or_insert [hm_get_simps]:
  "hm_get (snd (hm_or_insert k d m)) k' =
     (if k' = k \<and> hm_get m k = None then Some d else hm_get m k')"
  by (auto simp: hm_or_insert_def hm_get_append split: option.splits)

lemma fst_hm_or_insert: "fst (hm_or_insert k d m) = (case hm_get m k of None \<Rightarrow> d | Some v \<Rightarrow> v)"
  by (simp add: hm_or_insert_def split: option.splits)

lemma hm_get_fst_or_insert:
  "hm_get (snd (hm_or_insert k d m)) k = Some (fst (hm_or_insert k d m))"
  by (simp add: hm_get_or_insert fst_hm_or_insert split: option.splits)

lemma hm_del_absent: "k \<notin> fst ` set m \<Longrightarrow> hm_del k m = m"
  by (induction m) auto

lemma in_keys_iff: "k \<in> fst ` set m \<longleftrightarrow> hm_get m k \<noteq> None"
  by (simp add: hm_get_None_iff)

lemma set_hm_del_subset: "x \<in> set (hm_del k m) \<Longrightarrow> x \<in> set m"
  by (induction m) (auto split: if_splits)

lemma keys_hm_del_subset: "x \<in> fst ` set (hm_del k m) \<Longrightarrow> x \<in> fst ` set m"
  by (auto dest: set_hm_del_subset)

lemma hm_get_del_other: "k' \<noteq> k \<Longrightarrow> hm_get (hm_del k m) k' = hm_get m k'"
  by (induction m) auto

lemma hm_del_notin: "hm_inv m \<Longrightarrow> k \<notin> fst ` set (hm_del k m)"
proof (induction m)
  case Nil
  then show ?case by simp
next
  case (Cons e m)
  then have "hm_inv m" and "fst e \<notin> fst ` set m"
    by (auto simp: hm_inv_def)
  with Cons.IH show ?case by auto
qed

lemma hm_get_del [hm_get_simps]:
  "hm_inv m \<Longrightarrow> hm_get (hm_del k m) k' = (if k' = k then None else hm_get m k')"
  by (simp add: hm_get_del_other hm_get_None_iff hm_del_notin)

section \<open>The shape of an updated map\<close>

text \<open>
  What an update does to the sequence of entries: the iterators of the header map are
  flattenings of that sequence, so their properties follow from these equations.
\<close>

lemma hm_put_mem: "(k, v) \<in> set (hm_put k v m)"
  by (induction m) auto

lemma hm_put_not_Nil [simp]: "hm_put k v m \<noteq> []"
  by (cases m) auto

lemma foldl_hm_del_keys: "hm_inv m \<Longrightarrow> foldl (\<lambda>m k. hm_del k m) m (map fst m) = []"
  by (induction m) (auto simp: hm_inv_def hm_del_absent)

lemma hm_put_again: "hm_put k v (hm_put k w m) = hm_put k v m"
  by (induction m) auto

lemma hm_put_absent: "k \<notin> fst ` set m \<Longrightarrow> hm_put k v m = m @ [(k, v)]"
  by (induction m) auto

lemma hm_put_present:
  "k \<notin> fst ` set pre \<Longrightarrow> hm_put k v (pre @ (k, w) # post) = pre @ (k, v) # post"
  by (induction pre) auto

lemma hm_del_present:
  "k \<notin> fst ` set pre \<Longrightarrow> hm_del k (pre @ (k, w) # post) = pre @ post"
  by (induction pre) auto

lemma hm_or_insert_absent: "k \<notin> fst ` set m \<Longrightarrow> snd (hm_or_insert k d m) = m @ [(k, d)]"
  by (simp add: hm_or_insert_def hm_get_None_iff [symmetric])

lemma hm_or_insert_present: "k \<in> fst ` set m \<Longrightarrow> snd (hm_or_insert k d m) = m"
  using hm_get_None_iff [of m k] by (cases "hm_get m k") (simp_all add: hm_or_insert_def)

text \<open>
  A write through the reference that \<^verbatim>\<open>or_insert\<close> returned leaves the map that a
  plain store of the written value would leave.
\<close>

lemma hm_put_or_insert: "hm_put k v (snd (hm_or_insert k d m)) = hm_put k v m"
proof (cases "k \<in> fst ` set m")
  case True
  then show ?thesis by (simp add: hm_or_insert_present)
next
  case False
  then have "hm_put k v (m @ [(k, d)]) = m @ [(k, v)]"
    using hm_put_present [of k m v d "[]"] by simp
  with False show ?thesis by (simp add: hm_or_insert_absent hm_put_absent)
qed

lemma hm_split:
  assumes "hm_inv m" and "hm_get m k = Some v"
  shows "\<exists>pre post. m = pre @ (k, v) # post \<and> k \<notin> fst ` set pre \<and> k \<notin> fst ` set post"
  using assms by (simp add: hm_inv_def hm_get_map_of distinct_fst_split)

lemma hm_len_put:
  "hm_len (hm_put k v m) = (if k \<in> fst ` set m then hm_len m else Suc (hm_len m))"
  by (induction m) (auto simp: hm_len_def)

lemma hm_len_del:
  "hm_len (hm_del k m) = (if k \<in> fst ` set m then hm_len m - 1 else hm_len m)"
proof (induction m)
  case Nil
  then show ?case by (simp add: hm_len_def)
next
  case (Cons e m)
  have "k \<in> fst ` set m \<Longrightarrow> 0 < length m"
    by (auto simp: length_pos_if_in_set)
  with Cons show ?case
    by (auto simp: hm_len_def)
qed

section \<open>Keys and the representation invariant\<close>

lemma keys_hm_put: "fst ` set (hm_put k v m) = insert k (fst ` set m)"
  by (induction m) auto

lemma keys_hm_del: "hm_inv m \<Longrightarrow> fst ` set (hm_del k m) = fst ` set m - {k}"
proof -
  assume "hm_inv m"
  then have "x \<in> fst ` set (hm_del k m) \<longleftrightarrow> x \<in> fst ` set m - {k}" for x
    by (simp add: in_keys_iff hm_get_del)
  then show ?thesis by blast
qed

lemma keys_hm_or_insert: "fst ` set (snd (hm_or_insert k d m)) = insert k (fst ` set m)"
proof (cases "k \<in> fst ` set m")
  case True
  then show ?thesis by (auto simp: hm_or_insert_present)
next
  case False
  then show ?thesis by (simp add: hm_or_insert_absent)
qed

lemma hm_inv_new [hm_inv_intros]: "hm_inv hm_new"
  by (simp add: hm_inv_def hm_new_def)

lemma hm_inv_put [hm_inv_intros]: "hm_inv m \<Longrightarrow> hm_inv (hm_put k v m)"
  by (induction m) (auto simp: hm_inv_def keys_hm_put)

lemma hm_inv_del [hm_inv_intros]: "hm_inv m \<Longrightarrow> hm_inv (hm_del k m)"
proof (induction m)
  case Nil
  then show ?case by simp
next
  case (Cons e m)
  then have "hm_inv m" and "fst e \<notin> fst ` set m"
    by (auto simp: hm_inv_def)
  with Cons.IH show ?case
    by (auto simp: hm_inv_def dest: set_hm_del_subset)
qed

lemma hm_inv_or_insert [hm_inv_intros]: "hm_inv m \<Longrightarrow> hm_inv (snd (hm_or_insert k d m))"
proof (cases "k \<in> fst ` set m")
  case True
  then show "hm_inv m \<Longrightarrow> ?thesis" by (simp add: hm_or_insert_present)
next
  case False
  then show "hm_inv m \<Longrightarrow> ?thesis" by (simp add: hm_or_insert_absent hm_inv_def)
qed

lemma hm_inv_insert [hm_inv_intros]: "hm_inv m \<Longrightarrow> hm_inv (snd (hm_insert k v m))"
  by (simp add: hm_insert_def hm_inv_put)

lemma hm_inv_remove [hm_inv_intros]: "hm_inv m \<Longrightarrow> hm_inv (snd (hm_remove k m))"
  by (simp add: hm_remove_def hm_inv_del)

section \<open>Properties of all entries, and flattenings\<close>

text \<open>
  A property of every entry survives a store when the stored entry has it, and a
  deletion always. The two equations after that say what a store and a deletion do to
  a flattening of the entries, as multisets: the contribution of the old entry of the
  key goes and that of the new one comes.
\<close>

lemma list_all_hm_put: "list_all P m \<Longrightarrow> P (k, v) \<Longrightarrow> list_all P (hm_put k v m)"
  by (induction m) auto

lemma list_all_hm_del: "list_all P m \<Longrightarrow> list_all P (hm_del k m)"
  by (induction m) auto

lemma list_all_hm_get: "list_all P m \<Longrightarrow> hm_get m k = Some v \<Longrightarrow> P (k, v)"
  by (induction m) (auto split: if_splits)

lemma mset_flat_map_hm_put:
  "mset (flat_map f (hm_put k v m))
     + (case hm_get m k of None \<Rightarrow> {#} | Some w \<Rightarrow> mset (f (k, w)))
   = mset (flat_map f m) + mset (f (k, v))"
  by (induction m) auto

lemma mset_flat_map_hm_del:
  "mset (flat_map f (hm_del k m))
     + (case hm_get m k of None \<Rightarrow> {#} | Some w \<Rightarrow> mset (f (k, w)))
   = mset (flat_map f m)"
  by (induction m) auto

section \<open>Representations of one map\<close>

lemma hm_equiv_refl: "hm_inv m \<Longrightarrow> hm_equiv m m"
  by (simp add: hm_equiv_def)

lemma hm_equiv_sym: "hm_equiv a b \<Longrightarrow> hm_equiv b a"
  by (simp add: hm_equiv_def)

lemma hm_equiv_trans: "hm_equiv a b \<Longrightarrow> hm_equiv b c \<Longrightarrow> hm_equiv a c"
  by (simp add: hm_equiv_def)

lemma hm_equiv_get: "hm_equiv a b \<Longrightarrow> hm_get a k = hm_get b k"
proof (cases "hm_get a k")
  case None
  assume "hm_equiv a b"
  with None show ?thesis
    by (metis hm_equiv_def hm_get_None_iff)
next
  case (Some v)
  assume "hm_equiv a b"
  with Some show ?thesis
    by (metis hm_equiv_def hm_get_Some_iff)
qed

lemma hm_equiv_iff_get:
  "hm_equiv a b \<longleftrightarrow> hm_inv a \<and> hm_inv b \<and> (\<forall>k. hm_get a k = hm_get b k)"
proof
  assume "hm_equiv a b"
  then show "hm_inv a \<and> hm_inv b \<and> (\<forall>k. hm_get a k = hm_get b k)"
    by (simp add: hm_equiv_get) (simp add: hm_equiv_def)
next
  assume r: "hm_inv a \<and> hm_inv b \<and> (\<forall>k. hm_get a k = hm_get b k)"
  then have "(k, v) \<in> set a \<longleftrightarrow> (k, v) \<in> set b" for k v
    by (metis hm_get_Some_iff)
  with r show "hm_equiv a b"
    by (auto simp: hm_equiv_def)
qed

lemma hm_equiv_mset: "hm_equiv a b \<Longrightarrow> mset a = mset b"
proof -
  assume e: "hm_equiv a b"
  then have "distinct a" and "distinct b"
    by (auto simp: hm_equiv_def hm_inv_def distinct_map)
  with e show ?thesis
    by (simp add: hm_equiv_def set_eq_iff_mset_eq_distinct [symmetric])
qed

lemma hm_equiv_len: "hm_equiv a b \<Longrightarrow> hm_len a = hm_len b"
  by (metis hm_equiv_mset hm_len_def size_mset)

text \<open>Every update takes representations of one map to representations of one map.\<close>

lemma hm_equiv_put: "hm_equiv a b \<Longrightarrow> hm_equiv (hm_put k v a) (hm_put k v b)"
  by (simp add: hm_equiv_iff_get hm_get_put hm_inv_put)

lemma hm_equiv_del: "hm_equiv a b \<Longrightarrow> hm_equiv (hm_del k a) (hm_del k b)"
  by (simp add: hm_equiv_iff_get hm_get_del hm_inv_del)

lemma hm_equiv_or_insert:
  "hm_equiv a b \<Longrightarrow> hm_equiv (snd (hm_or_insert k d a)) (snd (hm_or_insert k d b))"
  by (simp add: hm_equiv_iff_get hm_get_or_insert hm_inv_or_insert)

lemma hm_equiv_or_insert_fst:
  "hm_equiv a b \<Longrightarrow> fst (hm_or_insert k d a) = fst (hm_or_insert k d b)"
  by (simp add: fst_hm_or_insert hm_equiv_get)

section \<open>Equality\<close>

lemma hm_eq_entries:
  "list_all (\<lambda>(key, val). case hm_get b key of None \<Rightarrow> False | Some v \<Rightarrow> val = v) a
     \<longleftrightarrow> (\<forall>(k, v) \<in> set a. hm_get b k = Some v)"
  by (auto simp: list_all_iff split: option.splits)

text \<open>
  On maps that satisfy the invariant the library's test decides whether the two maps
  have the same entries: the count makes the inclusion of the first in the second an
  equality.
\<close>

lemma hm_eq_iff_equiv:
  assumes "hm_inv a" and "hm_inv b"
  shows "hm_eq a b \<longleftrightarrow> hm_equiv a b"
proof
  assume eq: "hm_eq a b"
  then have len: "length a = length b"
    by (simp add: hm_eq_def hm_len_def split: if_splits)
  from eq have "\<forall>(k, v) \<in> set a. hm_get b k = Some v"
    by (simp add: hm_eq_def hm_iter_def hm_eq_entries split: if_splits)
  with assms(2) have sub: "set a \<subseteq> set b"
    by (auto simp: hm_get_Some_iff)
  from assms have da: "distinct a" and db: "distinct b"
    by (auto simp: hm_inv_def distinct_map)
  have "card (set a) = card (set b)"
    using len da db by (simp add: distinct_card)
  with sub have "set a = set b"
    by (simp add: card_subset_eq)
  with assms show "hm_equiv a b"
    by (simp add: hm_equiv_def)
next
  assume e: "hm_equiv a b"
  then have "\<forall>(k, v) \<in> set a. hm_get b k = Some v"
    by (auto simp: hm_equiv_def hm_get_Some_iff)
  with hm_equiv_len [OF e] show "hm_eq a b"
    by (simp add: hm_eq_def hm_iter_def hm_eq_entries)
qed

end
