(* ===== verification/Header.thy ===== *)
theory Header
  imports Std
begin

text \<open>
  The first component of \<^verbatim>\<open>src/lib/src/http/header.rs\<close>: the struct \<^verbatim>\<open>Header\<close>,
  one name and one value, its constructor \<^verbatim>\<open>Header::new\<close>, its rendering by
  \<^verbatim>\<open>Display::fmt\<close> and its conversion from a typed header of the protocol library.

  \<^item> \<open>header\<close> is the struct; the derived equality of the struct is the equality of
    the record, field by field, and \<open>hash_header\<close> is the derived \<^verbatim>\<open>Hash\<close>, which
    hashes the name and then the value.
  \<^item> \<open>header_new\<close> is \<^verbatim>\<open>Header::new\<close>; the conversions \<^verbatim>\<open>Into<Cow<str>>\<close> of its
    arguments keep the text, so they are the identity of the model.
  \<^item> \<open>fmt\<close> is \<^verbatim>\<open>Display::fmt\<close>, returning the text it writes to the formatter.
    \<open>fmt_to\<close> is the same method with the formatter: it writes the name, the
    separator and the value to the sink with \<^verbatim>\<open>write!\<close> and returns the sink, or the
    error of the first write that fails. \<open>to_string\<close> is \<^verbatim>\<open>to_string\<close>, which
    formats into an empty \<^verbatim>\<open>String\<close>.
  \<^item> A typed header is known to this file through two capabilities only, its
    canonical name and its formatter; \<open>hyper_header\<close> is the pair of them and
    \<open>from_hyper\<close> the conversion \<^verbatim>\<open>From<T> for Header\<close>.

  \<open>fmt\<close> and \<open>fmt_to\<close> are two views of the one method: \<open>fmt_to\<close> has the
  result type of the source, \<^verbatim>\<open>fmt::Result\<close>, and \<open>fmt\<close> is the text that it hands
  to the sink; a \<^verbatim>\<open>String\<close> never refuses a write, so formatting into one appends
  \<open>fmt\<close> and succeeds (\<open>fmt_to_string\<close>, \<open>to_string_eq\<close>), and with any other sink
  the result is the error of the first write that fails (\<open>fmt_to_error_iff\<close>).

  The lemmas show that the rendering determines the header when header names contain
  no colon, and that it does not otherwise; and that what the derived hash feeds to
  the hasher determines the header.
\<close>

section \<open>Definitions\<close>

record header =
  name :: cow_str
  "value" :: cow_str

definition header_new :: "cow_str \<Rightarrow> cow_str \<Rightarrow> header" where
  "header_new n v = \<lparr>name = n, value = v\<rparr>"

definition fmt :: "header \<Rightarrow> string" where
  "fmt self = name self @ '': '' @ value self"

definition fmt_to :: "'f writer \<Rightarrow> header \<Rightarrow> 'f \<Rightarrow> fmt_error + 'f" where
  "fmt_to write_str self f = write_fmt write_str f [name self, '': '', value self]"

definition to_string :: "header \<Rightarrow> fmt_error + string" where
  "to_string self = fmt_to string_write_str self []"

record 't hyper_header =
  header_name :: cow_str
  fmt_header :: "'t \<Rightarrow> string"

definition from_hyper :: "'t hyper_header \<Rightarrow> 't \<Rightarrow> header" where
  "from_hyper T hyper_header = header_new (header_name T) (fmt_header T hyper_header)"

definition hash_header :: "'h hasher \<Rightarrow> header \<Rightarrow> 'h \<Rightarrow> 'h" where
  "hash_header write self state = hash_str write (value self) (hash_str write (name self) state)"

section \<open>Lemmas\<close>

lemmas [header_defs] = header_new_def fmt_def from_hyper_def

lemma name_header_new [simp]: "name (header_new n v) = n"
  by (simp add: header_new_def)

lemma value_header_new [simp]: "value (header_new n v) = v"
  by (simp add: header_new_def)

lemma header_new_sel [simp]: "header_new (name h) (value h) = h"
  by (simp add: header_new_def)

lemma header_new_inject [simp]: "header_new n v = header_new n' v' \<longleftrightarrow> n = n' \<and> v = v'"
  by (simp add: header_new_def)

lemma header_eq_iff: "a = b \<longleftrightarrow> name a = name b \<and> value a = value b"
  for a b :: header
  by auto

lemma inj_header_new: "inj (header_new n)"
  by (simp add: inj_def)

lemma fmt_header_new: "fmt (header_new n v) = n @ '': '' @ v"
  by (simp add: fmt_def)

text \<open>
  The name is the part of the rendering before the first colon when the name holds no
  colon; the value is what follows the colon and the space.
\<close>

lemma takeWhile_fmt:
  "CHR '':'' \<notin> set (name h) \<Longrightarrow> takeWhile (\<lambda>c. c \<noteq> CHR '':'') (fmt h) = name h"
  by (simp add: fmt_def takeWhile_neq_append)

lemma dropWhile_fmt:
  "CHR '':'' \<notin> set (name h) \<Longrightarrow>
     dropWhile (\<lambda>c. c \<noteq> CHR '':'') (fmt h) = '': '' @ value h"
  by (simp add: fmt_def dropWhile_neq_append)

lemma fmt_inject:
  assumes "CHR '':'' \<notin> set (name a)" and "CHR '':'' \<notin> set (name b)" and "fmt a = fmt b"
  shows "a = b"
proof -
  have "name a = takeWhile (\<lambda>c. c \<noteq> CHR '':'') (fmt a)"
    using assms(1) by (simp add: takeWhile_fmt)
  also have "\<dots> = name b"
    using assms(2,3) by (simp add: takeWhile_fmt)
  finally have n: "name a = name b" .
  have "'': '' @ value a = dropWhile (\<lambda>c. c \<noteq> CHR '':'') (fmt a)"
    using assms(1) by (simp add: dropWhile_fmt)
  also have "\<dots> = '': '' @ value b"
    using assms(2,3) by (simp add: dropWhile_fmt)
  finally have "value a = value b" by simp
  with n show ?thesis by (simp add: header_eq_iff)
qed

section \<open>Formatting into a sink\<close>

lemma fmt_to_string: "fmt_to string_write_str h buf = Inr (buf @ fmt h)"
  by (simp only: fmt_to_def write_fmt_string) (simp add: fmt_def)

lemma to_string_eq: "to_string h = Inr (fmt h)"
  by (simp add: to_string_def fmt_to_string)

lemma fmt_to_error_iff:
  "fmt_to w h f = Inl e \<longleftrightarrow>
     w f (name h) = Inl e
     \<or> (\<exists>f1. w f (name h) = Inr f1
          \<and> (w f1 '': '' = Inl e \<or> (\<exists>f2. w f1 '': '' = Inr f2 \<and> w f2 (value h) = Inl e)))"
  by (auto simp: fmt_to_def split: sum.splits)

section \<open>The derived hash\<close>

text \<open>
  What the derived \<^verbatim>\<open>Hash\<close> feeds to the hasher determines the header: the byte
  \<^verbatim>\<open>0xff\<close>, which is no byte of a text in UTF-8, ends the name, so a header is not
  hashed like another one whose name and value meet at another place.
\<close>

lemma hash_header_stream:
  "hash_header stream_write h state = state @ name h @ CHR 0xFF # value h @ [CHR 0xFF]"
  by (simp add: hash_header_def hash_str_stream)

lemma hash_header_inject:
  assumes "CHR 0xFF \<notin> set (name a)" and "CHR 0xFF \<notin> set (name b)"
    and "hash_header stream_write a state = hash_header stream_write b state"
  shows "a = b"
proof -
  let ?fed = "\<lambda>h. name h @ CHR 0xFF # value h @ [CHR 0xFF]"
  from assms(3) have fed: "?fed a = ?fed b"
    by (simp add: hash_header_stream)
  have "name a = takeWhile (\<lambda>c. c \<noteq> CHR 0xFF) (?fed a)"
    using assms(1) by (simp add: takeWhile_neq_append)
  also have "\<dots> = name b"
    using assms(2) by (simp only: fed) (simp add: takeWhile_neq_append)
  finally have "name a = name b" .
  with fed show ?thesis
    by (simp add: header_eq_iff)
qed

section \<open>Properties of the rendering\<close>

text \<open>
  \<^bold>\<open>C32\<close> What a header is written as determines the header, where its name
  cannot be taken for a part of its value. Two headers whose names contain no colon
  and render alike are equal; and two headers whose names do not contain the byte
  \<^verbatim>\<open>0xff\<close>, as no text in UTF-8 does, and that feed the same bytes to a hasher are
  equal: the derived \<^verbatim>\<open>Hash\<close> agrees with the derived \<^verbatim>\<open>Eq\<close>. The condition on
  the rendering cannot be dropped, as the method escapes nothing: whatever the texts
  \<open>n\<close>, \<open>m\<close> and \<open>v\<close> are, the header with the name \<open>n: m\<close> and the value \<open>v\<close>
  renders like the header with the name \<open>n\<close> and the value \<open>m: v\<close>, which is another
  header.
\<close>

theorem encodings_determine_header:
  "(CHR '':'' \<notin> set (name a) \<and> CHR '':'' \<notin> set (name b) \<longrightarrow> (fmt a = fmt b \<longleftrightarrow> a = b))
   \<and> (CHR 0xFF \<notin> set (name a) \<and> CHR 0xFF \<notin> set (name b) \<longrightarrow>
        (hash_header stream_write a state = hash_header stream_write b state \<longleftrightarrow> a = b))
   \<and> fmt (header_new (n @ '': '' @ m) v) = fmt (header_new n (m @ '': '' @ v))
   \<and> header_new (n @ '': '' @ m) v \<noteq> header_new n (m @ '': '' @ v)"
proof -
  have "fmt (header_new (n @ '': '' @ m) v) = fmt (header_new n (m @ '': '' @ v))"
    and "header_new (n @ '': '' @ m) v \<noteq> header_new n (m @ '': '' @ v)"
    by (simp_all add: fmt_def)
  with fmt_inject [of a b] hash_header_inject [of a b state] show ?thesis
    by blast
qed

theorem encodings_determine_header_witness:
  "CHR '':'' \<notin> set (name (header_new ''X-Custom'' ''a: b''))
   \<and> CHR '':'' \<notin> set (name (header_new ''X-Custom'' ''a''))
   \<and> fmt (header_new ''X-Custom'' ''a: b'') \<noteq> fmt (header_new ''X-Custom'' ''a'')
   \<and> CHR 0xFF \<notin> set (name (header_new ''ab'' ''c''))
   \<and> CHR 0xFF \<notin> set (name (header_new ''a'' ''bc''))
   \<and> hash_header stream_write (header_new ''ab'' ''c'') []
       \<noteq> hash_header stream_write (header_new ''a'' ''bc'') []"
  using encodings_determine_header
      [of "header_new ''X-Custom'' ''a: b''" "header_new ''X-Custom'' ''a''"]
    encodings_determine_header [of "header_new ''ab'' ''c''" "header_new ''a'' ''bc''" "[]"]
  by simp

end
