(* ===== verification/HeaderMap.thy ===== *)
theory HeaderMap
  imports HashMap Header
begin

text \<open>
  The second component of \<^verbatim>\<open>src/lib/src/http/header.rs\<close>: the struct \<^verbatim>\<open>HeaderMap\<close>,
  a hash map from a header name to the vector of the values stored under it, and
  every method of \<^verbatim>\<open>impl HeaderMap\<close>, in the order of the source.

  \<^item> \<open>header_map\<close> is the struct with its one field \<open>headers\<close>.
  \<^item> A method that takes \<^verbatim>\<open>&self\<close> is a function of the map; a method that takes
    \<^verbatim>\<open>&mut self\<close> returns the map it leaves, beside its result when it has one
    (\<open>replace\<close> and \<open>replace_raw\<close> return the flag first, \<open>remove_all\<close> the drained
    headers first, \<open>add_all\<close> the map first and then what is left of the vector it
    was given by mutable reference).
  \<^item> \<open>replace\<close> and \<open>add\<close> take any \<^verbatim>\<open>Into<Header>\<close> and convert it first
    (\<^verbatim>\<open>header.into()\<close>). The compiler chooses the conversion by the type of the
    argument: the identity for a \<^verbatim>\<open>Header\<close>, \<open>from_hyper\<close> for a typed header. The
    definitions take the converted header, and a call with a typed header \<open>x\<close> of the
    type \<open>T\<close> is \<open>replace self (from_hyper T x)\<close>, as in theory \<open>DocTests\<close>.
  \<^item> An iterator is the list of the items it yields.
  \<^item> \<open>header_map_eq\<close> and \<open>default\<close> are the derived \<^verbatim>\<open>PartialEq\<close> and
    \<^verbatim>\<open>Default\<close>.

  \<open>hmap_wf\<close> is the representation invariant (one entry per name), \<open>nonempty_values\<close>
  the invariant that no stored vector is empty, and \<open>hmap_equiv\<close> relates two maps
  that hold the same entries in a different iteration order.
\<close>

section \<open>Definitions\<close>

record header_map =
  headers :: "(cow_str, cow_str list) hash_map"

definition new :: header_map where
  "new = \<lparr>headers = hm_new\<rparr>"

definition contains :: "header_map \<Rightarrow> string \<Rightarrow> bool" where
  "contains self n = is_some (hm_get (headers self) n)"

definition len :: "header_map \<Rightarrow> nat" where
  "len self = length (flat_map (\<lambda>(_, values). values) (hm_iter (headers self)))"

definition is_empty :: "header_map \<Rightarrow> bool" where
  "is_empty self = hm_is_empty (headers self)"

definition get :: "header_map \<Rightarrow> string \<Rightarrow> string list" where
  "get self n =
     flat_map (\<lambda>values. map (\<lambda>val. val) values) (option_into_iter (hm_get (headers self) n))"

definition get_one :: "header_map \<Rightarrow> string \<Rightarrow> string option" where
  "get_one self n =
     Option.bind (hm_get (headers self) n)
       (\<lambda>values. if length values \<ge> 1 then Some (values ! 0) else None)"

definition replace :: "header_map \<Rightarrow> header \<Rightarrow> bool \<times> header_map" where
  "replace self h =
     (let (old, hs) = hm_insert (name h) [value h] (headers self)
      in (is_some old, self\<lparr>headers := hs\<rparr>))"

definition replace_raw :: "header_map \<Rightarrow> cow_str \<Rightarrow> cow_str \<Rightarrow> bool \<times> header_map" where
  "replace_raw self n v = replace self (header_new n v)"

definition replace_all :: "header_map \<Rightarrow> cow_str \<Rightarrow> cow_str list \<Rightarrow> header_map" where
  "replace_all self n values =
     (let (old, hs) = hm_insert n values (headers self) in self\<lparr>headers := hs\<rparr>)"

definition add :: "header_map \<Rightarrow> header \<Rightarrow> header_map" where
  "add self h =
     (let (slot, hs) = hm_or_insert (name h) [] (headers self)
      in self\<lparr>headers := hm_put (name h) (vec_push slot (value h)) hs\<rparr>)"

definition add_raw :: "header_map \<Rightarrow> cow_str \<Rightarrow> cow_str \<Rightarrow> header_map" where
  "add_raw self n v = add self (header_new n v)"

definition add_all :: "header_map \<Rightarrow> cow_str \<Rightarrow> cow_str list \<Rightarrow> header_map \<times> cow_str list" where
  "add_all self n values =
     (let (slot, hs) = hm_or_insert n [] (headers self);
          (slot', values') = vec_append slot values
      in (self\<lparr>headers := hm_put n slot' hs\<rparr>, values'))"

definition remove :: "header_map \<Rightarrow> string \<Rightarrow> header_map" where
  "remove self n = (let (old, hs) = hm_remove n (headers self) in self\<lparr>headers := hs\<rparr>)"

definition into_iter :: "header_map \<Rightarrow> header list" where
  "into_iter self =
     flat_map (\<lambda>(n, vs). map (\<lambda>v. \<lparr>name = n, value = v\<rparr>) vs) (hm_into_iter (headers self))"

definition remove_all :: "header_map \<Rightarrow> header list \<times> header_map" where
  "remove_all self = (let (old_map, self') = mem_replace self new in (into_iter old_map, self'))"

definition iter :: "header_map \<Rightarrow> header list" where
  "iter self =
     flat_map (\<lambda>(key, values). map (\<lambda>val. header_new key val) values) (hm_iter (headers self))"

definition into_iter_raw :: "header_map \<Rightarrow> (cow_str \<times> cow_str list) list" where
  "into_iter_raw self = hm_into_iter (headers self)"

definition header_map_eq :: "header_map \<Rightarrow> header_map \<Rightarrow> bool" where
  "header_map_eq a b = hm_eq (headers a) (headers b)"

definition default :: header_map where
  "default = \<lparr>headers = hm_new\<rparr>"

text \<open>
  The map that the documentation example of \<^verbatim>\<open>remove\<close> builds: two values under one
  name and one under another. The witnesses of the properties evaluate on it.
\<close>

definition custom_other_map :: header_map where
  "custom_other_map =
     add_raw (add_raw (add_raw new ''X-Custom'' ''value_1'') ''X-Custom'' ''value_2'')
       ''X-Other'' ''other''"

text \<open>The invariants and the equivalence of representations.\<close>

definition hmap_wf :: "header_map \<Rightarrow> bool" where
  "hmap_wf self \<longleftrightarrow> hm_inv (headers self)"

definition nonempty_values :: "header_map \<Rightarrow> bool" where
  "nonempty_values self \<longleftrightarrow> list_all (\<lambda>(n, vs). vs \<noteq> []) (headers self)"

definition hmap_equiv :: "header_map \<Rightarrow> header_map \<Rightarrow> bool" where
  "hmap_equiv a b \<longleftrightarrow> hm_equiv (headers a) (headers b)"

section \<open>The stored entries after each operation\<close>

lemmas [hmap_defs] = new_def contains_def len_def is_empty_def get_def get_one_def
  replace_def replace_raw_def replace_all_def add_def add_raw_def add_all_def remove_def
  into_iter_def remove_all_def iter_def into_iter_raw_def header_map_eq_def default_def

text \<open>
  \<open>get\<close> reads the vector stored under the name, and yields nothing when there is
  none; \<open>get_one\<close> and \<open>contains\<close> are read off the same entry.
\<close>

lemma get_eq: "get self n = (case hm_get (headers self) n of None \<Rightarrow> [] | Some vs \<Rightarrow> vs)"
  by (simp add: get_def flat_map_option split: option.splits)

lemma get_one_eq: "get_one self n = (case get self n of [] \<Rightarrow> None | v # vs \<Rightarrow> Some v)"
  by (simp add: get_one_def get_eq split: option.splits list.splits)

lemma contains_eq: "contains self n \<longleftrightarrow> hm_get (headers self) n \<noteq> None"
  by (simp add: contains_def)

lemma contains_keys: "contains self n \<longleftrightarrow> n \<in> fst ` set (headers self)"
  by (simp add: contains_eq in_keys_iff)

lemma headers_new [simp]: "headers new = []"
  by (simp add: new_def hm_new_def)

lemma headers_replace:
  "headers (snd (replace self h)) = hm_put (name h) [value h] (headers self)"
  by (simp add: replace_def hm_insert_def)

lemma fst_replace: "fst (replace self h) = contains self (name h)"
  by (simp add: replace_def hm_insert_def contains_def)

lemma headers_replace_all:
  "headers (replace_all self n vs) = hm_put n vs (headers self)"
  by (simp add: replace_all_def hm_insert_def)

lemma headers_add:
  "headers (add self h) = hm_put (name h) (get self (name h) @ [value h]) (headers self)"
proof -
  obtain slot hs where oi: "hm_or_insert (name h) [] (headers self) = (slot, hs)"
    by (cases "hm_or_insert (name h) [] (headers self)")
  then have "slot = get self (name h)"
    using fst_hm_or_insert [of "name h" "[]" "headers self"] by (simp add: get_eq)
  moreover from oi have "hm_put (name h) v hs = hm_put (name h) v (headers self)" for v
    using hm_put_or_insert [of "name h" v "[]" "headers self"] by simp
  ultimately show ?thesis
    by (simp add: add_def oi vec_push_def)
qed

lemma headers_add_all:
  "headers (fst (add_all self n vs)) = hm_put n (get self n @ vs) (headers self)"
proof -
  obtain slot hs where oi: "hm_or_insert n [] (headers self) = (slot, hs)"
    by (cases "hm_or_insert n [] (headers self)")
  then have "slot = get self n"
    using fst_hm_or_insert [of n "[]" "headers self"] by (simp add: get_eq)
  moreover from oi have "hm_put n v hs = hm_put n v (headers self)" for v
    using hm_put_or_insert [of n v "[]" "headers self"] by simp
  ultimately show ?thesis
    by (simp add: add_all_def oi vec_append_def)
qed

lemma snd_add_all [simp]: "snd (add_all self n vs) = []"
  by (simp add: add_all_def vec_append_def split: prod.splits)

lemma headers_remove: "headers (remove self n) = hm_del n (headers self)"
  by (simp add: remove_def hm_remove_def)

lemma snd_remove_all [simp]: "snd (remove_all self) = new"
  by (simp add: remove_all_def mem_replace_def)

lemma fst_remove_all: "fst (remove_all self) = into_iter self"
  by (simp add: remove_all_def mem_replace_def)

lemma into_iter_eq_iter: "into_iter self = iter self"
  by (simp add: into_iter_def iter_def hm_into_iter_def hm_iter_def header_new_def)

lemma default_eq_new: "default = new"
  by (simp add: default_def new_def)

lemmas headers_simps = headers_replace headers_replace_all headers_add headers_add_all
  headers_remove

section \<open>Lookup after each operation\<close>

text \<open>
  The entry found under a name after each operation, in terms of the map before it.
  These equations carry the proofs of the properties below.
\<close>

lemma lookup_new: "hm_get (headers new) k = None"
  by simp

lemma get_new: "get new n = []"
  by (simp add: get_eq)

lemma lookup_add:
  "hm_get (headers (add self h)) k =
     (if k = name h then Some (get self k @ [value h]) else hm_get (headers self) k)"
  by (simp add: headers_simps hm_get_put)

lemma lookup_add_all:
  "hm_get (headers (fst (add_all self n vs))) k =
     (if k = n then Some (get self k @ vs) else hm_get (headers self) k)"
  by (simp add: headers_simps hm_get_put)

lemma lookup_replace:
  "hm_get (headers (snd (replace self h))) k =
     (if k = name h then Some [value h] else hm_get (headers self) k)"
  by (simp add: headers_simps hm_get_put)

lemma lookup_replace_all:
  "hm_get (headers (replace_all self n vs)) k =
     (if k = n then Some vs else hm_get (headers self) k)"
  by (simp add: headers_simps hm_get_put)

lemma lookup_remove:
  "hmap_wf self \<Longrightarrow>
     hm_get (headers (remove self n)) k = (if k = n then None else hm_get (headers self) k)"
  by (simp add: headers_simps hmap_wf_def hm_get_del)

lemma lookup_remove_other: "k \<noteq> n \<Longrightarrow> hm_get (headers (remove self n)) k = hm_get (headers self) k"
  by (simp add: headers_simps hm_get_del_other)

lemmas lookup_simps = lookup_new lookup_add lookup_add_all lookup_replace lookup_replace_all
  lookup_remove

text \<open>The same equations for the values that \<open>get\<close> yields.\<close>

lemma get_add:
  "get (add self h) n = (if n = name h then get self n @ [value h] else get self n)"
  by (simp add: get_eq lookup_add)

lemma get_add_all:
  "get (fst (add_all self n vs)) k = (if k = n then get self n @ vs else get self k)"
  by (simp add: get_eq lookup_add_all)

lemma get_replace:
  "get (snd (replace self h)) n = (if n = name h then [value h] else get self n)"
  by (simp add: get_eq lookup_replace)

lemma get_replace_all:
  "get (replace_all self n vs) k = (if k = n then vs else get self k)"
  by (simp add: get_eq lookup_replace_all)

lemma get_remove:
  "hmap_wf self \<Longrightarrow> get (remove self n) k = (if k = n then [] else get self k)"
  by (simp add: get_eq lookup_remove)

lemmas get_simps = get_new get_add get_add_all get_replace get_replace_all get_remove

section \<open>The invariant\<close>

lemma hmap_wf_new: "hmap_wf new"
  by (simp add: hmap_wf_def hm_inv_def)

lemma hmap_wf_add: "hmap_wf self \<Longrightarrow> hmap_wf (add self h)"
  by (simp add: headers_simps hmap_wf_def hm_inv_put)

lemma hmap_wf_add_all: "hmap_wf self \<Longrightarrow> hmap_wf (fst (add_all self n vs))"
  by (simp add: headers_simps hmap_wf_def hm_inv_put)

lemma hmap_wf_replace: "hmap_wf self \<Longrightarrow> hmap_wf (snd (replace self h))"
  by (simp add: headers_simps hmap_wf_def hm_inv_put)

lemma hmap_wf_replace_all: "hmap_wf self \<Longrightarrow> hmap_wf (replace_all self n vs)"
  by (simp add: headers_simps hmap_wf_def hm_inv_put)

lemma hmap_wf_remove: "hmap_wf self \<Longrightarrow> hmap_wf (remove self n)"
  by (simp add: headers_simps hmap_wf_def hm_inv_del)

lemma hmap_wf_remove_all: "hmap_wf (snd (remove_all self))"
  by (simp add: hmap_wf_new)

lemmas hmap_wf_intros = hmap_wf_new hmap_wf_add hmap_wf_add_all hmap_wf_replace
  hmap_wf_replace_all hmap_wf_remove hmap_wf_remove_all

section \<open>Counting\<close>

text \<open>
  \<open>len\<close> flattens the stored vectors and counts. Storing a vector under a key changes
  the count by the difference of the lengths of the new and the old vector, and
  deleting a key takes the length of its vector away.
\<close>

lemma len_headers: "len self = length (flat_map (\<lambda>(_, vs). vs) (headers self))"
  by (simp add: len_def hm_iter_def)

lemma count_hm_put:
  "length (flat_map (\<lambda>(_, vs). vs) (hm_put k v m))
     + length (case hm_get m k of None \<Rightarrow> [] | Some w \<Rightarrow> w)
   = length (flat_map (\<lambda>(_, vs). vs) m) + length v"
  by (induction m) (auto split: prod.splits)

lemma count_hm_del:
  "length (flat_map (\<lambda>(_, vs). vs) (hm_del k m))
     + length (case hm_get m k of None \<Rightarrow> [] | Some w \<Rightarrow> w)
   = length (flat_map (\<lambda>(_, vs). vs) m)"
  by (induction m) (auto split: prod.splits)

lemma len_put:
  "headers self' = hm_put k v (headers self) \<Longrightarrow>
     len self' + length (get self k) = len self + length v"
  using count_hm_put [of k v "headers self"] by (simp add: len_headers get_eq)

lemma len_new: "len new = 0"
  by (simp add: len_headers)

lemma len_add: "len (add self h) = Suc (len self)"
  using len_put [of "add self h" "name h" "get self (name h) @ [value h]" self]
  by (simp add: headers_add)

lemma len_add_all: "len (fst (add_all self n vs)) = len self + length vs"
  using len_put [of "fst (add_all self n vs)" n "get self n @ vs" self]
  by (simp add: headers_add_all)

lemma len_replace: "len (snd (replace self h)) + length (get self (name h)) = Suc (len self)"
  using len_put [of "snd (replace self h)" "name h" "[value h]" self]
  by (simp add: headers_replace)

lemma len_replace_all:
  "len (replace_all self n vs) + length (get self n) = len self + length vs"
  using len_put [of "replace_all self n vs" n vs self]
  by (simp add: headers_replace_all)

lemma len_remove: "len (remove self n) + length (get self n) = len self"
  using count_hm_del [of n "headers self"]
  by (simp add: len_headers headers_remove get_eq)

lemmas len_simps = len_new len_add len_add_all len_replace len_replace_all len_remove

section \<open>The invariant that no stored vector is empty\<close>

lemma is_empty_headers: "is_empty self \<longleftrightarrow> headers self = []"
  by (simp add: is_empty_def hm_is_empty_def hm_len_def)

lemma len_zero_iff: "len self = 0 \<longleftrightarrow> (\<forall>(n, vs) \<in> set (headers self). vs = [])"
  by (auto simp: len_headers flat_map_def)

lemma nonempty_values_new: "nonempty_values new"
  by (simp add: nonempty_values_def)

lemma nonempty_values_add: "nonempty_values self \<Longrightarrow> nonempty_values (add self h)"
  by (simp add: nonempty_values_def headers_add list_all_hm_put)

lemma nonempty_values_replace: "nonempty_values self \<Longrightarrow> nonempty_values (snd (replace self h))"
  by (simp add: nonempty_values_def headers_replace list_all_hm_put)

lemma nonempty_values_remove: "nonempty_values self \<Longrightarrow> nonempty_values (remove self n)"
  by (simp add: nonempty_values_def headers_remove list_all_hm_del)

lemma nonempty_values_remove_all: "nonempty_values (snd (remove_all self))"
  by (simp add: nonempty_values_new)

lemma nonempty_values_replace_all:
  "vs \<noteq> [] \<Longrightarrow> nonempty_values self \<Longrightarrow> nonempty_values (replace_all self n vs)"
  by (simp add: nonempty_values_def headers_replace_all list_all_hm_put)

lemma nonempty_get: "nonempty_values self \<Longrightarrow> contains self n \<Longrightarrow> get self n \<noteq> []"
  by (auto simp: nonempty_values_def contains_eq get_eq dest: list_all_hm_get)

lemma nonempty_values_add_all:
  "vs \<noteq> [] \<or> contains self n \<Longrightarrow> nonempty_values self \<Longrightarrow>
     nonempty_values (fst (add_all self n vs))"
  using nonempty_get [of self n]
  by (auto simp: nonempty_values_def headers_add_all intro: list_all_hm_put)

lemmas nonempty_values_intros = nonempty_values_new nonempty_values_add
  nonempty_values_replace nonempty_values_remove nonempty_values_remove_all
  nonempty_values_replace_all nonempty_values_add_all

section \<open>The example map\<close>

lemma headers_custom_other_map:
  "headers custom_other_map =
     [(''X-Custom'', [''value_1'', ''value_2'']), (''X-Other'', [''other''])]"
  by (simp add: custom_other_map_def add_raw_def headers_add get_eq)

lemma hmap_wf_custom_other_map: "hmap_wf custom_other_map"
  by (simp add: custom_other_map_def add_raw_def hmap_wf_intros)

lemma nonempty_values_custom_other_map: "nonempty_values custom_other_map"
  by (simp add: custom_other_map_def add_raw_def nonempty_values_intros)

lemma lookup_custom_other_map:
  "hm_get (headers custom_other_map) n =
     (if n = ''X-Custom'' then Some [''value_1'', ''value_2'']
      else if n = ''X-Other'' then Some [''other''] else None)"
  by (simp add: headers_custom_other_map)

lemma get_custom_other_map:
  "get custom_other_map n =
     (if n = ''X-Custom'' then [''value_1'', ''value_2'']
      else if n = ''X-Other'' then [''other''] else [])"
  by (simp add: get_eq lookup_custom_other_map)

section \<open>The bulk methods and the single ones\<close>

text \<open>
  \<open>add_all\<close> with a vector that is not empty leaves the map that adding its values
  one by one leaves, and \<open>replace_all\<close> the map that replacing by the first value
  and adding the others leaves: not only the same values, but the same entries at the
  same places. \<open>remove_all\<close> leaves the map that removing every name leaves.
\<close>

lemma header_map_eqI: "headers a = headers b \<Longrightarrow> a = b"
  for a b :: header_map
  by simp

lemma add_all_Cons: "fst (add_all self n (v # vs)) = fst (add_all (add_raw self n v) n vs)"
  by (rule header_map_eqI)
    (simp add: headers_add_all add_raw_def headers_add get_add hm_put_again)

lemma add_all_adds:
  "fst (add_all self n (v # vs)) = foldl (\<lambda>m w. add_raw m n w) self (v # vs)"
proof (induction vs arbitrary: self v)
  case Nil
  show ?case
    by (rule header_map_eqI) (simp add: headers_add_all add_raw_def headers_add)
next
  case (Cons w ws)
  from Cons [of "add_raw self n v" w] show ?case
    by (simp add: add_all_Cons [of self n v])
qed

lemma replace_all_adds:
  "replace_all self n (v # vs) = foldl (\<lambda>m w. add_raw m n w) (snd (replace_raw self n v)) vs"
proof (cases vs)
  case Nil
  then show ?thesis
    by (simp add: replace_raw_def header_map_eqI headers_replace_all headers_replace)
next
  case (Cons w ws)
  have "replace_all self n (v # vs) = fst (add_all (snd (replace_raw self n v)) n vs)"
    by (rule header_map_eqI)
      (simp add: headers_replace_all headers_add_all replace_raw_def headers_replace
        get_replace hm_put_again)
  then show ?thesis
    by (simp add: Cons add_all_adds)
qed

lemma headers_foldl_remove:
  "headers (foldl remove self ks) = foldl (\<lambda>m k. hm_del k m) (headers self) ks"
  by (induction ks arbitrary: self) (simp_all add: headers_remove)

lemma remove_all_removes:
  "hmap_wf self \<Longrightarrow> foldl remove self (map fst (headers self)) = snd (remove_all self)"
  by (rule header_map_eqI) (simp add: headers_foldl_remove foldl_hm_del_keys hmap_wf_def)

section \<open>Properties of the operations\<close>

text \<open>
  \<^bold>\<open>C1\<close> \<open>add\<close> appends the value of the header to the values stored under the
  header's name, after those already there, and leaves the values of every other name
  as they were. The name need not be present: its values are then the one new value.
  The name is contained afterwards, and its first value is the one it had, or the new
  value when it had none.
\<close>

theorem add_appends:
  "get (add self h) n = (if n = name h then get self n @ [value h] else get self n)
   \<and> contains (add self h) n = (n = name h \<or> contains self n)
   \<and> get_one (add self h) (name h)
       = Some (case get self (name h) of [] \<Rightarrow> value h | v # vs \<Rightarrow> v)"
  by (simp add: get_add get_one_eq contains_eq lookup_add split: list.splits)

text \<open>
  \<^bold>\<open>C2\<close> \<open>replace\<close> leaves exactly the one value of the header under the header's
  name, however many values the name had, returns whether the name was present
  before, and leaves the values of every other name as they were.
\<close>

theorem replace_overwrites:
  "get (snd (replace self h)) n = (if n = name h then [value h] else get self n)
   \<and> get_one (snd (replace self h)) (name h) = Some (value h)
   \<and> fst (replace self h) = contains self (name h)"
  by (simp add: get_one_eq get_replace fst_replace)

text \<open>
  \<^bold>\<open>C3\<close> In a map with one entry per name, \<open>remove\<close> deletes the name with all of its
  values: the name is not contained afterwards, it has no values, and the values of
  every other name are as they were.
\<close>

theorem remove_deletes:
  assumes "hmap_wf self"
  shows "get (remove self n) k = (if k = n then [] else get self k)
    \<and> \<not> contains (remove self n) n"
  using assms by (simp add: get_remove contains_eq lookup_remove)

theorem remove_deletes_witness:
  "hmap_wf custom_other_map
   \<and> get (remove custom_other_map ''X-Custom'') ''X-Other'' = [''other'']
   \<and> get (remove custom_other_map ''X-Custom'') ''X-Custom'' = []
   \<and> \<not> contains (remove custom_other_map ''X-Custom'') ''X-Custom''"
  using remove_deletes [OF hmap_wf_custom_other_map, of "''X-Custom''" "''X-Other''"]
    remove_deletes [OF hmap_wf_custom_other_map, of "''X-Custom''" "''X-Custom''"]
  by (simp add: hmap_wf_custom_other_map get_custom_other_map)

text \<open>
  \<^bold>\<open>C4\<close> \<open>len\<close> is the number of stored values, not of names: the empty map has
  none, \<open>add\<close> makes it one more, \<open>replace\<close> takes the old values of the name away
  and counts one, and \<open>remove\<close> takes the values of the name away.
\<close>

theorem len_counts_values:
  "len new = 0
   \<and> len (add self h) = Suc (len self)
   \<and> len (snd (replace self h)) + length (get self (name h)) = Suc (len self)
   \<and> len (remove self n) + length (get self n) = len self"
  by (simp add: len_simps)

text \<open>
  \<^bold>\<open>C12\<close> \<open>add_all\<close> appends all the given values, in their order, after the values
  stored under the name, leaves the other names as they were, makes the map longer by
  the number of given values, and leaves the caller's vector empty. With a vector that
  is not empty it leaves the very map that \<open>add_raw\<close> of its values, one after the
  other, leaves.
\<close>

theorem add_all_appends:
  "get (fst (add_all self n vs)) k = (if k = n then get self n @ vs else get self k)
   \<and> snd (add_all self n vs) = []
   \<and> len (fst (add_all self n vs)) = len self + length vs
   \<and> fst (add_all self n (v # vs)) = foldl (\<lambda>m w. add_raw m n w) self (v # vs)"
  by (simp add: get_add_all len_add_all add_all_adds)

text \<open>
  \<^bold>\<open>C14\<close> \<open>replace_all\<close> installs the given values as the values of the name, whatever
  was stored under it, and leaves the other names as they were; the length changes by
  the difference between the new and the old number of values of the name. With a
  vector that is not empty it leaves the very map that \<open>replace_raw\<close> of the first
  value and \<open>add_raw\<close> of the others, one after the other, leave.
\<close>

theorem replace_all_installs:
  "get (replace_all self n vs) k = (if k = n then vs else get self k)
   \<and> len (replace_all self n vs) + length (get self n) = len self + length vs
   \<and> replace_all self n (v # vs)
       = foldl (\<lambda>m w. add_raw m n w) (snd (replace_raw self n v)) vs"
  using len_replace_all [of self n vs] replace_all_adds [of self n v vs]
  by (simp add: get_replace_all)

text \<open>
  \<open>get_one\<close> returns the first of the values that \<open>get\<close> yields for the
  name, and nothing when \<open>get\<close> yields none; \<open>contains\<close> holds for no name of the
  empty map.
\<close>

lemma get_one_first:
  "get_one self n = (if get self n = [] then None else Some (hd (get self n)))
   \<and> get new n = [] \<and> \<not> contains new n \<and> is_empty new"
  by (simp add: get_one_eq get_eq contains_eq is_empty_headers split: list.splits)

lemma remove_absent: "\<not> contains self n \<Longrightarrow> remove self n = self"
  by (simp add: remove_def hm_remove_def contains_keys hm_del_absent)

lemma replace_absent:
  assumes "\<not> contains self (name h)"
  shows "replace self h = (False, add self h)"
proof -
  from assms have "get self (name h) = []"
    by (simp add: get_eq contains_eq)
  then have "headers (snd (replace self h)) = headers (add self h)"
    by (simp add: headers_replace headers_add)
  then have "snd (replace self h) = add self h"
    by simp
  with assms show ?thesis
    by (simp add: prod_eq_iff fst_replace)
qed

text \<open>
  \<^bold>\<open>C18\<close> What the methods do with a name that the map does not hold. \<open>replace\<close> is
  \<open>add\<close>: it reports that there was no header of that name and leaves the map that
  \<open>add\<close> leaves, with the one value under the name and one value more in all.
  \<open>remove\<close> leaves the map as it is, any number of times. \<open>get\<close> yields nothing
  and \<open>get_one\<close> finds nothing. No method fails. A name is absent unless the map
  holds exactly its text: in the witness the map holds \<^verbatim>\<open>X-Custom\<close> and not
  \<^verbatim>\<open>x-custom\<close>.
\<close>

theorem absent_name_behaviour:
  assumes "\<not> contains self (name h)"
  shows "replace self h = (False, add self h)
    \<and> get (snd (replace self h)) (name h) = [value h]
    \<and> len (snd (replace self h)) = Suc (len self)
    \<and> remove self (name h) = self
    \<and> remove (remove self (name h)) (name h) = self
    \<and> get self (name h) = [] \<and> get_one self (name h) = None"
proof -
  from assms have "get self (name h) = []"
    by (simp add: get_eq contains_eq)
  with assms show ?thesis
    by (simp add: replace_absent remove_absent get_add len_add get_one_eq)
qed

theorem absent_name_behaviour_witness:
  "\<not> contains custom_other_map ''Accept''
   \<and> replace custom_other_map (header_new ''Accept'' ''text/html'')
       = (False, add custom_other_map (header_new ''Accept'' ''text/html''))
   \<and> len (snd (replace custom_other_map (header_new ''Accept'' ''text/html''))) = 4
   \<and> remove custom_other_map ''Accept'' = custom_other_map
   \<and> \<not> contains custom_other_map ''x-custom''
   \<and> get custom_other_map ''x-custom'' = []
   \<and> get custom_other_map ''X-Custom'' = [''value_1'', ''value_2'']"
  using absent_name_behaviour [of custom_other_map "header_new ''Accept'' ''text/html''"]
    absent_name_behaviour [of custom_other_map "header_new ''x-custom'' ''value_3''"]
  by (simp add: contains_eq lookup_custom_other_map len_add get_custom_other_map)
    (simp add: len_headers headers_custom_other_map)

text \<open>
  Removing a name that is not in the map changes nothing, so removing a name a
  second time changes nothing.
\<close>

lemma remove_twice:
  assumes "hmap_wf self"
  shows "remove (remove self n) n = remove self n
    \<and> (\<not> contains self n \<longrightarrow> remove self n = self)"
proof -
  from assms have "\<not> contains (remove self n) n"
    by (simp add: contains_eq lookup_remove)
  then show ?thesis by (simp add: remove_absent)
qed

text \<open>
  \<^bold>\<open>C24\<close> In a map that stores no empty vector, the three ways of asking whether
  something is stored agree: a name is contained exactly when it has a value, exactly
  when \<open>get_one\<close> finds one, and the map is empty exactly when its length is zero.
\<close>

theorem nonempty_observations:
  assumes "nonempty_values self"
  shows "(contains self n \<longleftrightarrow> get self n \<noteq> [])
    \<and> (contains self n \<longleftrightarrow> get_one self n \<noteq> None)
    \<and> (is_empty self \<longleftrightarrow> len self = 0)"
proof -
  have c: "contains self n \<longleftrightarrow> get self n \<noteq> []"
    using assms nonempty_get [of self n]
    by (auto simp: contains_eq get_eq split: option.splits)
  have "len self = 0 \<longleftrightarrow> headers self = []"
    using assms by (cases "headers self") (auto simp: len_zero_iff nonempty_values_def)
  with c show ?thesis
    by (simp add: get_one_eq is_empty_headers split: list.splits)
qed

theorem nonempty_observations_witness:
  "nonempty_values custom_other_map
   \<and> contains custom_other_map ''X-Other'' \<and> get custom_other_map ''X-Other'' \<noteq> []
   \<and> get_one custom_other_map ''X-Other'' \<noteq> None
   \<and> \<not> is_empty custom_other_map \<and> len custom_other_map \<noteq> 0"
  using nonempty_observations [OF nonempty_values_custom_other_map, of "''X-Other''"]
  by (simp add: nonempty_values_custom_other_map contains_eq lookup_custom_other_map
      is_empty_headers headers_custom_other_map)

text \<open>
  \<^bold>\<open>C23\<close> \<open>replace_all\<close> with an empty vector stores an entry without values: the name
  is contained and the map is not empty, yet the name has no value and \<open>get_one\<close>
  finds none. The map then stores an empty vector, for any map it is called on.
\<close>

theorem replace_all_empty_entry:
  "contains (replace_all self n []) n
   \<and> get (replace_all self n []) n = []
   \<and> get_one (replace_all self n []) n = None
   \<and> \<not> is_empty (replace_all self n [])
   \<and> \<not> nonempty_values (replace_all self n [])"
proof -
  have "(n, []) \<in> set (headers (replace_all self n []))"
    by (simp add: headers_replace_all hm_put_mem)
  then have "\<not> nonempty_values (replace_all self n [])"
    by (auto simp: nonempty_values_def list_all_iff)
  moreover have "hm_get (headers (replace_all self n [])) n = Some []"
    by (simp add: lookup_replace_all)
  moreover have "headers (replace_all self n []) \<noteq> []"
    by (simp add: headers_replace_all)
  ultimately show ?thesis
    by (simp add: contains_eq get_one_eq get_eq is_empty_headers)
qed

end
