(* ===== verification/HeaderMap_Iter.thy ===== *)
theory HeaderMap_Iter
  imports HeaderMap
begin

text \<open>
  The iterators of the header map (\<^verbatim>\<open>iter\<close>, \<^verbatim>\<open>into_iter\<close>, \<^verbatim>\<open>into_iter_raw\<close>),
  the drain \<^verbatim>\<open>remove_all\<close>, the derived equality, and the independence of all
  results from the order in which the hash map is iterated.

  The source promises of an iteration that the names come in no specific order, that
  the values of one name are grouped together, and that they are in the order in which
  they were added. \<open>iter_grouped\<close> states the last two for every map with one entry
  per name, whatever the order of its entries; \<open>iter_multiset\<close> says which headers an
  iteration yields after an update; \<open>hmap_equiv_intros\<close> and \<open>hmap_equiv_observations\<close>
  show that two maps holding the same entries in different orders cannot be told
  apart by any method but through the order of an iteration, and stay so under every
  update.
\<close>

section \<open>Definitions\<close>

text \<open>
  The entries of \<open>custom_other_map\<close>, added in another order: the names come the
  other way round in an iteration.
\<close>

definition other_custom_map :: header_map where
  "other_custom_map =
     add_raw (add_raw (add_raw new ''X-Other'' ''other'') ''X-Custom'' ''value_1'')
       ''X-Custom'' ''value_2''"

section \<open>The iterators as flattenings of the entries\<close>

lemma iter_headers:
  "iter self = flat_map (\<lambda>(k, vs). map (header_new k) vs) (headers self)"
  by (simp add: iter_def hm_iter_def)

lemma into_iter_raw_headers: "into_iter_raw self = headers self"
  by (simp add: into_iter_raw_def hm_into_iter_def)

lemma map_value_groups:
  "map value (flat_map (\<lambda>(k, vs). map (header_new k) vs) m) = flat_map (\<lambda>(_, vs). vs) m"
  by (induction m) (auto simp: comp_def)

lemma length_iter: "length (iter self) = len self"
  by (simp add: iter_headers len_headers length_flat_map split_def)

lemma name_groups:
  "h \<in> set (flat_map (\<lambda>(k, vs). map (header_new k) vs) m) \<Longrightarrow> name h \<in> fst ` set m"
  by (induction m) auto

lemma flat_map_groups_absent:
  "n \<notin> fst ` set m \<Longrightarrow> n \<notin> name ` set (flat_map (\<lambda>(k, vs). map (header_new k) vs) m)"
  by (auto dest: name_groups)

lemma filter_group:
  "filter (\<lambda>h. name h = n) (map (header_new k) vs) = (if k = n then map (header_new n) vs else [])"
  by (induction vs) auto

lemma filter_name_absent: "n \<notin> name ` set hs \<Longrightarrow> filter (\<lambda>h. name h = n) hs = []"
  by (induction hs) auto

lemma iter_absent: "hm_get (headers self) n = None \<Longrightarrow> n \<notin> name ` set (iter self)"
  by (simp add: iter_headers flat_map_groups_absent hm_get_None_iff)

lemma iter_present:
  assumes "hmap_wf self" and "hm_get (headers self) n = Some vs"
  shows "\<exists>pre post. iter self = pre @ map (header_new n) vs @ post
           \<and> n \<notin> name ` set pre \<and> n \<notin> name ` set post"
proof -
  from assms obtain p q where m: "headers self = p @ (n, vs) # q"
    and p: "n \<notin> fst ` set p" and q: "n \<notin> fst ` set q"
    using hm_split [of "headers self" n vs] by (auto simp: hmap_wf_def)
  let ?g = "\<lambda>(k, vs). map (header_new k) vs"
  have "iter self = flat_map ?g p @ map (header_new n) vs @ flat_map ?g q"
    by (simp add: iter_headers m)
  moreover have "n \<notin> name ` set (flat_map ?g p)" and "n \<notin> name ` set (flat_map ?g q)"
    using p q by (simp_all add: flat_map_groups_absent)
  ultimately show ?thesis by blast
qed

lemma iter_split:
  assumes "hmap_wf self"
  shows "\<exists>pre post. iter self = pre @ map (header_new n) (get self n) @ post
           \<and> n \<notin> name ` set pre \<and> n \<notin> name ` set post"
proof (cases "hm_get (headers self) n")
  case None
  then have "iter self = iter self @ map (header_new n) (get self n) @ []"
    and "n \<notin> name ` set (iter self)"
    by (simp_all add: get_eq iter_absent)
  then show ?thesis by (metis empty_iff image_empty list.set(1))
next
  case (Some vs)
  with assms show ?thesis
    using iter_present [of self n vs] by (simp add: get_eq)
qed

lemma filter_iter:
  assumes "hmap_wf self"
  shows "filter (\<lambda>h. name h = n) (iter self) = map (header_new n) (get self n)"
proof -
  from iter_split [OF assms, of n] obtain pre post
    where i: "iter self = pre @ map (header_new n) (get self n) @ post"
      and "n \<notin> name ` set pre" and "n \<notin> name ` set post"
    by blast
  then show ?thesis
    by (simp add: i filter_name_absent filter_group)
qed

lemma set_iter:
  assumes "hmap_wf self"
  shows "h \<in> set (iter self) \<longleftrightarrow> value h \<in> set (get self (name h))"
proof -
  have "h \<in> set (iter self) \<longleftrightarrow> h \<in> set (filter (\<lambda>x. name x = name h) (iter self))"
    by simp
  also have "\<dots> \<longleftrightarrow> h \<in> set (map (header_new (name h)) (get self (name h)))"
    by (simp only: filter_iter [OF assms])
  also have "\<dots> \<longleftrightarrow> value h \<in> set (get self (name h))"
    by (auto simp: header_eq_iff)
  finally show ?thesis .
qed

lemma names_iter: "hmap_wf self \<Longrightarrow> n \<in> name ` set (iter self) \<longleftrightarrow> get self n \<noteq> []"
proof -
  assume wf: "hmap_wf self"
  have "n \<in> name ` set (iter self) \<longleftrightarrow> filter (\<lambda>h. name h = n) (iter self) \<noteq> []"
    by (auto simp: filter_empty_conv)
  then show ?thesis
    by (simp add: filter_iter [OF wf])
qed

lemma mset_iter_put:
  "headers self' = hm_put k v (headers self) \<Longrightarrow>
     mset (iter self') + mset (map (header_new k) (get self k))
       = mset (iter self) + mset (map (header_new k) v)"
  using mset_flat_map_hm_put [of "\<lambda>(k, vs). map (header_new k) vs" k v "headers self"]
  by (simp add: iter_headers get_eq split: option.splits)

lemma mset_iter_del:
  "headers self' = hm_del k (headers self) \<Longrightarrow>
     mset (iter self') + mset (map (header_new k) (get self k)) = mset (iter self)"
  using mset_flat_map_hm_del [of "\<lambda>(k, vs). map (header_new k) vs" k "headers self"]
  by (simp add: iter_headers get_eq split: option.splits)

section \<open>Representations of one header map\<close>

lemma hmap_equiv_lookup: "hmap_equiv a b \<Longrightarrow> hm_get (headers a) n = hm_get (headers b) n"
  by (simp add: hmap_equiv_def hm_equiv_get)

lemma hmap_equiv_lookupI:
  "hmap_wf a \<Longrightarrow> hmap_wf b \<Longrightarrow> (\<And>n. hm_get (headers a) n = hm_get (headers b) n)
     \<Longrightarrow> hmap_equiv a b"
  by (simp add: hmap_equiv_def hmap_wf_def hm_equiv_iff_get)

lemma hmap_equiv_get: "hmap_equiv a b \<Longrightarrow> get a n = get b n"
  by (simp add: get_eq hmap_equiv_lookup)

lemma hmap_equiv_iter: "hmap_equiv a b \<Longrightarrow> mset (iter a) = mset (iter b)"
  unfolding iter_headers hmap_equiv_def
  by (rule mset_flat_map_cong) (rule hm_equiv_mset)

lemma hmap_equiv_len: "hmap_equiv a b \<Longrightarrow> len a = len b"
  unfolding len_headers hmap_equiv_def
  by (rule length_flat_map_cong) (rule hm_equiv_mset)

lemma hmap_equiv_put:
  assumes "hmap_equiv a b"
    and "headers a' = hm_put k v (headers a)" and "headers b' = hm_put k v (headers b)"
  shows "hmap_equiv a' b'"
  using assms by (simp add: hmap_equiv_def hm_equiv_put)

lemma hmap_wf_other_custom_map: "hmap_wf other_custom_map"
  by (simp add: other_custom_map_def add_raw_def hmap_wf_intros)

lemma headers_other_custom_map:
  "headers other_custom_map =
     [(''X-Other'', [''other'']), (''X-Custom'', [''value_1'', ''value_2''])]"
  by (simp add: other_custom_map_def add_raw_def headers_add get_eq)

lemma hmap_equiv_custom: "hmap_equiv custom_other_map other_custom_map"
  by (auto simp: hmap_equiv_def hm_equiv_def hm_inv_def headers_custom_other_map
      headers_other_custom_map)

section \<open>Properties of the iterators\<close>

text \<open>
  \<^bold>\<open>C10\<close> In a map with one entry per name, an iteration yields the values of a name
  grouped together and in the order in which \<open>get\<close> yields them: the iteration is
  some headers of other names, then one header for each value of the name, in order,
  then headers of other names again. This holds for every order of the entries.
\<close>

theorem iter_grouped:
  assumes "hmap_wf self"
  shows "\<exists>pre post. iter self = pre @ map (header_new n) (get self n) @ post
           \<and> n \<notin> name ` set pre \<and> n \<notin> name ` set post"
  using assms by (rule iter_split)

theorem iter_grouped_witness:
  "hmap_wf custom_other_map
   \<and> (\<exists>pre post. iter custom_other_map
         = pre @ map (header_new ''X-Custom'') [''value_1'', ''value_2''] @ post
       \<and> ''X-Custom'' \<notin> name ` set pre \<and> ''X-Custom'' \<notin> name ` set post)"
  using iter_grouped [OF hmap_wf_custom_other_map, of "''X-Custom''"]
  by (simp add: hmap_wf_custom_other_map get_eq lookup_custom_other_map)

text \<open>
  \<^bold>\<open>C31\<close> What an iteration yields after an update, as a multiset: \<open>add\<close> adds the
  header, \<open>remove\<close> takes the headers of the name away, and \<open>replace\<close> takes the
  headers of the name away and adds the header. An iteration yields as many headers
  as \<open>len\<close> counts, and \<open>into_iter\<close> yields what \<open>iter\<close> yields, which is what
  \<open>into_iter_raw\<close> yields with the values of each name flattened into headers.
\<close>

theorem iter_multiset:
  "mset (iter (add self h)) = add_mset h (mset (iter self))
   \<and> mset (iter (remove self n)) + mset (map (header_new n) (get self n)) = mset (iter self)
   \<and> mset (iter (snd (replace self h))) + mset (map (header_new (name h)) (get self (name h)))
       = add_mset h (mset (iter self))
   \<and> length (iter self) = len self
   \<and> into_iter self = iter self
   \<and> into_iter self = flat_map (\<lambda>(n, vs). map (header_new n) vs) (into_iter_raw self)"
proof -
  have "mset (iter (add self h)) = add_mset h (mset (iter self))"
    using mset_iter_put [of "add self h" "name h" "get self (name h) @ [value h]" self]
    by (simp add: headers_add)
  moreover have "mset (iter (snd (replace self h)))
      + mset (map (header_new (name h)) (get self (name h))) = add_mset h (mset (iter self))"
    using mset_iter_put [of "snd (replace self h)" "name h" "[value h]" self]
    by (simp add: headers_replace)
  moreover have "mset (iter (remove self n)) + mset (map (header_new n) (get self n))
      = mset (iter self)"
    by (rule mset_iter_del) (simp add: headers_remove)
  moreover have "into_iter self
      = flat_map (\<lambda>(n, vs). map (header_new n) vs) (into_iter_raw self)"
    by (simp add: into_iter_eq_iter iter_headers into_iter_raw_headers)
  ultimately show ?thesis
    using length_iter [of self] into_iter_eq_iter [of self] by blast
qed

text \<open>
  \<^bold>\<open>C9\<close> \<open>remove_all\<close> leaves the empty map and returns every stored value once: as
  many headers as the map was long, and, for each name, exactly the headers of the
  values that \<open>get\<close> yielded for it, in the same order. The map it leaves is the map
  that \<open>remove\<close> of every name of the map, one after the other, leaves.
\<close>

theorem remove_all_drains:
  assumes "hmap_wf self"
  shows "snd (remove_all self) = new
    \<and> is_empty (snd (remove_all self))
    \<and> length (fst (remove_all self)) = len self
    \<and> filter (\<lambda>h. name h = n) (fst (remove_all self)) = map (header_new n) (get self n)
    \<and> foldl remove self (map fst (into_iter_raw self)) = snd (remove_all self)"
  using assms remove_all_removes [OF assms]
  by (simp add: fst_remove_all into_iter_eq_iter length_iter filter_iter is_empty_headers
      into_iter_raw_headers)

theorem remove_all_drains_witness:
  "hmap_wf custom_other_map
   \<and> snd (remove_all custom_other_map) = new
   \<and> is_empty (snd (remove_all custom_other_map))
   \<and> length (fst (remove_all custom_other_map)) = 3
   \<and> filter (\<lambda>h. name h = ''X-Custom'') (fst (remove_all custom_other_map))
       = [header_new ''X-Custom'' ''value_1'', header_new ''X-Custom'' ''value_2'']"
proof -
  have "len custom_other_map = 3"
    by (simp add: len_headers headers_custom_other_map)
  then show ?thesis
    using remove_all_drains [OF hmap_wf_custom_other_map, of "''X-Custom''"]
    by (simp add: hmap_wf_custom_other_map get_eq lookup_custom_other_map)
qed

text \<open>
  A header is yielded by an iteration of a map with one entry per name exactly
  when its value is among the values that \<open>get\<close> yields for its name.
\<close>

lemma iter_membership:
  assumes "hmap_wf self"
  shows "h \<in> set (iter self) \<longleftrightarrow> value h \<in> set (get self (name h))"
  using assms by (rule set_iter)

section \<open>Independence from the iteration order\<close>

text \<open>
  Two maps that hold the same entries in different iteration orders give the same
  answer to every query, and iterations that yield the same headers up to their order.
\<close>

lemma hmap_equiv_refl: "hmap_wf self \<Longrightarrow> hmap_equiv self self"
  by (simp add: hmap_equiv_def hmap_wf_def hm_equiv_refl)

lemma hmap_equiv_sym: "hmap_equiv a b \<Longrightarrow> hmap_equiv b a"
  by (simp add: hmap_equiv_def hm_equiv_sym)

lemma hmap_equiv_trans: "hmap_equiv a b \<Longrightarrow> hmap_equiv b c \<Longrightarrow> hmap_equiv a c"
  unfolding hmap_equiv_def by (rule hm_equiv_trans)

lemma hmap_equiv_observations:
  assumes "hmap_equiv a b"
  shows "get a n = get b n \<and> get_one a n = get_one b n \<and> contains a n = contains b n
    \<and> len a = len b \<and> is_empty a = is_empty b
    \<and> fst (replace a h) = fst (replace b h)
    \<and> mset (iter a) = mset (iter b)"
proof -
  have "is_empty a = is_empty b"
    using hmap_equiv_len [OF assms] hm_equiv_len [of "headers a" "headers b"] assms
    by (simp add: is_empty_def hm_is_empty_def hmap_equiv_def)
  with assms show ?thesis
    by (simp add: get_one_eq contains_eq fst_replace hmap_equiv_get hmap_equiv_lookup
        hmap_equiv_len hmap_equiv_iter)
qed

text \<open>
  Every update takes two maps that hold the same entries in different orders to two
  maps that hold the same entries.
\<close>

lemma hmap_equiv_add:
  assumes "hmap_equiv a b"
  shows "hmap_equiv (add a h) (add b h)"
  using hmap_equiv_get [OF assms, of "name h"]
  by (intro hmap_equiv_put [OF assms]) (simp_all add: headers_add)

lemma hmap_equiv_add_all:
  assumes "hmap_equiv a b"
  shows "hmap_equiv (fst (add_all a n vs)) (fst (add_all b n vs))"
  using hmap_equiv_get [OF assms, of n]
  by (intro hmap_equiv_put [OF assms]) (simp_all add: headers_add_all)

lemma hmap_equiv_replace:
  "hmap_equiv a b \<Longrightarrow> hmap_equiv (snd (replace a h)) (snd (replace b h))"
  by (rule hmap_equiv_put) (simp_all add: headers_replace)

lemma hmap_equiv_replace_all:
  "hmap_equiv a b \<Longrightarrow> hmap_equiv (replace_all a n vs) (replace_all b n vs)"
  by (rule hmap_equiv_put) (simp_all add: headers_replace_all)

lemma hmap_equiv_remove: "hmap_equiv a b \<Longrightarrow> hmap_equiv (remove a n) (remove b n)"
  by (simp add: hmap_equiv_def headers_remove hm_equiv_del)

lemma hmap_equiv_new: "hmap_equiv new new"
  by (simp add: hmap_equiv_def hm_equiv_refl hm_inv_def)

lemmas hmap_equiv_intros = hmap_equiv_add hmap_equiv_add_all hmap_equiv_replace
  hmap_equiv_replace_all hmap_equiv_remove hmap_equiv_new

section \<open>The derived equality\<close>

lemma header_map_eq_equiv:
  "hmap_wf a \<Longrightarrow> hmap_wf b \<Longrightarrow> header_map_eq a b \<longleftrightarrow> hmap_equiv a b"
  by (simp add: header_map_eq_def hmap_equiv_def hmap_wf_def hm_eq_iff_equiv)

text \<open>
  \<^bold>\<open>C26\<close> The derived equality of two maps with one entry per name holds exactly when
  the maps contain the same names with the same values in the same order, whatever
  the order of the names in the two hash maps.
\<close>

theorem header_map_eq_iff:
  assumes "hmap_wf a" and "hmap_wf b"
  shows "header_map_eq a b \<longleftrightarrow> (\<forall>n. contains a n = contains b n \<and> get a n = get b n)"
proof -
  have "(contains a n = contains b n \<and> get a n = get b n)
      \<longleftrightarrow> hm_get (headers a) n = hm_get (headers b) n" for n
    by (cases "hm_get (headers a) n"; cases "hm_get (headers b) n")
      (auto simp: contains_eq get_eq)
  with assms show ?thesis
    by (simp add: header_map_eq_equiv hmap_equiv_def hmap_wf_def hm_equiv_iff_get)
qed

theorem header_map_eq_iff_witness:
  "hmap_wf custom_other_map \<and> hmap_wf other_custom_map
   \<and> header_map_eq custom_other_map other_custom_map
   \<and> \<not> header_map_eq custom_other_map (remove other_custom_map ''X-Other'')"
proof -
  let ?r = "remove other_custom_map ''X-Other''"
  have wf: "hmap_wf ?r"
    by (simp add: hmap_wf_other_custom_map hmap_wf_remove)
  have "contains custom_other_map n = contains other_custom_map n
      \<and> get custom_other_map n = get other_custom_map n" for n
    by (simp add: contains_eq get_eq hmap_equiv_lookup [OF hmap_equiv_custom])
  then have "header_map_eq custom_other_map other_custom_map"
    using header_map_eq_iff [OF hmap_wf_custom_other_map hmap_wf_other_custom_map] by simp
  moreover have "contains custom_other_map ''X-Other''" and "\<not> contains ?r ''X-Other''"
    by (simp_all add: contains_eq lookup_custom_other_map lookup_remove
        hmap_wf_other_custom_map)
  then have "\<not> header_map_eq custom_other_map ?r"
    using header_map_eq_iff [OF hmap_wf_custom_other_map wf] by blast
  ultimately show ?thesis
    by (simp add: hmap_wf_custom_other_map hmap_wf_other_custom_map)
qed

end
