(* ===== verification/HeaderMap_Spec.thy ===== *)
theory HeaderMap_Spec
  imports HeaderMap_Iter
begin

text \<open>
  What the header map promises, stated without the hash map: a header map is a
  partial function from names to lists of values, and every method is an update or a
  reading of that function. The abstraction \<open>abs_of\<close> reads a stored map as such a
  function, and the refinement lemmas show that each method of theory \<open>HeaderMap\<close>
  does to the stored map what its specification does to the function:
  \<open>abs_of (f self) = a_f (abs_of self)\<close> for the updates, and
  \<open>q self = a_q (abs_of self)\<close> for the queries.

  The specification distinguishes a name without entry (\<open>None\<close>) from a name with
  an entry that has no values (\<open>Some []\<close>): the code can store the second
  (\<open>replace_all\<close> with an empty vector), and \<open>contains\<close> tells them apart.

  An iteration is specified by what it may yield, not by one list: \<open>a_iteration m hs\<close>
  holds when \<open>hs\<close> consists, for every name, of the headers of the name's values, in
  their order and next to each other, the names in any order.
\<close>

section \<open>The specification\<close>

type_synonym abs_headers = "string \<Rightarrow> string list option"

definition abs_of :: "header_map \<Rightarrow> abs_headers" where
  "abs_of self = hm_get (headers self)"

definition a_new :: abs_headers where
  "a_new = Map.empty"

definition a_contains :: "abs_headers \<Rightarrow> string \<Rightarrow> bool" where
  "a_contains m n \<longleftrightarrow> m n \<noteq> None"

definition a_get :: "abs_headers \<Rightarrow> string \<Rightarrow> string list" where
  "a_get m n = (case m n of None \<Rightarrow> [] | Some vs \<Rightarrow> vs)"

definition a_get_one :: "abs_headers \<Rightarrow> string \<Rightarrow> string option" where
  "a_get_one m n = (case a_get m n of [] \<Rightarrow> None | v # vs \<Rightarrow> Some v)"

definition a_len :: "abs_headers \<Rightarrow> nat" where
  "a_len m = (\<Sum>n \<in> dom m. length (a_get m n))"

definition a_is_empty :: "abs_headers \<Rightarrow> bool" where
  "a_is_empty m \<longleftrightarrow> dom m = {}"

definition a_replace :: "abs_headers \<Rightarrow> header \<Rightarrow> bool \<times> abs_headers" where
  "a_replace m h = (a_contains m (name h), m(name h \<mapsto> [value h]))"

definition a_replace_all :: "abs_headers \<Rightarrow> string \<Rightarrow> string list \<Rightarrow> abs_headers" where
  "a_replace_all m n vs = m(n \<mapsto> vs)"

definition a_add :: "abs_headers \<Rightarrow> header \<Rightarrow> abs_headers" where
  "a_add m h = m(name h \<mapsto> a_get m (name h) @ [value h])"

definition a_add_all :: "abs_headers \<Rightarrow> string \<Rightarrow> string list \<Rightarrow> abs_headers \<times> string list" where
  "a_add_all m n vs = (m(n \<mapsto> a_get m n @ vs), [])"

definition a_remove :: "abs_headers \<Rightarrow> string \<Rightarrow> abs_headers" where
  "a_remove m n = m(n := None)"

definition a_iteration :: "abs_headers \<Rightarrow> header list \<Rightarrow> bool" where
  "a_iteration m hs \<longleftrightarrow>
     (\<forall>n. \<exists>pre post. hs = pre @ map (header_new n) (a_get m n) @ post
            \<and> n \<notin> name ` set pre \<and> n \<notin> name ` set post)"

section \<open>Refinement of the queries\<close>

lemmas a_defs = a_new_def a_contains_def a_get_def a_get_one_def a_is_empty_def
  a_replace_def a_replace_all_def a_add_def a_add_all_def a_remove_def

lemma abs_of_apply: "abs_of self n = hm_get (headers self) n"
  by (simp add: abs_of_def)

lemma dom_abs_of: "dom (abs_of self) = fst ` set (headers self)"
proof -
  have "n \<in> dom (abs_of self) \<longleftrightarrow> n \<in> fst ` set (headers self)" for n
    by (simp add: abs_of_def dom_def in_keys_iff)
  then show ?thesis by blast
qed

lemma a_get_abs_of: "a_get (abs_of self) n = get self n"
  by (simp add: a_get_def abs_of_def get_eq)

lemma refines_contains: "contains self n = a_contains (abs_of self) n"
  by (simp add: a_contains_def abs_of_def contains_eq)

lemma refines_get_one: "get_one self n = a_get_one (abs_of self) n"
  by (simp add: a_get_one_def a_get_abs_of get_one_eq)

lemma refines_is_empty: "is_empty self = a_is_empty (abs_of self)"
  by (simp add: a_is_empty_def dom_abs_of is_empty_headers)

text \<open>
  The length is a sum over the entries; with one entry per name it is the sum over
  the names of the number of their values.
\<close>

lemma sum_entries_distinct:
  assumes "distinct (map fst m)"
  shows "sum_list (map (\<lambda>e. f (snd e)) m) = (\<Sum>k \<in> fst ` set m. f (the (map_of m k)))"
  using assms
proof (induction m)
  case Nil
  then show ?case by simp
next
  case (Cons e m)
  then have notin: "fst e \<notin> fst ` set m" and d: "distinct (map fst m)"
    by auto
  have "(\<Sum>k \<in> fst ` set m. f (the (map_of (e # m) k))) = (\<Sum>k \<in> fst ` set m. f (the (map_of m k)))"
    using notin by (intro sum.cong) (auto simp: rev_image_eqI)
  with Cons.IH [OF d] notin show ?case
    by (cases e) simp
qed

lemma refines_len:
  assumes "hmap_wf self"
  shows "len self = a_len (abs_of self)"
proof -
  have "len self = sum_list (map (\<lambda>e. length (snd e)) (headers self))"
    by (simp add: len_headers length_flat_map split_def)
  also have "\<dots> = (\<Sum>k \<in> fst ` set (headers self). length (the (map_of (headers self) k)))"
    using assms by (intro sum_entries_distinct) (simp add: hmap_wf_def hm_inv_def)
  also have "\<dots> = a_len (abs_of self)"
    unfolding a_len_def dom_abs_of
    by (intro sum.cong refl)
      (auto simp: a_get_def abs_of_def in_keys_iff hm_get_map_of split: option.splits)
  finally show ?thesis .
qed

lemma refines_iter: "hmap_wf self \<Longrightarrow> a_iteration (abs_of self) (iter self)"
  by (simp add: a_iteration_def a_get_abs_of iter_split)

section \<open>Refinement of the updates\<close>

lemma refines_new: "abs_of new = a_new"
  by (simp add: abs_of_def a_new_def fun_eq_iff)

lemma refines_add: "abs_of (add self h) = a_add (abs_of self) h"
  by (simp add: fun_eq_iff abs_of_apply a_add_def a_get_abs_of lookup_add)

lemma refines_add_all: "abs_of (fst (add_all self n vs)) = fst (a_add_all (abs_of self) n vs)"
  by (simp add: fun_eq_iff abs_of_apply a_add_all_def a_get_abs_of lookup_add_all)

lemma refines_replace: "abs_of (snd (replace self h)) = snd (a_replace (abs_of self) h)"
  by (simp add: fun_eq_iff abs_of_apply a_replace_def lookup_replace)

lemma refines_replace_flag: "fst (replace self h) = fst (a_replace (abs_of self) h)"
  by (simp add: a_replace_def fst_replace refines_contains)

lemma refines_replace_all: "abs_of (replace_all self n vs) = a_replace_all (abs_of self) n vs"
  by (simp add: fun_eq_iff abs_of_apply a_replace_all_def lookup_replace_all)

lemma refines_remove: "hmap_wf self \<Longrightarrow> abs_of (remove self n) = a_remove (abs_of self) n"
  by (simp add: fun_eq_iff abs_of_apply a_remove_def lookup_remove)

lemma refines_remove_all: "abs_of (snd (remove_all self)) = a_new"
  by (simp add: refines_new)

lemmas refines_updates = refines_new refines_add refines_add_all refines_replace
  refines_replace_all refines_remove refines_remove_all

section \<open>The refinement theorems\<close>

text \<open>
  \<^bold>\<open>C6\<close> Every method that changes a map with one entry per name implements its
  specification: the abstraction of the map it leaves is the specified update of the
  abstraction of the map it was called on, the flag of \<open>replace\<close> and the vector
  that \<open>add_all\<close> leaves are the specified ones, and what \<open>remove_all\<close> returns is
  an iteration of the map it was called on.
\<close>

theorem refinement_updates:
  assumes "hmap_wf self"
  shows "abs_of new = a_new
    \<and> abs_of (add self h) = a_add (abs_of self) h
    \<and> abs_of (fst (add_all self n vs)) = fst (a_add_all (abs_of self) n vs)
    \<and> snd (add_all self n vs) = snd (a_add_all (abs_of self) n vs)
    \<and> abs_of (snd (replace self h)) = snd (a_replace (abs_of self) h)
    \<and> fst (replace self h) = fst (a_replace (abs_of self) h)
    \<and> abs_of (replace_all self n vs) = a_replace_all (abs_of self) n vs
    \<and> abs_of (remove self n) = a_remove (abs_of self) n
    \<and> abs_of (snd (remove_all self)) = a_new
    \<and> a_iteration (abs_of self) (fst (remove_all self))"
proof -
  have "a_iteration (abs_of self) (fst (remove_all self))"
    using assms by (simp add: fst_remove_all into_iter_eq_iter refines_iter)
  moreover have "snd (add_all self n vs) = snd (a_add_all (abs_of self) n vs)"
    by (simp add: a_add_all_def)
  ultimately show ?thesis
    using assms by (simp add: refines_updates refines_replace_flag)
qed

theorem refinement_updates_witness:
  "hmap_wf custom_other_map
   \<and> abs_of (remove custom_other_map ''X-Custom'') = a_remove (abs_of custom_other_map) ''X-Custom''
   \<and> abs_of (remove custom_other_map ''X-Custom'') ''X-Custom'' = None
   \<and> abs_of (remove custom_other_map ''X-Custom'') ''X-Other'' = Some [''other'']"
  using refinement_updates [OF hmap_wf_custom_other_map, of _ "''X-Custom''"]
  by (simp add: hmap_wf_custom_other_map a_remove_def abs_of_apply lookup_custom_other_map)

text \<open>
  \<^bold>\<open>C19\<close> Every query of a map with one entry per name returns what its specification
  returns on the abstraction of the map, and the iterators yield a list that the
  specification allows as an iteration.
\<close>

theorem refinement_queries:
  assumes "hmap_wf self"
  shows "contains self n = a_contains (abs_of self) n
    \<and> get self n = a_get (abs_of self) n
    \<and> get_one self n = a_get_one (abs_of self) n
    \<and> len self = a_len (abs_of self)
    \<and> is_empty self = a_is_empty (abs_of self)
    \<and> a_iteration (abs_of self) (iter self)
    \<and> a_iteration (abs_of self) (into_iter self)"
  using assms
  by (simp add: refines_contains a_get_abs_of refines_get_one refines_len [symmetric]
      refines_is_empty [symmetric] refines_iter into_iter_eq_iter)

theorem refinement_queries_witness:
  "hmap_wf custom_other_map
   \<and> a_len (abs_of custom_other_map) = 3
   \<and> a_get (abs_of custom_other_map) ''X-Custom'' = [''value_1'', ''value_2'']
   \<and> a_get_one (abs_of custom_other_map) ''X-Custom'' = Some ''value_1''
   \<and> a_contains (abs_of custom_other_map) ''X-Other''
   \<and> \<not> a_is_empty (abs_of custom_other_map)"
proof -
  have "len custom_other_map = 3" and "\<not> is_empty custom_other_map"
    by (simp_all add: len_headers is_empty_headers headers_custom_other_map)
  moreover have "get custom_other_map ''X-Custom'' = [''value_1'', ''value_2'']"
    and "get_one custom_other_map ''X-Custom'' = Some ''value_1''"
    and "contains custom_other_map ''X-Other''"
    by (simp_all add: get_one_eq get_eq contains_eq lookup_custom_other_map)
  ultimately show ?thesis
    using refinement_queries [OF hmap_wf_custom_other_map, of "''X-Custom''"]
      refinement_queries [OF hmap_wf_custom_other_map, of "''X-Other''"]
    by (simp add: hmap_wf_custom_other_map)
qed

end
