(* ===== verification/HeaderMap_Run.thy ===== *)
theory HeaderMap_Run
  imports HeaderMap_Spec
begin

text \<open>
  Sequences of calls on a header map. A call of a method that changes the map is a
  value of the datatype \<open>call\<close>, \<open>apply_call\<close> is the map the call leaves, \<open>run\<close>
  makes the calls of a list one after the other, and \<open>reachable\<close> holds of the maps
  that some sequence of calls builds from the empty map.

  \<^item> The invariant \<open>hmap_wf\<close> holds in every reachable map (rule induction), and
    every map that satisfies it is reachable: the invariant says exactly which maps
    can arise.
  \<^item> A call is \<open>benign\<close> when it is not a \<open>replace_all\<close> or \<open>add_all\<close> with an
    empty vector. The maps reachable by benign calls are exactly those that satisfy
    \<open>hmap_wf\<close> and \<open>nonempty_values\<close>.
  \<^item> \<open>values_after n\<close> is what one call does to the values of the name \<open>n\<close>, as a
    function on value lists. The values of a name after a run are the fold of
    \<open>values_after n\<close> over the calls: they depend on no other name.
  \<^item> \<open>a_apply\<close> is the specification of a call on the abstract map of theory
    \<open>HeaderMap_Spec\<close>; a run of the methods refines the run of the specification.
  \<^item> \<open>run_rehash\<close> is the relation between a map, a sequence of calls and a map
    that the calls can leave when the table brings its entries into another order
    after any call, as a hash table that grows may do. All such runs end in maps with
    the same entries, those of \<open>run\<close>.
\<close>

section \<open>Definitions\<close>

datatype call =
    Replace header
  | ReplaceRaw cow_str cow_str
  | ReplaceAll cow_str "cow_str list"
  | Add header
  | AddRaw cow_str cow_str
  | AddAll cow_str "cow_str list"
  | Remove cow_str
  | RemoveAll

fun apply_call :: "header_map \<Rightarrow> call \<Rightarrow> header_map" where
  "apply_call self (Replace h) = snd (replace self h)"
| "apply_call self (ReplaceRaw n v) = snd (replace_raw self n v)"
| "apply_call self (ReplaceAll n vs) = replace_all self n vs"
| "apply_call self (Add h) = add self h"
| "apply_call self (AddRaw n v) = add_raw self n v"
| "apply_call self (AddAll n vs) = fst (add_all self n vs)"
| "apply_call self (Remove n) = remove self n"
| "apply_call self RemoveAll = snd (remove_all self)"

fun run :: "header_map \<Rightarrow> call list \<Rightarrow> header_map" where
  "run self [] = self"
| "run self (c # cs) = run (apply_call self c) cs"

inductive reachable :: "header_map \<Rightarrow> bool" where
  reachable_new: "reachable new"
| reachable_call: "reachable self \<Longrightarrow> reachable (apply_call self c)"

fun benign :: "call \<Rightarrow> bool" where
  "benign (ReplaceAll n vs) = (vs \<noteq> [])"
| "benign (AddAll n vs) = (vs \<noteq> [])"
| "benign c = True"

inductive reachable_benign :: "header_map \<Rightarrow> bool" where
  benign_new: "reachable_benign new"
| benign_call: "reachable_benign self \<Longrightarrow> benign c \<Longrightarrow> reachable_benign (apply_call self c)"

fun values_after :: "string \<Rightarrow> string list \<Rightarrow> call \<Rightarrow> string list" where
  "values_after n vs (Replace h) = (if name h = n then [value h] else vs)"
| "values_after n vs (ReplaceRaw k v) = (if k = n then [v] else vs)"
| "values_after n vs (ReplaceAll k ws) = (if k = n then ws else vs)"
| "values_after n vs (Add h) = (if name h = n then vs @ [value h] else vs)"
| "values_after n vs (AddRaw k v) = (if k = n then vs @ [v] else vs)"
| "values_after n vs (AddAll k ws) = (if k = n then vs @ ws else vs)"
| "values_after n vs (Remove k) = (if k = n then [] else vs)"
| "values_after n vs RemoveAll = []"

fun a_apply :: "abs_headers \<Rightarrow> call \<Rightarrow> abs_headers" where
  "a_apply m (Replace h) = snd (a_replace m h)"
| "a_apply m (ReplaceRaw n v) = snd (a_replace m (header_new n v))"
| "a_apply m (ReplaceAll n vs) = a_replace_all m n vs"
| "a_apply m (Add h) = a_add m h"
| "a_apply m (AddRaw n v) = a_add m (header_new n v)"
| "a_apply m (AddAll n vs) = fst (a_add_all m n vs)"
| "a_apply m (Remove n) = a_remove m n"
| "a_apply m RemoveAll = a_new"

section \<open>One call\<close>

inductive_cases reachable_cases: "reachable self"

lemma hmap_wf_apply_call: "hmap_wf self \<Longrightarrow> hmap_wf (apply_call self c)"
  by (cases c) (simp_all add: hmap_wf_intros replace_raw_def add_raw_def)

lemma nonempty_values_apply_call:
  "nonempty_values self \<Longrightarrow> benign c \<Longrightarrow> nonempty_values (apply_call self c)"
  by (cases c) (simp_all add: nonempty_values_intros replace_raw_def add_raw_def)

lemma get_apply_call:
  "hmap_wf self \<Longrightarrow> get (apply_call self c) n = values_after n (get self n) c"
  by (cases c)
    (auto simp: get_eq lookup_simps replace_raw_def add_raw_def)

lemma refines_apply_call:
  "hmap_wf self \<Longrightarrow> abs_of (apply_call self c) = a_apply (abs_of self) c"
  by (cases c) (simp_all add: refines_updates replace_raw_def add_raw_def)

section \<open>Runs\<close>

lemma run_append: "run self (cs @ ds) = run (run self cs) ds"
  by (induction cs arbitrary: self) simp_all

lemma run_snoc: "run self (cs @ [c]) = apply_call (run self cs) c"
  by (simp add: run_append)

lemma hmap_wf_run: "hmap_wf self \<Longrightarrow> hmap_wf (run self cs)"
  by (induction cs arbitrary: self) (simp_all add: hmap_wf_apply_call)

lemma nonempty_values_run:
  "nonempty_values self \<Longrightarrow> list_all benign cs \<Longrightarrow> nonempty_values (run self cs)"
  by (induction cs arbitrary: self) (simp_all add: nonempty_values_apply_call)

lemma get_run:
  "hmap_wf self \<Longrightarrow> get (run self cs) n = foldl (values_after n) (get self n) cs"
  by (induction cs arbitrary: self) (simp_all add: get_apply_call hmap_wf_apply_call)

lemma refines_run:
  "hmap_wf self \<Longrightarrow> abs_of (run self cs) = foldl a_apply (abs_of self) cs"
  by (induction cs arbitrary: self) (simp_all add: refines_apply_call hmap_wf_apply_call)

section \<open>Reachable maps\<close>

lemma reachable_run: "reachable self \<Longrightarrow> reachable (run self cs)"
  by (induction cs arbitrary: self) (simp_all add: reachable_call)

lemma reachable_is_run: "reachable self \<Longrightarrow> \<exists>cs. self = run new cs"
proof (induction rule: reachable.induct)
  case reachable_new
  have "new = run new []" by simp
  then show ?case by blast
next
  case (reachable_call self c)
  then obtain cs where "self = run new cs" by blast
  then have "apply_call self c = run new (cs @ [c])"
    by (simp add: run_snoc)
  then show ?case by blast
qed

lemma reachable_hmap_wf: "reachable self \<Longrightarrow> hmap_wf self"
  by (induction rule: reachable.induct) (simp_all add: hmap_wf_new hmap_wf_apply_call)

lemma reachable_benign_inv: "reachable_benign self \<Longrightarrow> hmap_wf self \<and> nonempty_values self"
  by (induction rule: reachable_benign.induct)
    (simp_all add: hmap_wf_new nonempty_values_new hmap_wf_apply_call
      nonempty_values_apply_call)

text \<open>
  A map with one entry per name is built by installing its entries one after the
  other: each name is new when its entry is installed, so the entries line up in the
  order of the installation.
\<close>

lemma headers_run_install:
  assumes "distinct (map fst m)" and "fst ` set m \<inter> fst ` set (headers self) = {}"
  shows "headers (run self (map (\<lambda>(n, vs). ReplaceAll n vs) m)) = headers self @ m"
  using assms
proof (induction m arbitrary: self)
  case Nil
  then show ?case by simp
next
  case (Cons e m)
  obtain n vs where e: "e = (n, vs)" by (cases e)
  with Cons.prems have n: "n \<notin> fst ` set (headers self)"
    by auto
  then have h: "headers (replace_all self n vs) = headers self @ [(n, vs)]"
    by (simp add: headers_replace_all hm_put_absent)
  with Cons.prems e have "fst ` set m \<inter> fst ` set (headers (replace_all self n vs)) = {}"
    by auto
  with Cons.IH [of "replace_all self n vs"] Cons.prems(1) h e show ?case
    by simp
qed

lemma run_install: "hmap_wf self \<Longrightarrow> run new (map (\<lambda>(n, vs). ReplaceAll n vs) (headers self)) = self"
  using headers_run_install [of "headers self" new]
  by (simp add: hmap_wf_def hm_inv_def)

lemma hmap_wf_reachable: "hmap_wf self \<Longrightarrow> reachable self"
  using reachable_run [OF reachable_new, of "map (\<lambda>(n, vs). ReplaceAll n vs) (headers self)"]
  by (simp add: run_install)

lemma reachable_benign_run:
  "reachable_benign self \<Longrightarrow> list_all benign cs \<Longrightarrow> reachable_benign (run self cs)"
  by (induction cs arbitrary: self) (simp_all add: benign_call)

lemma benign_install:
  "nonempty_values self \<Longrightarrow> list_all benign (map (\<lambda>(n, vs). ReplaceAll n vs) (headers self))"
  by (auto simp: nonempty_values_def list_all_iff)

lemma wf_nonempty_reachable_benign:
  assumes "hmap_wf self" and "nonempty_values self"
  shows "reachable_benign self"
  using reachable_benign_run [OF benign_new benign_install [OF assms(2)]] assms(1)
  by (simp add: run_install)

lemma foldl_values_after_adds:
  "foldl (values_after n) us (map (AddRaw n) vs) = us @ vs"
  by (induction vs arbitrary: us) simp_all

lemma len_run_adds: "len (run self (map (AddRaw n) vs)) = len self + length vs"
  by (induction vs arbitrary: self) (simp_all add: add_raw_def len_add)

section \<open>Properties of runs\<close>

text \<open>
  \<^bold>\<open>C5\<close> The maps that sequences of calls build from the empty map are exactly the
  maps with one entry per name: the invariant holds in every reachable map, and
  every map that satisfies it is reachable. The maps that benign calls build, that is
  calls other than \<open>replace_all\<close> and \<open>add_all\<close> with an empty vector, are
  exactly those of them that store no empty vector.
\<close>

theorem reachable_iff_wf:
  "(reachable self \<longleftrightarrow> hmap_wf self)
   \<and> (reachable_benign self \<longleftrightarrow> hmap_wf self \<and> nonempty_values self)"
  using reachable_hmap_wf hmap_wf_reachable reachable_benign_inv wf_nonempty_reachable_benign
  by blast

text \<open>
  \<^bold>\<open>C11\<close> After any number of \<open>add_raw\<close> calls with one name on the empty map,
  \<open>get\<close> yields exactly the added values in the order of the calls, \<open>get_one\<close> the
  first of them, and \<open>len\<close> is their number.
\<close>

theorem run_adds_fifo:
  "get (run new (map (AddRaw n) vs)) n = vs
   \<and> get_one (run new (map (AddRaw n) vs)) n = (case vs of [] \<Rightarrow> None | v # ws \<Rightarrow> Some v)
   \<and> len (run new (map (AddRaw n) vs)) = length vs"
proof -
  have "get (run new (map (AddRaw n) vs)) n = vs"
    by (simp add: get_run hmap_wf_new foldl_values_after_adds get_new)
  then show ?thesis
    by (simp add: get_one_eq len_run_adds len_new)
qed

text \<open>
  \<^bold>\<open>C20\<close> The values of a name after a sequence of calls on a reachable map are got
  from its values before by applying, call by call, the effect of the call on that
  name alone: calls on other names do not change them, and neither does the order in
  which other names were stored. The sequence of calls refines the same sequence of
  specified updates: the abstraction of the map it leaves is the fold of the
  specification over the calls.
\<close>

theorem run_values:
  assumes "reachable self"
  shows "get (run self cs) n = foldl (values_after n) (get self n) cs
    \<and> abs_of (run self cs) = foldl a_apply (abs_of self) cs"
  using assms by (simp add: get_run refines_run reachable_hmap_wf)

theorem run_values_witness:
  "reachable custom_other_map
   \<and> get (run custom_other_map
        [AddRaw ''X-Other'' ''more'', Remove ''Accept'', ReplaceRaw ''X-Custom'' ''value_3'',
         AddRaw ''X-Custom'' ''value_4'']) ''X-Custom'' = [''value_3'', ''value_4'']
   \<and> abs_of (run custom_other_map [Remove ''X-Custom'', AddRaw ''X-Other'' ''more'']) ''X-Other''
       = Some [''other'', ''more'']
   \<and> abs_of (run custom_other_map [Remove ''X-Custom'', AddRaw ''X-Other'' ''more'']) ''X-Custom''
       = None"
proof -
  have r: "reachable custom_other_map"
    by (simp add: hmap_wf_reachable hmap_wf_custom_other_map)
  have "get (run custom_other_map
        [AddRaw ''X-Other'' ''more'', Remove ''Accept'', ReplaceRaw ''X-Custom'' ''value_3'',
         AddRaw ''X-Custom'' ''value_4'']) ''X-Custom'' = [''value_3'', ''value_4'']"
    using run_values [OF r, of "[AddRaw ''X-Other'' ''more'', Remove ''Accept'',
        ReplaceRaw ''X-Custom'' ''value_3'', AddRaw ''X-Custom'' ''value_4'']" "''X-Custom''"]
    by (simp add: get_custom_other_map)
  with r run_values [OF r, of "[Remove ''X-Custom'', AddRaw ''X-Other'' ''more'']" "''X-Other''"]
  show ?thesis
    by (simp add: a_defs abs_of_apply lookup_custom_other_map)
qed

section \<open>Runs do not depend on the iteration order\<close>

lemma hmap_equiv_apply_call:
  "hmap_equiv a b \<Longrightarrow> hmap_equiv (apply_call a c) (apply_call b c)"
  by (cases c) (simp_all add: hmap_equiv_intros replace_raw_def add_raw_def)

lemma hmap_equiv_run: "hmap_equiv a b \<Longrightarrow> hmap_equiv (run a cs) (run b cs)"
  by (induction cs arbitrary: a b) (simp_all add: hmap_equiv_apply_call)

section \<open>Runs of a table that reorders its entries\<close>

text \<open>
  A hash table may visit its entries in another order after any call: when it grows,
  it places them anew. \<open>run_rehash self cs self'\<close> holds when the calls \<open>cs\<close> can
  take \<open>self\<close> to \<open>self'\<close> if, after each call and at the end, the entries may be
  brought into any order. \<open>run\<close> is the run in which the table never does so.
\<close>

inductive run_rehash :: "header_map \<Rightarrow> call list \<Rightarrow> header_map \<Rightarrow> bool" where
  rehash_done: "hmap_equiv self self' \<Longrightarrow> run_rehash self [] self'"
| rehash_call:
    "hmap_equiv (apply_call self c) mid \<Longrightarrow> run_rehash mid cs self'
       \<Longrightarrow> run_rehash self (c # cs) self'"

inductive_simps run_rehash_Nil: "run_rehash self [] self'"
inductive_simps run_rehash_Cons: "run_rehash self (c # cs) self'"

lemma run_rehash_equiv: "run_rehash self cs self' \<Longrightarrow> hmap_equiv (run self cs) self'"
proof (induction rule: run_rehash.induct)
  case (rehash_done self self')
  then show ?case by simp
next
  case (rehash_call self c mid cs self')
  from rehash_call(1) have "hmap_equiv (run (apply_call self c) cs) (run mid cs)"
    by (rule hmap_equiv_run)
  with rehash_call(3) show ?case
    by (auto intro: hmap_equiv_trans)
qed

lemma run_rehash_final:
  "run_rehash self cs a \<Longrightarrow> hmap_equiv a b \<Longrightarrow> run_rehash self cs b"
  by (induction rule: run_rehash.induct)
    (auto intro: run_rehash.intros hmap_equiv_trans)

lemma run_rehash_run: "hmap_wf self \<Longrightarrow> run_rehash self cs (run self cs)"
proof (induction cs arbitrary: self)
  case Nil
  then show ?case
    by (simp add: run_rehash_Nil hmap_equiv_refl)
next
  case (Cons c cs)
  then have "hmap_wf (apply_call self c)"
    by (simp add: hmap_wf_apply_call)
  with Cons.IH [of "apply_call self c"] show ?case
    by (auto simp: run_rehash_Cons intro: hmap_equiv_refl)
qed

lemma run_rehash_start:
  "hmap_equiv s t \<Longrightarrow> run_rehash s cs a \<Longrightarrow> hmap_equiv (run t cs) a"
  using hmap_equiv_run [of s t cs] run_rehash_equiv [of s cs a]
  by (auto intro: hmap_equiv_trans hmap_equiv_sym)

text \<open>
  \<^bold>\<open>C25\<close> The methods do not depend on the order in which the hash map iterates.
  Two executions of the same calls, from maps that hold the same entries in any two
  orders and with any reordering of the entries between the calls, end in maps that
  hold the same entries, those of the run without reordering. Every query answers
  alike on them: the values and the first value of every name, containment, length
  and emptiness, the flag from \<open>replace\<close> and, up to the order of the names, the
  headers of an iteration.
\<close>

theorem rehash_runs_agree:
  assumes "hmap_equiv s t" and "run_rehash s cs a" and "run_rehash t cs b"
  shows "hmap_equiv a b \<and> hmap_equiv (run s cs) a \<and> hmap_equiv (run s cs) (run t cs)
    \<and> get a n = get b n \<and> get a n = get (run s cs) n
    \<and> get_one a n = get_one b n
    \<and> contains a n = contains b n
    \<and> len a = len b
    \<and> is_empty a = is_empty b
    \<and> fst (replace a h) = fst (replace b h)
    \<and> mset (iter a) = mset (iter b)"
proof -
  from assms have a: "hmap_equiv (run s cs) a" and b: "hmap_equiv (run s cs) b"
    by (auto intro: run_rehash_equiv run_rehash_start hmap_equiv_sym)
  then have "hmap_equiv a b"
    by (auto intro: hmap_equiv_trans hmap_equiv_sym)
  with a hmap_equiv_observations [OF this, of n h] hmap_equiv_observations [OF a, of n h]
    hmap_equiv_run [OF assms(1), of cs]
  show ?thesis
    by simp
qed

theorem rehash_runs_agree_witness:
  "hmap_equiv custom_other_map other_custom_map
   \<and> run_rehash custom_other_map [Remove ''X-Custom'', AddRaw ''X-Other'' ''more'']
       (run custom_other_map [Remove ''X-Custom'', AddRaw ''X-Other'' ''more''])
   \<and> run_rehash other_custom_map [Remove ''X-Custom'', AddRaw ''X-Other'' ''more'']
       (run other_custom_map [Remove ''X-Custom'', AddRaw ''X-Other'' ''more''])
   \<and> headers custom_other_map \<noteq> headers other_custom_map
   \<and> get (run other_custom_map [Remove ''X-Custom'', AddRaw ''X-Other'' ''more'']) ''X-Other''
       = [''other'', ''more'']
   \<and> run_rehash new [AddRaw ''X-Custom'' ''value_1'', AddRaw ''X-Custom'' ''value_2'',
       AddRaw ''X-Other'' ''other''] other_custom_map"
proof -
  let ?cs = "[Remove ''X-Custom'', AddRaw ''X-Other'' ''more'']"
  let ?ds = "[AddRaw ''X-Custom'' ''value_1'', AddRaw ''X-Custom'' ''value_2'',
       AddRaw ''X-Other'' ''other'']"
  have a: "run_rehash custom_other_map ?cs (run custom_other_map ?cs)"
    and b: "run_rehash other_custom_map ?cs (run other_custom_map ?cs)"
    by (rule run_rehash_run, simp add: hmap_wf_custom_other_map hmap_wf_other_custom_map)+
  have "run_rehash new ?ds custom_other_map"
    using run_rehash_run [OF hmap_wf_new, of ?ds] by (simp add: custom_other_map_def)
  then have d: "run_rehash new ?ds other_custom_map"
    using hmap_equiv_custom by (rule run_rehash_final)
  have "get (run custom_other_map ?cs) ''X-Other'' = [''other'', ''more'']"
    using get_run [OF hmap_wf_custom_other_map, of ?cs "''X-Other''"]
    by (simp add: get_custom_other_map)
  with rehash_runs_agree [OF hmap_equiv_custom a b, of "''X-Other''"] a b d show ?thesis
    by (simp add: hmap_equiv_custom headers_custom_other_map headers_other_custom_map)
qed

end
