(* ===== verification/DocTests.thy ===== *)
theory DocTests
  imports HeaderMap_Run
begin

text \<open>
  The examples in the documentation comments of \<^verbatim>\<open>header.rs\<close>, which the Rust
  tool chain runs as tests. Each example is a definition that makes the calls of the
  example on the model and collects, in the order of the example, the values that its
  assertions inspect; the lemma after it states that they are the values the
  assertions expect. The examples exercise the model on the source's own test data:
  a method that was translated wrongly would fail them.

  Two examples use typed headers of the protocol library. \<open>content_type\<close> and
  \<open>set_cookie\<close> are their models: the canonical names are those the examples look
  up, and \<^verbatim>\<open>ContentType::JSON\<close> and \<^verbatim>\<open>ContentType::GIF\<close> render as the examples
  assert. Where an example does not depend on a rendering (the media type
  \<^verbatim>\<open>HTML\<close>, the cookies), the rendering is a parameter of the definition and the
  lemma holds for every rendering.
\<close>

section \<open>Typed headers used by the examples\<close>

definition content_type :: "string hyper_header" where
  "content_type = \<lparr>header_name = ''Content-Type'', fmt_header = (\<lambda>media. media)\<rparr>"

definition JSON :: string where
  "JSON = ''application/json''"

definition GIF :: string where
  "GIF = ''image/gif''"

definition set_cookie :: "('c \<Rightarrow> string) \<Rightarrow> 'c hyper_header" where
  "set_cookie render = \<lparr>header_name = ''Set-Cookie'', fmt_header = render\<rparr>"

section \<open>The examples\<close>

definition doc_header_new :: "(fmt_error + string) list" where
  "doc_header_new =
     (let header = header_new ''X-Custom-Header'' ''custom value'';
          v = ''custom'' @ '' value'';
          header' = header_new ''X-Custom-Header'' v
      in [to_string header, to_string header'])"

definition doc_contains :: "string \<Rightarrow> bool list" where
  "doc_contains html =
     (let map0 = new;
          map1 = add map0 (from_hyper content_type html)
      in [contains map1 ''Content-Type'', \<not> contains map1 ''Accepts''])"

definition doc_len :: "nat list" where
  "doc_len =
     (let map0 = new;
          map1 = add_raw map0 ''X-Custom'' ''value_1'';
          map2 = snd (replace_raw map1 ''X-Custom'' ''value_2'');
          map3 = add_raw map2 ''X-Custom'' ''value_1''
      in [len map0, len map1, len map2, len map3])"

definition doc_is_empty :: "bool list" where
  "doc_is_empty = (let map0 = new in [is_empty map0])"

definition doc_get :: "nat \<times> string option list" where
  "doc_get =
     (let map1 = add_raw new ''X-Custom'' ''value_1'';
          map2 = add_raw map1 ''X-Custom'' ''value_2'';
          values0 = get map2 ''X-Custom'';
          (first, values1) = iter_next values0;
          (second, values2) = iter_next values1;
          (third, values3) = iter_next values2
      in (len map2, [first, second, third]))"

definition doc_get_one :: "nat \<times> string option list" where
  "doc_get_one =
     (let map1 = add_raw new ''X-Custom'' ''value_1'';
          map2 = add_raw map1 ''X-Custom'' ''value_2'';
          first_value = get_one map2 ''X-Custom'';
          other = add_raw new ''X-Custom'' ''value_1'';
          missing = get_one other ''X-Other''
      in (len map2, [first_value, missing]))"

definition doc_replace :: "bool \<times> string option list \<times> nat" where
  "doc_replace =
     (let fresh = snd (replace new (from_hyper content_type JSON));
          map1 = snd (replace new (from_hyper content_type JSON));
          one = get_one map1 ''Content-Type'';
          map2 = snd (replace map1 (from_hyper content_type GIF));
          two = get_one map2 ''Content-Type''
      in (is_some (get_one fresh ''Content-Type''), [one, two], len map2))"

definition doc_replace_raw :: "string option list \<times> nat" where
  "doc_replace_raw =
     (let map1 = snd (replace_raw new ''X-Custom'' ''value_1'');
          one = get_one map1 ''X-Custom'';
          map2 = snd (replace_raw map1 ''X-Custom'' ''value_2'');
          two = get_one map2 ''X-Custom''
      in ([one, two], len map2))"

definition doc_replace_all :: "string list list" where
  "doc_replace_all =
     (let map1 = add_raw new ''X-Custom'' ''value_1'';
          map2 = add_raw map1 ''X-Custom'' ''value_2'';
          vals = get map2 ''X-Custom'';
          map3 = replace_all map2 ''X-Custom'' [''value_3'', ''value_4''];
          vals' = get map3 ''X-Custom''
      in [vals, vals'])"

definition doc_add :: "('c \<Rightarrow> string) \<Rightarrow> 'c \<Rightarrow> 'c \<Rightarrow> nat list" where
  "doc_add render cookie cookie' =
     (let map1 = add new (from_hyper (set_cookie render) cookie);
          map2 = add map1 (from_hyper (set_cookie render) cookie')
      in [length (get map1 ''Set-Cookie''), length (get map2 ''Set-Cookie'')])"

definition doc_add_raw :: "nat \<times> string list" where
  "doc_add_raw =
     (let map1 = add_raw new ''X-Custom'' ''value_1'';
          map2 = add_raw map1 ''X-Custom'' ''value_2''
      in (length (get map1 ''X-Custom''), get map2 ''X-Custom''))"

definition doc_add_all :: "nat list \<times> string list" where
  "doc_add_all =
     (let values0 = [''value_1'', ''value_2''];
          (map1, values1) = add_all new ''X-Custom'' values0;
          values2 = [''value_3'', ''value_4''];
          (map2, values3) = add_all map1 ''X-Custom'' values2
      in ([length (get map1 ''X-Custom''), length values1,
           length (get map2 ''X-Custom''), length values3], get map2 ''X-Custom''))"

definition doc_remove :: "nat list" where
  "doc_remove = [len custom_other_map, len (remove custom_other_map ''X-Custom'')]"

definition doc_remove_all :: "nat \<times> bool \<times> header set \<times> header set" where
  "doc_remove_all =
     (let all_headers = [header_new ''X-Custom'' ''value_1'', header_new ''X-Custom'' ''value_2'',
                         header_new ''X-Other'' ''other''];
          map1 = foldl add new all_headers;
          (removed_headers, map2) = remove_all map1
      in (len map1, is_empty map2, set all_headers, set removed_headers))"

section \<open>The assertions of the examples\<close>

lemmas doc_eval = hmap_defs hm_defs std_defs header_defs hm_or_insert_def Let_def

lemma doc_header_new_ok:
  "doc_header_new
     = [Inr ''X-Custom-Header: custom value'', Inr ''X-Custom-Header: custom value'']"
  by (simp add: doc_header_new_def to_string_eq fmt_def)

lemma doc_contains_ok: "doc_contains html = [True, True]"
  by (simp add: doc_contains_def content_type_def doc_eval)

lemma doc_len_ok: "doc_len = [0, 1, 1, 2]"
  by (simp add: doc_len_def doc_eval)

lemma doc_is_empty_ok: "doc_is_empty = [True]"
  by (simp add: doc_is_empty_def doc_eval)

lemma doc_get_ok: "doc_get = (2, [Some ''value_1'', Some ''value_2'', None])"
  by (simp add: doc_get_def doc_eval)

lemma doc_get_one_ok: "doc_get_one = (2, [Some ''value_1'', None])"
  by (simp add: doc_get_one_def doc_eval)

lemma doc_replace_ok:
  "doc_replace = (True, [Some ''application/json'', Some ''image/gif''], 1)"
  by (simp add: doc_replace_def content_type_def JSON_def GIF_def doc_eval)

lemma doc_replace_raw_ok: "doc_replace_raw = ([Some ''value_1'', Some ''value_2''], 1)"
  by (simp add: doc_replace_raw_def doc_eval)

lemma doc_replace_all_ok:
  "doc_replace_all = [[''value_1'', ''value_2''], [''value_3'', ''value_4'']]"
  by (simp add: doc_replace_all_def doc_eval)

lemma doc_add_ok: "doc_add render cookie cookie' = [1, 2]"
  by (simp add: doc_add_def set_cookie_def doc_eval)

lemma doc_add_raw_ok: "doc_add_raw = (1, [''value_1'', ''value_2''])"
  by (simp add: doc_add_raw_def doc_eval)

lemma doc_add_all_ok:
  "doc_add_all = ([2, 0, 4, 0], [''value_1'', ''value_2'', ''value_3'', ''value_4''])"
  by (simp add: doc_add_all_def doc_eval)

lemma doc_remove_ok: "doc_remove = [3, 1]"
  by (simp add: doc_remove_def custom_other_map_def doc_eval)

lemma doc_remove_all_ok:
  "fst doc_remove_all = 3 \<and> fst (snd doc_remove_all)
   \<and> fst (snd (snd doc_remove_all)) = snd (snd (snd doc_remove_all))"
  by (auto simp: doc_remove_all_def doc_eval)

end
