(* ===== verification/HashMap_Mapping.thy ===== *)
theory HashMap_Mapping
  imports HeaderMap_Iter "HOL-Library.AList_Mapping"
begin

text \<open>
  The hash map as a mapping of the library. Theory \<open>HashMap\<close> models
  \<^verbatim>\<open>std::collections::HashMap\<close> by the list of its entries; the library of
  Isabelle/HOL has the type \<open>mapping\<close> of finite maps with its operations
  \<open>Mapping.lookup\<close>, \<open>Mapping.update\<close>, \<open>Mapping.delete\<close>, \<open>Mapping.default\<close>.
  \<open>hm_abs\<close> is the mapping that a list of entries represents. The lemmas show that
  every operation of theory \<open>HashMap\<close> is the operation of the library on the
  mapping, that \<open>hm_put\<close> and \<open>hm_del\<close> are the update and the deletion of the
  library's association lists, and that two lists represent one mapping exactly when
  they are equivalent; \<open>headers_abs\<close> is the mapping of a header map, from names to
  the vectors of their values.
\<close>

section \<open>Definitions\<close>

definition hm_abs :: "('k, 'v) hash_map \<Rightarrow> ('k, 'v) mapping" where
  "hm_abs m = AList_Mapping.Mapping m"

definition headers_abs :: "header_map \<Rightarrow> (string, string list) mapping" where
  "headers_abs self = hm_abs (headers self)"

section \<open>The operations of the hash map\<close>

lemma hm_put_update: "hm_put k v m = AList.update k v m"
  by (induction m) auto

lemma hm_del_delete: "hm_inv m \<Longrightarrow> hm_del k m = AList.delete k m"
  by (induction m) (auto simp: hm_inv_def)

lemma lookup_hm_abs: "Mapping.lookup (hm_abs m) k = hm_get m k"
  by (simp add: hm_abs_def hm_get_map_of)

lemma keys_hm_abs: "Mapping.keys (hm_abs m) = fst ` set m"
  by (simp add: hm_abs_def)

lemma hm_abs_new: "hm_abs hm_new = Mapping.empty"
  by (simp add: hm_abs_def hm_new_def empty_Mapping)

lemma hm_abs_put: "hm_abs (hm_put k v m) = Mapping.update k v (hm_abs m)"
  by (simp add: hm_abs_def hm_put_update update_Mapping)

lemma hm_abs_del: "hm_inv m \<Longrightarrow> hm_abs (hm_del k m) = Mapping.delete k (hm_abs m)"
  by (simp add: hm_abs_def hm_del_delete delete_Mapping)

lemma hm_abs_or_insert: "hm_abs (snd (hm_or_insert k d m)) = Mapping.default k d (hm_abs m)"
  by (rule mapping_eqI) (simp add: lookup_hm_abs hm_get_or_insert lookup_default'
      lookup_default_def keys_hm_abs in_keys_iff split: option.splits)

lemma fst_hm_or_insert_abs: "fst (hm_or_insert k d m) = Mapping.lookup_default d (hm_abs m) k"
  by (simp add: fst_hm_or_insert lookup_default_def lookup_hm_abs)

lemma size_hm_abs: "hm_inv m \<Longrightarrow> Mapping.size (hm_abs m) = hm_len m"
  by (simp add: hm_abs_def size_Mapping hm_inv_def hm_len_def distinct_remdups_id)

lemma is_empty_hm_abs: "Mapping.is_empty (hm_abs m) \<longleftrightarrow> hm_is_empty m"
  by (cases m) (simp_all add: hm_abs_def is_empty_Mapping hm_is_empty_def hm_len_def)

lemma entries_hm_abs: "hm_inv m \<Longrightarrow> Mapping.entries (hm_abs m) = set (hm_iter m)"
  by (auto simp: entries_lookup lookup_hm_abs Map.graph_def hm_get_Some_iff hm_iter_def)

lemma hm_abs_eq_iff: "hm_abs a = hm_abs b \<longleftrightarrow> (\<forall>k. hm_get a k = hm_get b k)"
  by (metis lookup_hm_abs mapping_eqI)

lemma hm_equiv_abs: "hm_equiv a b \<longleftrightarrow> hm_inv a \<and> hm_inv b \<and> hm_abs a = hm_abs b"
  by (auto simp: hm_abs_eq_iff hm_equiv_iff_get dest: hm_equiv_get)

lemma hm_eq_abs: "hm_inv a \<Longrightarrow> hm_inv b \<Longrightarrow> hm_eq a b \<longleftrightarrow> hm_abs a = hm_abs b"
  by (simp add: hm_eq_iff_equiv hm_equiv_abs)

section \<open>The methods of the header map\<close>

lemma lookup_headers_abs:
  "Mapping.lookup (headers_abs self) n = (if contains self n then Some (get self n) else None)"
  by (simp add: headers_abs_def lookup_hm_abs contains_eq get_eq split: option.splits)

lemma get_headers_abs: "get self n = Mapping.lookup_default [] (headers_abs self) n"
  by (simp add: lookup_default_def lookup_headers_abs get_eq contains_eq split: option.splits)

lemma contains_headers_abs: "contains self n \<longleftrightarrow> n \<in> Mapping.keys (headers_abs self)"
  by (simp add: headers_abs_def keys_hm_abs contains_keys)

lemma headers_abs_eqI:
  "(\<And>n. hm_get (headers a) n = hm_get (headers b) n) \<Longrightarrow> headers_abs a = headers_abs b"
  by (simp add: headers_abs_def hm_abs_eq_iff)

lemma headers_abs_add:
  "headers_abs (add self h)
     = Mapping.map_default (name h) [] (\<lambda>vs. vs @ [value h]) (headers_abs self)"
  by (rule mapping_eqI)
    (simp add: lookup_map_default' lookup_headers_abs get_headers_abs [symmetric] get_add
      contains_eq lookup_add)

lemma headers_abs_add_all:
  "headers_abs (fst (add_all self n vs))
     = Mapping.map_default n [] (\<lambda>ws. ws @ vs) (headers_abs self)"
  by (rule mapping_eqI)
    (simp add: lookup_map_default' lookup_headers_abs get_headers_abs [symmetric] get_add_all
      contains_eq lookup_add_all)

lemma headers_abs_replace:
  "headers_abs (snd (replace self h)) = Mapping.update (name h) [value h] (headers_abs self)"
  by (simp add: headers_abs_def headers_replace hm_abs_put)

lemma headers_abs_replace_all:
  "headers_abs (replace_all self n vs) = Mapping.update n vs (headers_abs self)"
  by (simp add: headers_abs_def headers_replace_all hm_abs_put)

lemma headers_abs_remove:
  "hmap_wf self \<Longrightarrow> headers_abs (remove self n) = Mapping.delete n (headers_abs self)"
  by (simp add: headers_abs_def headers_remove hm_abs_del hmap_wf_def)

lemma headers_abs_new: "headers_abs new = Mapping.empty"
  by (simp add: headers_abs_def hm_abs_def empty_Mapping)

lemma header_map_eq_abs:
  "hmap_wf a \<Longrightarrow> hmap_wf b \<Longrightarrow> header_map_eq a b \<longleftrightarrow> headers_abs a = headers_abs b"
  by (simp add: header_map_eq_def headers_abs_def hmap_wf_def hm_eq_abs)

lemma is_empty_headers_abs: "is_empty self \<longleftrightarrow> Mapping.is_empty (headers_abs self)"
  by (simp add: headers_abs_def is_empty_hm_abs HeaderMap.is_empty_def)

lemmas headers_abs_simps = headers_abs_new headers_abs_add headers_abs_add_all
  headers_abs_replace headers_abs_replace_all

end
