(* ===== verification/HeaderMap_Usize.thy ===== *)
theory HeaderMap_Usize
  imports HeaderMap "HOL-Library.Word"
begin

text \<open>
  \<^verbatim>\<open>HeaderMap::len\<close> at the width of its result type. \<^verbatim>\<open>len\<close> returns a \<^verbatim>\<open>usize\<close>,
  which \<^verbatim>\<open>Iterator::count\<close> computes by adding one per item. \<open>count_usize\<close> is that
  loop on a machine word of any width \<open>'w\<close> (32 or 64 bits on the platforms Rust
  supports; the addition wraps, as it does in a release build), and \<open>len_usize\<close> is
  \<^verbatim>\<open>len\<close> with it. The lemmas relate it to \<open>len\<close> of theory \<open>HeaderMap\<close>, which
  counts in the natural numbers: the two agree as long as the map stores fewer than
  \<open>2 ^ LENGTH('w)\<close> values, which is every map that fits into the address space of
  the machine.
\<close>

section \<open>Definitions\<close>

definition count_usize :: "'a list \<Rightarrow> 'w::len word" where
  "count_usize xs = foldl (\<lambda>count _. count + 1) 0 xs"

definition len_usize :: "header_map \<Rightarrow> 'w::len word" where
  "len_usize self = count_usize (flat_map (\<lambda>(_, values). values) (hm_iter (headers self)))"

section \<open>Counting in a word\<close>

lemma count_usize_length: "count_usize xs = of_nat (length xs)"
  by (simp add: count_usize_def foldl_count)

lemma len_usize_of_nat: "len_usize self = of_nat (len self)"
  by (simp add: len_usize_def len_def count_usize_length)

lemma unat_len_usize_mod: "unat (len_usize self :: 'w::len word) = len self mod 2 ^ LENGTH('w)"
  by (simp add: len_usize_of_nat unat_of_nat)

text \<open>
  Beyond the bound the count wraps: a map with \<open>2 ^ LENGTH('w)\<close> values more has
  the same \<open>len_usize\<close>.
\<close>

lemma len_usize_wraps:
  "len a = len b + 2 ^ LENGTH('w::len) \<Longrightarrow> (len_usize a :: 'w word) = len_usize b"
  by (simp add: len_usize_of_nat)

end
