(* ===== verification/Lazy_Iterator.thy ===== *)
theory Lazy_Iterator
  imports Std
begin

text \<open>
  Iterators as the cursors they are in Rust. An iterator is a state and a function
  \<^verbatim>\<open>next\<close> that advances the state and returns the next item, or nothing when the
  iterator is exhausted. The adaptors that \<^verbatim>\<open>header.rs\<close> builds its iterators from
  are modelled by their \<^verbatim>\<open>next\<close>:

  \<^item> \<open>iter_next\<close> of theory \<open>Std\<close> is \<^verbatim>\<open>next\<close> of the iterators of a slice, a
    vector and a hash map, whose state is what is left to visit;
  \<^item> \<open>option_next\<close> is \<^verbatim>\<open>next\<close> of \<^verbatim>\<open>option::IntoIter\<close>, which takes the value
    out of the option;
  \<^item> \<open>map_next\<close> is \<^verbatim>\<open>next\<close> of \<^verbatim>\<open>Map\<close>;
  \<^item> \<open>flat_map_next\<close> is \<^verbatim>\<open>next\<close> of \<^verbatim>\<open>FlatMap\<close>, the loop that drains the inner
    iterator at the front and fetches a new one from the outer iterator when the
    front is exhausted. The loop need not end (an outer iterator may yield empty
    inner iterators forever), so it is a partial function: \<open>None\<close> is "does not
    return";
  \<^item> \<open>iter_fold\<close> is \<^verbatim>\<open>Iterator::fold\<close>, the loop that calls \<^verbatim>\<open>next\<close> until it
    returns nothing, again partial; \<open>iter_count\<close> and \<open>iter_collect\<close> are
    \<^verbatim>\<open>count\<close> and \<^verbatim>\<open>collect\<close> into a vector;
  \<open>nexts k\<close> is the result of the call of \<^verbatim>\<open>next\<close> after \<open>k\<close> earlier calls.

  \<open>yields nxt items\<close> says that \<open>nxt\<close> walks through the list \<open>items s\<close> of every
  state \<open>s\<close>. The lemmas show that the adaptors yield the lists that theory \<open>Std\<close>
  takes them for, and that the two loops return on every iterator that yields a list.
\<close>

section \<open>Definitions\<close>

fun option_next :: "'a option \<Rightarrow> 'a option \<times> 'a option" where
  "option_next opt = (opt, None)"

definition map_next :: "('s \<Rightarrow> 'a option \<times> 's) \<Rightarrow> ('a \<Rightarrow> 'b) \<Rightarrow> 's \<Rightarrow> 'b option \<times> 's" where
  "map_next nxt g self = (let (x, self') = nxt self in (map_option g x, self'))"

record ('s, 'u) flat_map_iter =
  fm_iter :: 's
  frontiter :: "'u option"
  backiter :: "'u option"

text \<open>One call of \<^verbatim>\<open>next\<close> on the inner iterator at the front, if there is one.\<close>

definition front_next ::
  "('u \<Rightarrow> 'a option \<times> 'u) \<Rightarrow> ('s, 'u) flat_map_iter \<Rightarrow> 'a option \<times> ('s, 'u) flat_map_iter" where
  "front_next inext self =
     (case frontiter self of
        None \<Rightarrow> (None, self)
      | Some inner \<Rightarrow> (let (elt, inner') = inext inner in (elt, self\<lparr>frontiter := Some inner'\<rparr>)))"

text \<open>\<^verbatim>\<open>self.backiter.as_mut().and_then(|it| it.next())\<close>\<close>

definition back_next ::
  "('u \<Rightarrow> 'a option \<times> 'u) \<Rightarrow> ('s, 'u) flat_map_iter \<Rightarrow> 'a option \<times> ('s, 'u) flat_map_iter" where
  "back_next inext self =
     (case backiter self of
        None \<Rightarrow> (None, self)
      | Some inner \<Rightarrow> (let (elt, inner') = inext inner in (elt, self\<lparr>backiter := Some inner'\<rparr>)))"

partial_function (option) flat_map_next ::
  "('s \<Rightarrow> 'x option \<times> 's) \<Rightarrow> ('x \<Rightarrow> 'u) \<Rightarrow> ('u \<Rightarrow> 'a option \<times> 'u)
     \<Rightarrow> ('s, 'u) flat_map_iter \<Rightarrow> ('a option \<times> ('s, 'u) flat_map_iter) option" where
  "flat_map_next onext f inext self =
     (case front_next inext self of
        (Some x, self') \<Rightarrow> Some (Some x, self')
      | (None, self') \<Rightarrow>
          (case onext (fm_iter self') of
             (None, it) \<Rightarrow> Some (back_next inext (self'\<lparr>fm_iter := it\<rparr>))
           | (Some e, it) \<Rightarrow>
               flat_map_next onext f inext (self'\<lparr>fm_iter := it, frontiter := Some (f e)\<rparr>)))"

partial_function (option) iter_fold ::
  "('s \<Rightarrow> ('a option \<times> 's) option) \<Rightarrow> ('b \<Rightarrow> 'a \<Rightarrow> 'b) \<Rightarrow> 's \<Rightarrow> 'b \<Rightarrow> 'b option" where
  "iter_fold nxt g self accum =
     (case nxt self of
        None \<Rightarrow> None
      | Some (None, self') \<Rightarrow> Some accum
      | Some (Some x, self') \<Rightarrow> iter_fold nxt g self' (g accum x))"

definition iter_count :: "('s \<Rightarrow> ('a option \<times> 's) option) \<Rightarrow> 's \<Rightarrow> 'c::semiring_1 option" where
  "iter_count nxt self = iter_fold nxt (\<lambda>count _. count + 1) self 0"

definition iter_collect :: "('s \<Rightarrow> ('a option \<times> 's) option) \<Rightarrow> 's \<Rightarrow> 'a list option" where
  "iter_collect nxt self = iter_fold nxt vec_push self []"

fun nexts :: "nat \<Rightarrow> ('s \<Rightarrow> ('a option \<times> 's) option) \<Rightarrow> 's \<Rightarrow> ('a option \<times> 's) option" where
  "nexts 0 nxt self = nxt self"
| "nexts (Suc k) nxt self = Option.bind (nxt self) (\<lambda>(x, self'). nexts k nxt self')"

text \<open>
  \<open>nxt\<close> walks through \<open>items\<close>: a call returns the first item of the state's list
  and leaves a state with the rest, and it returns nothing, and leaves nothing, when
  the list is empty. \<open>yields_opt\<close> is the same for a \<^verbatim>\<open>next\<close> that is a loop, and
  says that the loop returns.
\<close>

definition yields :: "('s \<Rightarrow> 'a option \<times> 's) \<Rightarrow> ('s \<Rightarrow> 'a list) \<Rightarrow> bool" where
  "yields nxt items \<longleftrightarrow> (\<forall>s. (fst (nxt s), items (snd (nxt s))) = iter_next (items s))"

definition yields_opt :: "('s \<Rightarrow> ('a option \<times> 's) option) \<Rightarrow> ('s \<Rightarrow> 'a list) \<Rightarrow> bool" where
  "yields_opt nxt items \<longleftrightarrow>
     (\<forall>s. \<exists>r. nxt s = Some r \<and> (fst r, items (snd r)) = iter_next (items s))"

text \<open>
  What a \<^verbatim>\<open>FlatMap\<close> has left to yield: the rest of the inner iterator at the front,
  the inner iterators of what the outer iterator has left, and the rest of the inner
  iterator at the back.
\<close>

definition front_items :: "('u \<Rightarrow> 'a list) \<Rightarrow> ('s, 'u) flat_map_iter \<Rightarrow> 'a list" where
  "front_items ii self = flat_map ii (option_into_iter (frontiter self))"

definition back_items :: "('u \<Rightarrow> 'a list) \<Rightarrow> ('s, 'u) flat_map_iter \<Rightarrow> 'a list" where
  "back_items ii self = flat_map ii (option_into_iter (backiter self))"

definition fm_items ::
  "('s \<Rightarrow> 'x list) \<Rightarrow> ('x \<Rightarrow> 'u) \<Rightarrow> ('u \<Rightarrow> 'a list) \<Rightarrow> ('s, 'u) flat_map_iter \<Rightarrow> 'a list" where
  "fm_items oi f ii self =
     front_items ii self @ flat_map (\<lambda>e. ii (f e)) (oi (fm_iter self)) @ back_items ii self"

section \<open>The cursors yield lists\<close>

lemma yieldsD:
  assumes "yields nxt items"
  shows "items s = [] \<Longrightarrow> fst (nxt s) = None \<and> items (snd (nxt s)) = []"
    and "items s = x # xs \<Longrightarrow> fst (nxt s) = Some x \<and> items (snd (nxt s)) = xs"
  using assms [unfolded yields_def, rule_format, of s] by simp_all

lemma yields_iter_next: "yields iter_next (\<lambda>xs. xs)"
  unfolding yields_def
proof
  fix s :: "'a list"
  show "(fst (iter_next s), snd (iter_next s)) = iter_next s" by simp
qed

lemma yields_option_next: "yields option_next option_into_iter"
  unfolding yields_def
proof
  fix s :: "'a option"
  show "(fst (option_next s), option_into_iter (snd (option_next s)))
      = iter_next (option_into_iter s)"
    by (cases s) simp_all
qed

lemma yields_map_next:
  assumes "yields nxt items"
  shows "yields (map_next nxt g) (\<lambda>s. map g (items s))"
  unfolding yields_def
proof
  fix s
  show "(fst (map_next nxt g s), map g (items (snd (map_next nxt g s))))
      = iter_next (map g (items s))"
    using yieldsD [OF assms, of s]
    by (cases "items s") (auto simp: map_next_def split: prod.splits)
qed

section \<open>FlatMap\<close>

lemma front_items_simps [simp]:
  "front_items ii (self\<lparr>frontiter := None\<rparr>) = []"
  "front_items ii (self\<lparr>frontiter := Some u\<rparr>) = ii u"
  "front_items ii (self\<lparr>fm_iter := it\<rparr>) = front_items ii self"
  "front_items ii (self\<lparr>backiter := b\<rparr>) = front_items ii self"
  by (simp_all add: front_items_def)

lemma back_items_simps [simp]:
  "back_items ii (self\<lparr>backiter := None\<rparr>) = []"
  "back_items ii (self\<lparr>backiter := Some u\<rparr>) = ii u"
  "back_items ii (self\<lparr>fm_iter := it\<rparr>) = back_items ii self"
  "back_items ii (self\<lparr>frontiter := b\<rparr>) = back_items ii self"
  by (simp_all add: back_items_def)

lemma front_next_fields [simp]:
  "fm_iter (snd (front_next inext self)) = fm_iter self"
  "backiter (snd (front_next inext self)) = backiter self"
  by (simp_all add: front_next_def split: option.splits prod.splits)

lemma back_next_fields [simp]:
  "fm_iter (snd (back_next inext self)) = fm_iter self"
  "frontiter (snd (back_next inext self)) = frontiter self"
  by (simp_all add: back_next_def split: option.splits prod.splits)

lemma front_next_yields:
  assumes "yields inext ii"
  shows "(fst (front_next inext self), front_items ii (snd (front_next inext self)))
      = iter_next (front_items ii self)"
proof (cases "frontiter self")
  case None
  then show ?thesis
    by (simp add: front_next_def front_items_def)
next
  case (Some inner)
  with yieldsD [OF assms, of inner] show ?thesis
    by (cases "ii inner") (auto simp: front_next_def front_items_def split: prod.splits)
qed

lemma back_next_yields:
  assumes "yields inext ii"
  shows "(fst (back_next inext self), back_items ii (snd (back_next inext self)))
      = iter_next (back_items ii self)"
proof (cases "backiter self")
  case None
  then show ?thesis
    by (simp add: back_next_def back_items_def)
next
  case (Some inner)
  with yieldsD [OF assms, of inner] show ?thesis
    by (cases "ii inner") (auto simp: back_next_def back_items_def split: prod.splits)
qed

lemma back_items_front_next [simp]:
  "back_items ii (snd (front_next inext self)) = back_items ii self"
  by (simp add: back_items_def)

lemma front_items_back_next [simp]:
  "front_items ii (snd (back_next inext self)) = front_items ii self"
  by (simp add: front_items_def)

lemma flat_map_next_unfold:
  "flat_map_next onext f inext self =
     (let r = front_next inext self; out = onext (fm_iter (snd r))
      in case fst r of
           Some x \<Rightarrow> Some r
         | None \<Rightarrow>
             (case fst out of
                None \<Rightarrow> Some (back_next inext ((snd r)\<lparr>fm_iter := snd out\<rparr>))
              | Some e \<Rightarrow>
                  flat_map_next onext f inext
                    ((snd r)\<lparr>fm_iter := snd out, frontiter := Some (f e)\<rparr>)))"
proof -
  obtain x s where r: "front_next inext self = (x, s)"
    by (cases "front_next inext self")
  obtain y it where out: "onext (fm_iter s) = (y, it)"
    by (cases "onext (fm_iter s)")
  show ?thesis
    by (subst flat_map_next.simps) (simp add: r out Let_def split: option.splits)
qed

text \<open>
  \<^verbatim>\<open>FlatMap::next\<close> returns, and walks through what the iterator has left, when the
  outer and the inner iterators walk through lists. The loop runs once for every
  empty inner iterator ahead, so the induction is on what the outer iterator has left:
  the call returns at once when the front has an item (\<open>flat_map_next_front\<close>) or
  when the front and the outer iterator are exhausted (\<open>flat_map_next_done\<close>), and
  otherwise fetches the next inner iterator and goes round (\<open>flat_map_next_fetch\<close>).
\<close>

lemma flat_map_next_front:
  assumes i: "yields inext ii" and front: "front_items ii self = x # xs"
  shows "\<exists>r. flat_map_next onext f inext self = Some r
           \<and> (fst r, fm_items oi f ii (snd r)) = iter_next (fm_items oi f ii self)"
  using front front_next_yields [OF i, of self]
  by (simp add: flat_map_next_unfold [of onext f inext self] fm_items_def Let_def)

lemma flat_map_next_done:
  assumes o: "yields onext oi" and i: "yields inext ii"
    and front: "front_items ii self = []" and outer: "oi (fm_iter self) = []"
  shows "\<exists>r. flat_map_next onext f inext self = Some r
           \<and> (fst r, fm_items oi f ii (snd r)) = iter_next (fm_items oi f ii self)"
proof -
  let ?s = "snd (front_next inext self)"
  from outer have out: "fst (onext (fm_iter ?s)) = None" "oi (snd (onext (fm_iter ?s))) = []"
    using yieldsD(1) [OF o, of "fm_iter self"] by simp_all
  from front front_next_yields [OF i, of self]
  have "fst (front_next inext self) = None" "front_items ii ?s = []"
    by simp_all
  with out outer front back_next_yields [OF i, of "?s\<lparr>fm_iter := snd (onext (fm_iter ?s))\<rparr>"]
  show ?thesis
    by (simp add: flat_map_next_unfold [of onext f inext self] fm_items_def Let_def)
qed

lemma flat_map_next_fetch:
  assumes o: "yields onext oi" and i: "yields inext ii"
    and front: "front_items ii self = []" and outer: "oi (fm_iter self) = e # es"
    and rest: "\<exists>r. flat_map_next onext f inext
        ((snd (front_next inext self))\<lparr>fm_iter := snd (onext (fm_iter self)),
           frontiter := Some (f e)\<rparr>) = Some r
      \<and> (fst r, fm_items oi f ii (snd r))
          = iter_next (fm_items oi f ii
              ((snd (front_next inext self))\<lparr>fm_iter := snd (onext (fm_iter self)),
                 frontiter := Some (f e)\<rparr>))"
  shows "\<exists>r. flat_map_next onext f inext self = Some r
           \<and> (fst r, fm_items oi f ii (snd r)) = iter_next (fm_items oi f ii self)"
proof -
  let ?s = "snd (front_next inext self)"
  let ?n = "?s\<lparr>fm_iter := snd (onext (fm_iter self)), frontiter := Some (f e)\<rparr>"
  from outer have out: "fst (onext (fm_iter ?s)) = Some e" "oi (snd (onext (fm_iter ?s))) = es"
    using yieldsD(2) [OF o, of "fm_iter self" e es] by simp_all
  from front front_next_yields [OF i, of self]
  have none: "fst (front_next inext self) = None"
    by simp
  have "fm_items oi f ii ?n = fm_items oi f ii self"
    using out front outer by (simp add: fm_items_def)
  with rest none out show ?thesis
    by (simp add: flat_map_next_unfold [of onext f inext self] Let_def)
qed

lemma flat_map_next_step:
  assumes o: "yields onext oi" and i: "yields inext ii"
  shows "\<exists>r. flat_map_next onext f inext self = Some r
           \<and> (fst r, fm_items oi f ii (snd r)) = iter_next (fm_items oi f ii self)"
proof (induction "oi (fm_iter self)" arbitrary: self)
  case Nil
  show ?case
  proof (cases "front_items ii self")
    case (Cons x xs)
    with i show ?thesis
      by (rule flat_map_next_front)
  next
    case front: Nil
    with o i show ?thesis
      using Nil [symmetric] by (rule flat_map_next_done)
  qed
next
  case (Cons e es)
  show ?case
  proof (cases "front_items ii self")
    case (Cons x xs)
    with i show ?thesis
      by (rule flat_map_next_front)
  next
    case front: Nil
    let ?n = "(snd (front_next inext self))\<lparr>fm_iter := snd (onext (fm_iter self)),
      frontiter := Some (f e)\<rparr>"
    have "es = oi (fm_iter ?n)"
      using yieldsD(2) [OF o, of "fm_iter self" e es] Cons(2) by simp
    then have "\<exists>r. flat_map_next onext f inext ?n = Some r
        \<and> (fst r, fm_items oi f ii (snd r)) = iter_next (fm_items oi f ii ?n)"
      by (rule Cons(1))
    with o i front Cons(2) [symmetric] show ?thesis
      by (rule flat_map_next_fetch)
  qed
qed

lemma yields_flat_map_next:
  "yields onext oi \<Longrightarrow> yields inext ii
     \<Longrightarrow> yields_opt (flat_map_next onext f inext) (fm_items oi f ii)"
  unfolding yields_opt_def by (intro allI flat_map_next_step)

section \<open>The loops over an iterator\<close>

lemma yields_optD:
  assumes "yields_opt nxt items"
  obtains x s' where "nxt s = Some (x, s')" and "(x, items s') = iter_next (items s)"
  using assms [unfolded yields_opt_def, rule_format, of s] by (metis prod.collapse)

text \<open>
  \<^verbatim>\<open>fold\<close> returns on an iterator that walks through a list, with the fold of the
  list; the induction is on the list.
\<close>

lemma iter_fold_yields:
  assumes "yields_opt nxt items"
  shows "iter_fold nxt g s a = Some (foldl g a (items s))"
proof (induction "items s" arbitrary: s a)
  case Nil
  obtain x s' where "nxt s = Some (x, s')" "(x, items s') = iter_next (items s)"
    by (rule yields_optD [OF assms])
  with Nil [symmetric] show ?case
    by (subst iter_fold.simps) simp
next
  case (Cons y ys)
  obtain x s' where n: "nxt s = Some (x, s')" "(x, items s') = iter_next (items s)"
    by (rule yields_optD [OF assms])
  with Cons(2) [symmetric] have "x = Some y" "ys = items s'"
    by simp_all
  with n Cons(1) [of s' "g a y"] Cons(2) [symmetric] show ?case
    by (subst iter_fold.simps) simp
qed

lemma iter_count_yields:
  "yields_opt nxt items \<Longrightarrow> iter_count nxt s = Some (of_nat (length (items s)))"
  by (simp add: iter_count_def iter_fold_yields foldl_count)

lemma iter_collect_yields: "yields_opt nxt items \<Longrightarrow> iter_collect nxt s = Some (items s)"
  by (simp add: iter_collect_def iter_fold_yields foldl_vec_push)

text \<open>
  The call of \<^verbatim>\<open>next\<close> after \<open>k\<close> earlier calls returns the item at position \<open>k\<close> of
  the list, and nothing when the list is that short: the iterator reaches every item,
  and once it is exhausted it stays so.
\<close>

lemma nexts_yields:
  assumes "yields_opt nxt items"
  shows "\<exists>s'. nexts k nxt s
           = Some (if k < length (items s) then Some (items s ! k) else None, s')
         \<and> items s' = drop (Suc k) (items s)"
proof (induction k arbitrary: s)
  case 0
  obtain x s' where "nxt s = Some (x, s')" "(x, items s') = iter_next (items s)"
    by (rule yields_optD [OF assms])
  then show ?case
    by (cases "items s") auto
next
  case (Suc k)
  obtain x s' where n: "nxt s = Some (x, s')" "(x, items s') = iter_next (items s)"
    by (rule yields_optD [OF assms])
  from n(2) have "items s' = tl (items s)"
    by (cases "items s") auto
  with Suc [of s'] n(1) show ?case
    by (cases "items s") (auto simp: drop_Suc)
qed

end
