(* ===== verification/HeaderMap_Lazy.thy ===== *)
theory HeaderMap_Lazy
  imports HeaderMap_Iter HeaderMap_Usize Lazy_Iterator
begin

text \<open>
  The iterators of \<^verbatim>\<open>HeaderMap\<close> as the lazy cursors that the methods build, and
  the loops that the methods run over them. Theory \<open>HeaderMap\<close> takes an iterator
  for the list of its items; here each iterator is the state that the method returns
  (suffix \<open>_lazy\<close>) and the \<^verbatim>\<open>next\<close> of its type (suffix \<open>_next\<close>), built from the
  adaptors of theory \<open>Lazy_Iterator\<close> exactly as the source chains them:

  \<^item> \<^verbatim>\<open>len\<close>: \<^verbatim>\<open>self.headers.iter().flat_map(|(_, values)| values.iter()).count()\<close>;
  \<^item> \<^verbatim>\<open>get\<close>: \<^verbatim>\<open>self.headers.get(name).into_iter().flat_map(|values| values.iter().map(|val| val.borrow()))\<close>;
  \<^item> \<^verbatim>\<open>iter\<close> and \<^verbatim>\<open>into_iter\<close>: a \<^verbatim>\<open>flat_map\<close> over the entries whose inner
    iterator maps the values of an entry to headers with the entry's name;
  \<^item> \<^verbatim>\<open>remove_all\<close>: \<^verbatim>\<open>old_map.into_iter().collect()\<close>.

  The lemmas show that every such iterator walks through the list that theory
  \<open>HeaderMap\<close> takes it for, that the loops \<^verbatim>\<open>count\<close> and \<^verbatim>\<open>collect\<close> return on
  every map, and what each single call of \<^verbatim>\<open>next\<close> returns.
\<close>

section \<open>Definitions\<close>

type_synonym values_iter = "((cow_str \<times> cow_str list) list, cow_str list) flat_map_iter"
type_synonym get_iter = "(cow_str list option, cow_str list) flat_map_iter"
type_synonym headers_iter =
  "((cow_str \<times> cow_str list) list, cow_str \<times> cow_str list) flat_map_iter"

definition len_lazy_iter :: "header_map \<Rightarrow> values_iter" where
  "len_lazy_iter self = \<lparr>fm_iter = hm_iter (headers self), frontiter = None, backiter = None\<rparr>"

definition len_lazy_next :: "values_iter \<Rightarrow> (cow_str option \<times> values_iter) option" where
  "len_lazy_next = flat_map_next iter_next (\<lambda>(_, values). values) iter_next"

definition len_lazy :: "header_map \<Rightarrow> 'c::semiring_1 option" where
  "len_lazy self = iter_count len_lazy_next (len_lazy_iter self)"

definition get_lazy :: "header_map \<Rightarrow> string \<Rightarrow> get_iter" where
  "get_lazy self n = \<lparr>fm_iter = hm_get (headers self) n, frontiter = None, backiter = None\<rparr>"

definition get_lazy_next :: "get_iter \<Rightarrow> (string option \<times> get_iter) option" where
  "get_lazy_next =
     flat_map_next option_next (\<lambda>values. values) (map_next iter_next (\<lambda>val. val))"

text \<open>
  The inner iterator of \<^verbatim>\<open>iter\<close> and of \<^verbatim>\<open>into_iter\<close>: a \<^verbatim>\<open>Map\<close> over the values
  of an entry whose closure has captured the entry's name. Its state is the name and
  the values that are left.
\<close>

definition entry_next ::
  "('k \<Rightarrow> 'v \<Rightarrow> 'h) \<Rightarrow> 'k \<times> 'v list \<Rightarrow> 'h option \<times> ('k \<times> 'v list)" where
  "entry_next mk = (\<lambda>(key, values).
     let (val, values') = iter_next values in (map_option (mk key) val, (key, values')))"

definition iter_lazy :: "header_map \<Rightarrow> headers_iter" where
  "iter_lazy self = \<lparr>fm_iter = hm_iter (headers self), frontiter = None, backiter = None\<rparr>"

definition iter_lazy_next :: "headers_iter \<Rightarrow> (header option \<times> headers_iter) option" where
  "iter_lazy_next =
     flat_map_next iter_next (\<lambda>(key, values). (key, values))
       (entry_next (\<lambda>key val. header_new key val))"

definition into_iter_lazy :: "header_map \<Rightarrow> headers_iter" where
  "into_iter_lazy self =
     \<lparr>fm_iter = hm_into_iter (headers self), frontiter = None, backiter = None\<rparr>"

definition into_iter_lazy_next :: "headers_iter \<Rightarrow> (header option \<times> headers_iter) option" where
  "into_iter_lazy_next =
     flat_map_next iter_next (\<lambda>(n, vs). (n, vs))
       (entry_next (\<lambda>n v. \<lparr>name = n, value = v\<rparr>))"

definition remove_all_lazy :: "header_map \<Rightarrow> header list option \<times> header_map" where
  "remove_all_lazy self =
     (let (old_map, self') = mem_replace self new
      in (iter_collect into_iter_lazy_next (into_iter_lazy old_map), self'))"

section \<open>The iterators walk through the lists\<close>

lemma yields_entry_next: "yields (entry_next mk) (\<lambda>(key, vs). map (mk key) vs)"
  unfolding yields_def
proof
  fix s :: "'a \<times> 'b list"
  obtain key vs where s: "s = (key, vs)" by (cases s)
  show "(fst (entry_next mk s), (case snd (entry_next mk s) of (key, vs) \<Rightarrow> map (mk key) vs))
      = iter_next (case s of (key, vs) \<Rightarrow> map (mk key) vs)"
    by (cases vs) (simp_all add: s entry_next_def)
qed

lemma yields_len_lazy_next:
  "yields_opt len_lazy_next (fm_items (\<lambda>xs. xs) (\<lambda>(_, values). values) (\<lambda>xs. xs))"
  unfolding len_lazy_next_def
  by (intro yields_flat_map_next yields_iter_next)

lemma yields_get_lazy_next:
  "yields_opt get_lazy_next
     (fm_items option_into_iter (\<lambda>values. values) (\<lambda>s. map (\<lambda>val. val) s))"
  unfolding get_lazy_next_def
  by (intro yields_flat_map_next yields_option_next yields_map_next yields_iter_next)

lemma yields_iter_lazy_next:
  "yields_opt iter_lazy_next
     (fm_items (\<lambda>xs. xs) (\<lambda>(key, values). (key, values))
        (\<lambda>(key, vs). map (\<lambda>val. header_new key val) vs))"
  unfolding iter_lazy_next_def
  by (intro yields_flat_map_next yields_iter_next yields_entry_next)

lemma yields_into_iter_lazy_next:
  "yields_opt into_iter_lazy_next
     (fm_items (\<lambda>xs. xs) (\<lambda>(n, vs). (n, vs))
        (\<lambda>(n, vs). map (\<lambda>v. \<lparr>name = n, value = v\<rparr>) vs))"
  unfolding into_iter_lazy_next_def
  by (intro yields_flat_map_next yields_iter_next yields_entry_next)

text \<open>What each iterator has to yield when the method returns it.\<close>

lemma fm_items_start:
  "fm_items oi f ii \<lparr>fm_iter = s, frontiter = None, backiter = None\<rparr>
     = flat_map (\<lambda>e. ii (f e)) (oi s)"
  by (simp add: fm_items_def front_items_def back_items_def)

lemma items_len_lazy:
  "fm_items (\<lambda>xs. xs) (\<lambda>(_, values). values) (\<lambda>xs. xs) (len_lazy_iter self)
     = flat_map (\<lambda>(_, values). values) (headers self)"
  by (simp add: len_lazy_iter_def fm_items_start hm_iter_def case_prod_unfold)

lemma items_get_lazy:
  "fm_items option_into_iter (\<lambda>values. values) (\<lambda>s. map (\<lambda>val. val) s) (get_lazy self n)
     = get self n"
  by (simp add: get_lazy_def fm_items_start get_def)

lemma items_iter_lazy:
  "fm_items (\<lambda>xs. xs) (\<lambda>(key, values). (key, values))
     (\<lambda>(key, vs). map (\<lambda>val. header_new key val) vs) (iter_lazy self) = iter self"
  by (simp add: iter_lazy_def fm_items_start iter_def case_prod_unfold)

lemma items_into_iter_lazy:
  "fm_items (\<lambda>xs. xs) (\<lambda>(n, vs). (n, vs))
     (\<lambda>(n, vs). map (\<lambda>v. \<lparr>name = n, value = v\<rparr>) vs) (into_iter_lazy self) = into_iter self"
  by (simp add: into_iter_lazy_def fm_items_start into_iter_def case_prod_unfold)

lemmas lazy_items = items_len_lazy items_get_lazy items_iter_lazy items_into_iter_lazy

section \<open>The loops return\<close>

lemma len_lazy_eq: "len_lazy self = Some (of_nat (len self))"
  by (simp only: len_lazy_def iter_count_yields [OF yields_len_lazy_next] items_len_lazy
      len_headers)

lemma collect_get_lazy: "iter_collect get_lazy_next (get_lazy self n) = Some (get self n)"
  by (simp only: iter_collect_yields [OF yields_get_lazy_next] items_get_lazy)

lemma collect_iter_lazy: "iter_collect iter_lazy_next (iter_lazy self) = Some (iter self)"
  by (simp only: iter_collect_yields [OF yields_iter_lazy_next] items_iter_lazy)

lemma collect_into_iter_lazy:
  "iter_collect into_iter_lazy_next (into_iter_lazy self) = Some (into_iter self)"
  by (simp only: iter_collect_yields [OF yields_into_iter_lazy_next] items_into_iter_lazy)

lemma count_iter_lazy: "iter_count iter_lazy_next (iter_lazy self) = Some (of_nat (len self))"
  by (simp only: iter_count_yields [OF yields_iter_lazy_next] items_iter_lazy length_iter)

lemma remove_all_lazy_eq:
  "remove_all_lazy self = (Some (fst (remove_all self)), snd (remove_all self))"
  by (simp add: remove_all_lazy_def remove_all_def mem_replace_def collect_into_iter_lazy)

lemma nexts_get_lazy:
  "map_option fst (nexts k get_lazy_next (get_lazy self n))
     = Some (if k < length (get self n) then Some (get self n ! k) else None)"
  using nexts_yields [OF yields_get_lazy_next, of k "get_lazy self n"]
  unfolding items_get_lazy by auto

lemma nexts_iter_lazy:
  "map_option fst (nexts k iter_lazy_next (iter_lazy self))
     = Some (if k < len self then Some (iter self ! k) else None)"
  using nexts_yields [OF yields_iter_lazy_next, of k "iter_lazy self"]
  unfolding items_iter_lazy length_iter by auto

section \<open>Properties\<close>

text \<open>
  \<^bold>\<open>C16\<close> The loops of the file return on every map, with the results of the list
  model. \<^verbatim>\<open>len\<close> runs \<^verbatim>\<open>count\<close> over a \<^verbatim>\<open>FlatMap\<close>, whose \<^verbatim>\<open>next\<close> is itself a
  loop that skips the names without values; \<^verbatim>\<open>remove_all\<close> runs \<^verbatim>\<open>collect\<close> over
  the iterator of the drained map. Both return, whatever the map stores: \<open>len_lazy\<close>
  with the number of stored values (in the natural numbers, and in a word with the
  value of \<open>len_usize\<close>), \<open>remove_all_lazy\<close> with the headers that \<open>remove_all\<close>
  returns and the empty map. A caller who drives the iterator of \<^verbatim>\<open>get\<close>, \<^verbatim>\<open>iter\<close>
  or \<^verbatim>\<open>into_iter\<close> to its end collects the list that theory \<open>HeaderMap\<close> takes the
  iterator for.
\<close>

theorem lazy_loops_return:
  "(len_lazy self :: nat option) = Some (len self)
   \<and> (len_lazy self :: 'w::len word option) = Some (len_usize self)
   \<and> remove_all_lazy self = (Some (fst (remove_all self)), new)
   \<and> iter_collect get_lazy_next (get_lazy self n) = Some (get self n)
   \<and> iter_collect iter_lazy_next (iter_lazy self) = Some (iter self)
   \<and> iter_collect into_iter_lazy_next (into_iter_lazy self) = Some (into_iter self)
   \<and> (iter_count iter_lazy_next (iter_lazy self) :: nat option) = Some (len self)"
  by (simp add: len_lazy_eq len_usize_of_nat remove_all_lazy_eq collect_get_lazy
      collect_iter_lazy collect_into_iter_lazy count_iter_lazy)

text \<open>
  \<^bold>\<open>C27\<close> Every call of \<^verbatim>\<open>next\<close> returns, and the iterators reach every item and
  then end: the call after \<open>k\<close> earlier calls returns the value at position \<open>k\<close> of
  \<open>get\<close> (the header at position \<open>k\<close> of \<open>iter\<close>), and nothing once \<open>k\<close> is the
  number of values (the length of the map) or more. An exhausted iterator stays
  exhausted.
\<close>

theorem lazy_next_reaches_all:
  "map_option fst (nexts k get_lazy_next (get_lazy self n))
     = Some (if k < length (get self n) then Some (get self n ! k) else None)
   \<and> map_option fst (nexts k iter_lazy_next (iter_lazy self))
     = Some (if k < len self then Some (iter self ! k) else None)"
  by (simp only: nexts_get_lazy nexts_iter_lazy simp_thms)

text \<open>
  The documentation example of \<^verbatim>\<open>get\<close> calls \<^verbatim>\<open>next\<close> three times on the iterator
  of a name with two values.
\<close>

lemma doc_get_lazy:
  "map (\<lambda>k. map_option fst (nexts k get_lazy_next (get_lazy custom_other_map ''X-Custom'')))
     [0, 1, 2]
   = [Some (Some ''value_1''), Some (Some ''value_2''), Some None]"
  by (simp add: nexts_get_lazy get_custom_other_map)

end
