(* ===== verification/Lazy_Cost.thy ===== *)
theory Lazy_Cost
  imports Lazy_Iterator
begin

text \<open>
  The cost of the loops over an iterator, counted in calls of \<^verbatim>\<open>next\<close> on the
  iterators at the bottom of a chain of adaptors (the iterator of a slice, of a hash
  map, of an option). Each function \<open>T_f\<close> follows the equations of \<open>f\<close> and
  returns the number of such calls that \<open>f\<close> makes:

  \<^item> \<open>T_front_next\<close> and \<open>T_back_next\<close>: one call when there is an inner iterator
    at the front (at the back), none otherwise;
  \<^item> \<open>T_flat_map_next\<close>: a call of \<^verbatim>\<open>FlatMap::next\<close> makes one call on the inner
    iterator at the front and, when that is exhausted, one on the outer iterator,
    and so on around the loop;
  \<^item> \<open>T_iter_fold\<close>: \<^verbatim>\<open>fold\<close> makes the calls of every call of \<^verbatim>\<open>next\<close> up to
    and with the one that returns nothing.

  \<open>fm_cost\<close> is what it costs to drain a \<^verbatim>\<open>FlatMap\<close> that has no inner iterator
  at the back: one call for every item, one more for every inner iterator (the call
  that finds it exhausted), one for every item of the outer iterator and one that
  finds the outer iterator exhausted. \<open>T_iter_fold_flat_map\<close> shows that \<^verbatim>\<open>fold\<close>
  makes exactly that many calls.
\<close>

section \<open>Definitions\<close>

definition T_front_next :: "('s, 'u) flat_map_iter \<Rightarrow> nat" where
  "T_front_next self = (case frontiter self of None \<Rightarrow> 0 | Some inner \<Rightarrow> 1)"

definition T_back_next :: "('s, 'u) flat_map_iter \<Rightarrow> nat" where
  "T_back_next self = (case backiter self of None \<Rightarrow> 0 | Some inner \<Rightarrow> 1)"

partial_function (option) T_flat_map_next ::
  "('s \<Rightarrow> 'x option \<times> 's) \<Rightarrow> ('x \<Rightarrow> 'u) \<Rightarrow> ('u \<Rightarrow> 'a option \<times> 'u)
     \<Rightarrow> ('s, 'u) flat_map_iter \<Rightarrow> nat option" where
  "T_flat_map_next onext f inext self =
     (case front_next inext self of
        (Some x, self') \<Rightarrow> Some (T_front_next self)
      | (None, self') \<Rightarrow>
          (case onext (fm_iter self') of
             (None, it) \<Rightarrow> Some (T_front_next self + 1 + T_back_next (self'\<lparr>fm_iter := it\<rparr>))
           | (Some e, it) \<Rightarrow>
               Option.bind
                 (T_flat_map_next onext f inext (self'\<lparr>fm_iter := it, frontiter := Some (f e)\<rparr>))
                 (\<lambda>t. Some (T_front_next self + 1 + t))))"

partial_function (option) T_iter_fold ::
  "('s \<Rightarrow> ('a option \<times> 's) option) \<Rightarrow> ('s \<Rightarrow> nat option) \<Rightarrow> 's \<Rightarrow> nat option" where
  "T_iter_fold nxt T_nxt self =
     (case nxt self of
        None \<Rightarrow> None
      | Some (None, self') \<Rightarrow> T_nxt self
      | Some (Some x, self') \<Rightarrow>
          Option.bind (T_nxt self)
            (\<lambda>t. Option.bind (T_iter_fold nxt T_nxt self') (\<lambda>rest. Some (t + rest))))"

definition front_cost :: "('u \<Rightarrow> 'a list) \<Rightarrow> ('s, 'u) flat_map_iter \<Rightarrow> nat" where
  "front_cost ii self = (case frontiter self of None \<Rightarrow> 0 | Some inner \<Rightarrow> length (ii inner) + 1)"

definition fm_cost ::
  "('s \<Rightarrow> 'x list) \<Rightarrow> ('x \<Rightarrow> 'u) \<Rightarrow> ('u \<Rightarrow> 'a list) \<Rightarrow> ('s, 'u) flat_map_iter \<Rightarrow> nat" where
  "fm_cost oi f ii self =
     front_cost ii self + (\<Sum>e\<leftarrow>oi (fm_iter self). length (ii (f e)) + 2) + 1"

text \<open>
  A call of \<open>nxt\<close> in the state \<open>s\<close> returns, in a state where \<open>ok\<close> holds again,
  and is paid for by the decrease of \<open>cost\<close>: it makes as many calls as \<open>cost\<close>
  decreases, and all the calls that \<open>cost\<close> has left when it returns nothing.
\<close>

definition charged ::
  "('s \<Rightarrow> ('a option \<times> 's) option) \<Rightarrow> ('s \<Rightarrow> nat option) \<Rightarrow> ('s \<Rightarrow> bool) \<Rightarrow> ('s \<Rightarrow> nat)
     \<Rightarrow> 's \<Rightarrow> bool" where
  "charged nxt T_nxt ok cost s \<longleftrightarrow>
     (\<exists>r t. nxt s = Some r \<and> T_nxt s = Some t \<and> ok (snd r)
        \<and> t + (if fst r = None then 0 else cost (snd r)) = cost s)"

section \<open>One call of next on a FlatMap\<close>

lemma T_flat_map_next_unfold:
  "T_flat_map_next onext f inext self =
     (let r = front_next inext self; out = onext (fm_iter (snd r))
      in case fst r of
           Some x \<Rightarrow> Some (T_front_next self)
         | None \<Rightarrow>
             (case fst out of
                None \<Rightarrow> Some (T_front_next self + 1 + T_back_next ((snd r)\<lparr>fm_iter := snd out\<rparr>))
              | Some e \<Rightarrow>
                  Option.bind
                    (T_flat_map_next onext f inext
                       ((snd r)\<lparr>fm_iter := snd out, frontiter := Some (f e)\<rparr>))
                    (\<lambda>t. Some (T_front_next self + 1 + t))))"
proof -
  obtain x s where r: "front_next inext self = (x, s)"
    by (cases "front_next inext self")
  obtain y it where out: "onext (fm_iter s) = (y, it)"
    by (cases "onext (fm_iter s)")
  show ?thesis
    by (subst T_flat_map_next.simps) (simp add: r out Let_def split: option.splits)
qed

lemma front_cost_simps [simp]:
  "front_cost ii (self\<lparr>frontiter := None\<rparr>) = 0"
  "front_cost ii (self\<lparr>frontiter := Some u\<rparr>) = length (ii u) + 1"
  "front_cost ii (self\<lparr>fm_iter := it\<rparr>) = front_cost ii self"
  "front_cost ii (self\<lparr>backiter := b\<rparr>) = front_cost ii self"
  by (simp_all add: front_cost_def)

lemma T_back_next_simps [simp]:
  "T_back_next (self\<lparr>fm_iter := it\<rparr>) = T_back_next self"
  "backiter self = None \<Longrightarrow> T_back_next self = 0"
  by (simp_all add: T_back_next_def)

lemma front_cost_empty: "front_items ii self = [] \<Longrightarrow> T_front_next self = front_cost ii self"
  by (cases "frontiter self") (simp_all add: front_items_def T_front_next_def front_cost_def)

lemma front_cost_next:
  assumes "yields inext ii" and "front_items ii self = x # xs"
  shows "T_front_next self = 1"
    and "Suc (front_cost ii (snd (front_next inext self))) = front_cost ii self"
proof -
  from assms(2) obtain u where u: "frontiter self = Some u" "ii u = x # xs"
    by (cases "frontiter self") (simp_all add: front_items_def)
  then show "T_front_next self = 1"
    by (simp add: T_front_next_def)
  from u yieldsD(2) [OF assms(1), of u x xs]
  show "Suc (front_cost ii (snd (front_next inext self))) = front_cost ii self"
    by (auto simp: front_next_def front_cost_def split: prod.splits)
qed

abbreviation no_back :: "('s, 'u) flat_map_iter \<Rightarrow> bool" where
  "no_back self \<equiv> backiter self = None"

lemma charged_front:
  assumes i: "yields inext ii" and front: "front_items ii self = x # xs"
    and nb: "no_back self"
  shows "charged (flat_map_next onext f inext) (T_flat_map_next onext f inext) no_back
           (fm_cost oi f ii) self"
  using front nb front_next_yields [OF i, of self] front_cost_next [OF i front]
  by (simp add: charged_def flat_map_next_unfold [of onext f inext self]
      T_flat_map_next_unfold [of onext f inext self] fm_cost_def Let_def)

lemma charged_done:
  assumes o: "yields onext oi" and i: "yields inext ii"
    and front: "front_items ii self = []" and outer: "oi (fm_iter self) = []"
    and nb: "no_back self"
  shows "charged (flat_map_next onext f inext) (T_flat_map_next onext f inext) no_back
           (fm_cost oi f ii) self"
proof -
  let ?s = "snd (front_next inext self)"
  from outer have out: "fst (onext (fm_iter ?s)) = None"
    using yieldsD(1) [OF o, of "fm_iter self"] by simp
  from front front_next_yields [OF i, of self]
  have "fst (front_next inext self) = None"
    by simp
  with out outer nb front_cost_empty [OF front] show ?thesis
    by (simp add: charged_def flat_map_next_unfold [of onext f inext self]
        T_flat_map_next_unfold [of onext f inext self] fm_cost_def Let_def back_next_def)
qed

text \<open>
  When the front is exhausted and the outer iterator has an item left, the call
  fetches the inner iterator of that item and goes round the loop: it is paid for
  when the rest of the loop is.
\<close>

lemma charged_fetch:
  assumes o: "yields onext oi" and i: "yields inext ii"
    and front: "front_items ii self = []" and outer: "oi (fm_iter self) = e # es"
    and rest: "charged (flat_map_next onext f inext) (T_flat_map_next onext f inext) no_back
      (fm_cost oi f ii)
      ((snd (front_next inext self))\<lparr>fm_iter := snd (onext (fm_iter self)),
         frontiter := Some (f e)\<rparr>)"
  shows "charged (flat_map_next onext f inext) (T_flat_map_next onext f inext) no_back
           (fm_cost oi f ii) self"
proof -
  let ?s = "snd (front_next inext self)"
  let ?n = "?s\<lparr>fm_iter := snd (onext (fm_iter self)), frontiter := Some (f e)\<rparr>"
  from outer have out: "fst (onext (fm_iter ?s)) = Some e" "oi (snd (onext (fm_iter ?s))) = es"
    using yieldsD(2) [OF o, of "fm_iter self" e es] by simp_all
  from front front_next_yields [OF i, of self]
  have none: "fst (front_next inext self) = None"
    by simp
  from rest obtain r t where r: "flat_map_next onext f inext ?n = Some r"
    and t: "T_flat_map_next onext f inext ?n = Some t"
    and paid: "no_back (snd r)"
      "t + (if fst r = None then 0 else fm_cost oi f ii (snd r)) = fm_cost oi f ii ?n"
    unfolding charged_def by blast
  have "fm_cost oi f ii self = Suc (T_front_next self + fm_cost oi f ii ?n)"
    using out outer front_cost_empty [OF front] by (simp add: fm_cost_def)
  moreover have "flat_map_next onext f inext self = Some r"
    using none out r by (simp add: flat_map_next_unfold [of onext f inext self] Let_def)
  moreover have "T_flat_map_next onext f inext self = Some (Suc (T_front_next self + t))"
    using none out t by (simp add: T_flat_map_next_unfold [of onext f inext self] Let_def)
  ultimately show ?thesis
    using paid by (simp add: charged_def)
qed

lemma charged_flat_map_next:
  assumes o: "yields onext oi" and i: "yields inext ii"
  shows "no_back self \<Longrightarrow>
    charged (flat_map_next onext f inext) (T_flat_map_next onext f inext) no_back
      (fm_cost oi f ii) self"
proof (induction "oi (fm_iter self)" arbitrary: self)
  case Nil
  show ?case
  proof (cases "front_items ii self")
    case (Cons x xs)
    with i show ?thesis
      using Nil(2) by (rule charged_front)
  next
    case front: Nil
    with o i show ?thesis
      using Nil(1) [symmetric] Nil(2) by (rule charged_done)
  qed
next
  case (Cons e es)
  show ?case
  proof (cases "front_items ii self")
    case (Cons x xs)
    with i show ?thesis
      using Cons.prems by (rule charged_front)
  next
    case front: Nil
    let ?n = "(snd (front_next inext self))\<lparr>fm_iter := snd (onext (fm_iter self)),
      frontiter := Some (f e)\<rparr>"
    have "es = oi (fm_iter ?n)" and "no_back ?n"
      using yieldsD(2) [OF o, of "fm_iter self" e es] Cons(2) Cons.prems by simp_all
    then have "charged (flat_map_next onext f inext) (T_flat_map_next onext f inext) no_back
        (fm_cost oi f ii) ?n"
      by (rule Cons(1))
    with o i front Cons(2) [symmetric] show ?thesis
      by (rule charged_fetch)
  qed
qed

section \<open>The fold\<close>

lemma T_iter_fold_charged:
  assumes y: "yields_opt nxt items"
    and c: "\<And>s. ok s \<Longrightarrow> charged nxt T_nxt ok cost s"
  shows "ok s \<Longrightarrow> T_iter_fold nxt T_nxt s = Some (cost s)"
proof (induction "items s" arbitrary: s)
  case Nil
  obtain x s' where n: "nxt s = Some (x, s')" "(x, items s') = iter_next (items s)"
    by (rule yields_optD [OF y])
  with Nil(1) [symmetric] c [OF Nil(2)] show ?case
    by (subst T_iter_fold.simps) (auto simp: charged_def)
next
  case (Cons z zs)
  obtain x s' where n: "nxt s = Some (x, s')" "(x, items s') = iter_next (items s)"
    by (rule yields_optD [OF y])
  with Cons(2) [symmetric] have x: "x = Some z" "zs = items s'"
    by simp_all
  from c [OF Cons.prems] n(1) x(1) obtain t
    where t: "T_nxt s = Some t" "ok s'" "t + cost s' = cost s"
    by (auto simp: charged_def)
  with Cons(1) [OF x(2) t(2)] n(1) x(1) show ?case
    by (subst T_iter_fold.simps) simp
qed

lemma T_iter_fold_flat_map:
  assumes "yields onext oi" and "yields inext ii" and "no_back self"
  shows "T_iter_fold (flat_map_next onext f inext) (T_flat_map_next onext f inext) self
     = Some (fm_cost oi f ii self)"
  using yields_flat_map_next [OF assms(1,2)] charged_flat_map_next [OF assms(1,2)] assms(3)
  by (rule T_iter_fold_charged)

lemma sum_list_inner_cost:
  "(\<Sum>e\<leftarrow>xs. Suc (Suc (length (g e)))) = length (flat_map g xs) + 2 * length xs"
  by (induction xs) simp_all

lemma fm_cost_start:
  "fm_cost oi f ii \<lparr>fm_iter = s, frontiter = None, backiter = None\<rparr>
     = length (flat_map (\<lambda>e. ii (f e)) (oi s)) + 2 * length (oi s) + 1"
  by (simp add: fm_cost_def front_cost_def sum_list_inner_cost)

end
