(* ===== verification/HeaderMap_Cost.thy ===== *)
theory HeaderMap_Cost
  imports HeaderMap_Lazy HeaderMap_Run Lazy_Cost
begin

text \<open>
  The cost of the loops that the methods of \<^verbatim>\<open>HeaderMap\<close> run, in calls of
  \<^verbatim>\<open>next\<close> on the iterators of the hash map, of the value vectors and of the option
  that \<^verbatim>\<open>get\<close> looks up. \<open>T_len_lazy\<close> is the cost of \<^verbatim>\<open>len\<close>, which drains the
  iterator over all values; \<open>T_remove_all_lazy\<close> that of \<^verbatim>\<open>remove_all\<close>, which
  collects the iterator of the drained map; \<open>T_get_lazy\<close> and \<open>T_iter_lazy\<close> are
  what it costs a caller to drive the iterator of \<^verbatim>\<open>get\<close> or \<^verbatim>\<open>iter\<close> to its
  end. Lookups in the hash map are not counted. The counts are those of the
  adaptors of the standard library as theory \<open>Lazy_Iterator\<close> models them from its
  documentation; what the file contributes is the chain of adaptors that each method
  builds, and so which iterators are stepped and how often.

  Every such loop visits each value once and each name twice: the cost is the number
  of values, plus two for every entry of the map, plus one.
\<close>

section \<open>Definitions\<close>

definition T_len_lazy_next :: "values_iter \<Rightarrow> nat option" where
  "T_len_lazy_next = T_flat_map_next iter_next (\<lambda>(_, values). values) iter_next"

definition T_len_lazy :: "header_map \<Rightarrow> nat option" where
  "T_len_lazy self = T_iter_fold len_lazy_next T_len_lazy_next (len_lazy_iter self)"

definition T_get_lazy_next :: "get_iter \<Rightarrow> nat option" where
  "T_get_lazy_next =
     T_flat_map_next option_next (\<lambda>values. values) (map_next iter_next (\<lambda>val. val))"

definition T_get_lazy :: "header_map \<Rightarrow> string \<Rightarrow> nat option" where
  "T_get_lazy self n = T_iter_fold get_lazy_next T_get_lazy_next (get_lazy self n)"

definition T_iter_lazy_next :: "headers_iter \<Rightarrow> nat option" where
  "T_iter_lazy_next =
     T_flat_map_next iter_next (\<lambda>(key, values). (key, values))
       (entry_next (\<lambda>key val. header_new key val))"

definition T_iter_lazy :: "header_map \<Rightarrow> nat option" where
  "T_iter_lazy self = T_iter_fold iter_lazy_next T_iter_lazy_next (iter_lazy self)"

definition T_into_iter_lazy_next :: "headers_iter \<Rightarrow> nat option" where
  "T_into_iter_lazy_next =
     T_flat_map_next iter_next (\<lambda>(n, vs). (n, vs))
       (entry_next (\<lambda>n v. \<lparr>name = n, value = v\<rparr>))"

definition T_remove_all_lazy :: "header_map \<Rightarrow> nat option" where
  "T_remove_all_lazy self =
     (let (old_map, self') = mem_replace self new
      in T_iter_fold into_iter_lazy_next T_into_iter_lazy_next (into_iter_lazy old_map))"

section \<open>The cost of each loop\<close>

lemma T_len_lazy_eq: "T_len_lazy self = Some (len self + 2 * hm_len (headers self) + 1)"
  unfolding T_len_lazy_def T_len_lazy_next_def len_lazy_next_def len_lazy_iter_def
  by (subst T_iter_fold_flat_map [OF yields_iter_next yields_iter_next])
    (simp_all add: fm_cost_start len_headers hm_iter_def hm_len_def case_prod_unfold)

lemma T_iter_lazy_eq: "T_iter_lazy self = Some (len self + 2 * hm_len (headers self) + 1)"
  unfolding T_iter_lazy_def T_iter_lazy_next_def iter_lazy_next_def iter_lazy_def
  by (subst T_iter_fold_flat_map [OF yields_iter_next yields_entry_next])
    (simp_all add: fm_cost_start length_iter [symmetric] iter_def hm_iter_def hm_len_def
      case_prod_unfold)

lemma T_remove_all_lazy_eq:
  "T_remove_all_lazy self = Some (len self + 2 * hm_len (headers self) + 1)"
  unfolding T_remove_all_lazy_def T_into_iter_lazy_next_def into_iter_lazy_next_def
    into_iter_lazy_def mem_replace_def
  by (simp, subst T_iter_fold_flat_map [OF yields_iter_next yields_entry_next])
    (simp_all add: fm_cost_start length_iter [symmetric] into_iter_eq_iter [symmetric]
      into_iter_def hm_into_iter_def hm_len_def case_prod_unfold)

lemma T_get_lazy_eq:
  "T_get_lazy self n = Some (if contains self n then length (get self n) + 3 else 1)"
  unfolding T_get_lazy_def T_get_lazy_next_def get_lazy_next_def get_lazy_def
  by (subst T_iter_fold_flat_map
      [OF yields_option_next yields_map_next [OF yields_iter_next]])
    (auto simp: fm_cost_start contains_eq get_eq)

lemma headers_run_adds:
  "headers self = [(n, us)] \<Longrightarrow> headers (run self (map (AddRaw n) vs)) = [(n, us @ vs)]"
  by (induction vs arbitrary: self us) (simp_all add: add_raw_def headers_add get_eq hm_put_def)

lemma length_nonempty_groups:
  "list_all (\<lambda>(n, vs). vs \<noteq> []) m \<Longrightarrow> length m \<le> length (flat_map (\<lambda>(_, vs). vs) m)"
proof (induction m)
  case (Cons e m)
  then show ?case
    by (cases e; cases "snd e") auto
qed simp

lemma nonempty_names_le_len: "nonempty_values self \<Longrightarrow> hm_len (headers self) \<le> len self"
  by (simp add: len_headers hm_len_def nonempty_values_def length_nonempty_groups)

section \<open>Properties\<close>

text \<open>
  \<^bold>\<open>C17\<close> The loops over the iterators cost one step for every stored value, two
  for every name and one more: that is what \<^verbatim>\<open>len\<close> and \<^verbatim>\<open>remove_all\<close> cost on
  every map, and what it costs to drive the iterator of \<^verbatim>\<open>iter\<close> to its end;
  driving the iterator of \<^verbatim>\<open>get\<close> to its end costs the number of values of the
  name and three more, and one step when the name is absent. So \<^verbatim>\<open>len\<close> is linear in
  the number of values and not only in the number of names: on a map that holds one
  name it costs as many steps as the name has values, and three more. The cost is at
  least the length of the map and, when the map stores no empty vector, at most three
  times the length and one.
\<close>

theorem iteration_cost:
  "T_len_lazy self = Some (len self + 2 * hm_len (headers self) + 1)
   \<and> T_remove_all_lazy self = Some (len self + 2 * hm_len (headers self) + 1)
   \<and> T_iter_lazy self = Some (len self + 2 * hm_len (headers self) + 1)
   \<and> T_get_lazy self n = Some (if contains self n then length (get self n) + 3 else 1)
   \<and> T_len_lazy (run new (map (AddRaw n) (v # vs))) = Some (length (v # vs) + 3)
   \<and> (nonempty_values self \<longrightarrow> len self + 2 * hm_len (headers self) + 1 \<le> 3 * len self + 1)"
proof -
  have "headers (run new (map (AddRaw n) (v # vs))) = [(n, v # vs)]"
    using headers_run_adds [of "add_raw new n v" n "[v]" vs]
    by (simp add: add_raw_def headers_add get_new hm_put_def)
  then have "T_len_lazy (run new (map (AddRaw n) (v # vs))) = Some (length (v # vs) + 3)"
    by (simp add: T_len_lazy_eq len_headers hm_len_def)
  with nonempty_names_le_len [of self] show ?thesis
    by (simp add: T_len_lazy_eq T_remove_all_lazy_eq T_iter_lazy_eq T_get_lazy_eq)
qed

theorem iteration_cost_witness:
  "nonempty_values custom_other_map
   \<and> T_len_lazy custom_other_map = Some 8
   \<and> T_get_lazy custom_other_map ''X-Custom'' = Some 5
   \<and> T_get_lazy custom_other_map ''Accept'' = Some 1
   \<and> \<not> nonempty_values (replace_all new ''X-Custom'' [])
   \<and> len (replace_all new ''X-Custom'' []) = 0
   \<and> T_len_lazy (replace_all new ''X-Custom'' []) = Some 3"
proof -
  have "len (replace_all new ''X-Custom'' []) = 0"
    by (simp add: len_headers headers_replace_all hm_put_def flat_map_def)
  then have "T_len_lazy (replace_all new ''X-Custom'' []) = Some 3"
    by (simp add: T_len_lazy_eq headers_replace_all hm_put_def hm_len_def)
  with iteration_cost [of custom_other_map "''X-Custom''"]
    iteration_cost [of custom_other_map "''Accept''"]
  show ?thesis
    by (simp add: nonempty_values_custom_other_map headers_custom_other_map hm_len_def
        len_headers contains_eq get_eq nonempty_values_def headers_replace_all hm_put_def)
qed

end
