(* ===== verification/HeaderMap_Interleave.thy ===== *)
theory HeaderMap_Interleave
  imports HeaderMap_Run
begin

text \<open>
  Several parts of a program write to one \<^verbatim>\<open>HeaderMap\<close>: each sets the headers it
  is responsible for. This theory shows that the calls of two parts that work on
  different names do not interfere. A call of \<open>call\<close> works on one name, the name of
  its header or its name argument (\<open>call_name\<close>), except \<^verbatim>\<open>remove_all\<close>, which works
  on every name. Two calls are \<open>independent\<close> when they work on different names.

  The effect of a call on the entry of a name depends on that entry alone
  (\<open>a_apply_local\<close>), and a call on another name leaves the entry as it is
  (\<open>a_apply_frame\<close>). So the entry of a name after a run is the entry after the
  calls of the run that touch the name (\<open>lookup_run_filter\<close>), and, when the calls
  of two sequences are independent, every interleaving of the two sequences
  (\<open>shuffles\<close> of the library) leaves a map with the same entries as running one
  sequence after the other.
\<close>

section \<open>Definitions\<close>

fun call_name :: "call \<Rightarrow> string option" where
  "call_name (Replace h) = Some (name h)"
| "call_name (ReplaceRaw n v) = Some n"
| "call_name (ReplaceAll n vs) = Some n"
| "call_name (Add h) = Some (name h)"
| "call_name (AddRaw n v) = Some n"
| "call_name (AddAll n vs) = Some n"
| "call_name (Remove n) = Some n"
| "call_name RemoveAll = None"

definition touches :: "string \<Rightarrow> call \<Rightarrow> bool" where
  "touches n c \<longleftrightarrow> (case call_name c of None \<Rightarrow> True | Some k \<Rightarrow> k = n)"

definition independent :: "call \<Rightarrow> call \<Rightarrow> bool" where
  "independent c d \<longleftrightarrow>
     (case (call_name c, call_name d) of (Some n, Some k) \<Rightarrow> n \<noteq> k | _ \<Rightarrow> False)"

section \<open>The effect of a call is local to its name\<close>

lemma a_apply_frame: "\<not> touches n c \<Longrightarrow> a_apply m c n = m n"
  by (cases c)
    (auto simp: touches_def a_replace_def a_replace_all_def a_add_def a_add_all_def a_remove_def)

lemma a_apply_local: "m n = m' n \<Longrightarrow> a_apply m c n = a_apply m' c n"
  by (cases c) (auto simp: a_defs)

lemma foldl_a_apply_filter:
  "m n = m' n \<Longrightarrow> foldl a_apply m cs n = foldl a_apply m' (filter (touches n) cs) n"
proof (induction cs arbitrary: m m')
  case Nil
  then show ?case by simp
next
  case (Cons c cs)
  show ?case
  proof (cases "touches n c")
    case True
    have "a_apply m c n = a_apply m' c n"
      using Cons.prems by (rule a_apply_local)
    with Cons.IH [of "a_apply m c" "a_apply m' c"] True show ?thesis
      by simp
  next
    case False
    then have "a_apply m c n = m' n"
      using Cons.prems by (simp add: a_apply_frame)
    with Cons.IH [of "a_apply m c" m'] False show ?thesis
      by simp
  qed
qed

lemma lookup_run_filter:
  assumes "hmap_wf self"
  shows "hm_get (headers (run self cs)) n = hm_get (headers (run self (filter (touches n) cs))) n"
proof -
  have "abs_of (run self cs) n = abs_of (run self (filter (touches n) cs)) n"
    using assms foldl_a_apply_filter [of "abs_of self" n "abs_of self" cs]
    by (simp add: refines_run)
  then show ?thesis
    by (simp add: abs_of_apply)
qed

section \<open>Interleavings\<close>

lemma independent_touches:
  "independent c d \<Longrightarrow> \<not> (touches n c \<and> touches n d)"
  by (auto simp: independent_def touches_def split: option.splits)

lemma append_in_shuffles: "xs @ ys \<in> shuffles xs ys"
  by (induction xs) (simp_all add: Cons_in_shuffles_leftI)

lemma filter_shuffles_left:
  assumes "zs \<in> shuffles xs ys" and "\<And>y. y \<in> set ys \<Longrightarrow> \<not> P y"
  shows "filter P zs = filter P xs"
proof -
  have "filter P ys = []"
    using assms(2) by (simp add: filter_empty_conv)
  moreover have "filter P zs \<in> shuffles (filter P xs) (filter P ys)"
    using assms(1) filter_shuffles [of P xs ys] by blast
  ultimately show ?thesis
    by simp
qed

lemma filter_shuffles_right:
  assumes "zs \<in> shuffles xs ys" and "\<And>x. x \<in> set xs \<Longrightarrow> \<not> P x"
  shows "filter P zs = filter P ys"
proof -
  from assms(1) have "zs \<in> shuffles ys xs"
    by (subst shuffles_commutes)
  then show ?thesis
    using assms(2) by (rule filter_shuffles_left)
qed

lemma filter_touches_shuffles:
  assumes "zs \<in> shuffles cs ds" and "\<forall>c \<in> set cs. \<forall>d \<in> set ds. independent c d"
  shows "filter (touches n) zs = filter (touches n) (cs @ ds)"
proof (cases "\<exists>d \<in> set ds. touches n d")
  case True
  then have "\<not> touches n c" if "c \<in> set cs" for c
    using that assms(2) independent_touches by blast
  then have "filter (touches n) zs = filter (touches n) ds" "filter (touches n) cs = []"
    using assms(1) by (simp_all add: filter_shuffles_right filter_empty_conv)
  then show ?thesis
    by simp
next
  case False
  then have "filter (touches n) zs = filter (touches n) cs" "filter (touches n) ds = []"
    using assms(1) by (simp_all add: filter_shuffles_left filter_empty_conv)
  then show ?thesis
    by simp
qed

section \<open>Properties\<close>

text \<open>
  \<^bold>\<open>C13\<close> Calls on different names do not interfere. When every call of one sequence
  is independent of every call of another, every interleaving of the two sequences
  leaves, on a map with one entry per name, a map with the same entries as running
  the first sequence and then the second: the two maps differ at most in the order
  of their entries, so every name has the same values in both and both hold as many
  values. In particular the two sequences can be run in either order. (Calls on one
  name do not commute: the witness has an \<open>AddRaw\<close> and a \<open>ReplaceRaw\<close> of one name
  whose two orders leave different values.)
\<close>

theorem interleaving_independent:
  assumes "hmap_wf self" and "zs \<in> shuffles cs ds"
    and "\<forall>c \<in> set cs. \<forall>d \<in> set ds. independent c d"
  shows "hmap_equiv (run self zs) (run self (cs @ ds))
         \<and> hmap_equiv (run self (ds @ cs)) (run self (cs @ ds))
         \<and> get (run self zs) n = get (run self (cs @ ds)) n
         \<and> contains (run self zs) n = contains (run self (cs @ ds)) n
         \<and> len (run self zs) = len (run self (cs @ ds))"
proof -
  have "hmap_equiv (run self zs') (run self (cs @ ds))" if "zs' \<in> shuffles cs ds" for zs'
  proof (rule hmap_equiv_lookupI)
    fix k
    show "hm_get (headers (run self zs')) k = hm_get (headers (run self (cs @ ds))) k"
      using lookup_run_filter [OF assms(1), of zs' k] lookup_run_filter [OF assms(1), of "cs @ ds" k]
        filter_touches_shuffles [OF that assms(3), of k] by simp
  qed (simp_all add: assms(1) hmap_wf_run)
  moreover have "ds @ cs \<in> shuffles cs ds"
    by (subst shuffles_commutes) (rule append_in_shuffles)
  ultimately have "hmap_equiv (run self zs) (run self (cs @ ds))"
    and "hmap_equiv (run self (ds @ cs)) (run self (cs @ ds))"
    using assms(2) by blast+
  then show ?thesis
    using hmap_equiv_observations [of "run self zs" "run self (cs @ ds)" n] by blast
qed

theorem interleaving_independent_witness:
  "hmap_wf custom_other_map
   \<and> [AddRaw ''A'' ''1'', Remove ''X-Custom'', AddRaw ''A'' ''2'', ReplaceRaw ''X-Custom'' ''v'']
       \<in> shuffles [AddRaw ''A'' ''1'', AddRaw ''A'' ''2'']
           [Remove ''X-Custom'', ReplaceRaw ''X-Custom'' ''v'']
   \<and> hmap_equiv
        (run custom_other_map
          [AddRaw ''A'' ''1'', Remove ''X-Custom'', AddRaw ''A'' ''2'', ReplaceRaw ''X-Custom'' ''v''])
        (run custom_other_map
          [AddRaw ''A'' ''1'', AddRaw ''A'' ''2'', Remove ''X-Custom'', ReplaceRaw ''X-Custom'' ''v''])
   \<and> get (run new [AddRaw ''A'' ''1'', ReplaceRaw ''A'' ''2'']) ''A''
       \<noteq> get (run new [ReplaceRaw ''A'' ''2'', AddRaw ''A'' ''1'']) ''A''"
proof -
  have sh: "[AddRaw ''A'' ''1'', Remove ''X-Custom'', AddRaw ''A'' ''2'', ReplaceRaw ''X-Custom'' ''v'']
       \<in> shuffles [AddRaw ''A'' ''1'', AddRaw ''A'' ''2'']
           [Remove ''X-Custom'', ReplaceRaw ''X-Custom'' ''v'']"
    by simp
  have ind: "\<forall>c \<in> set [AddRaw ''A'' ''1'', AddRaw ''A'' ''2''].
      \<forall>d \<in> set [Remove ''X-Custom'', ReplaceRaw ''X-Custom'' ''v'']. independent c d"
    by (simp add: independent_def)
  have dep: "get (run new [AddRaw ''A'' ''1'', ReplaceRaw ''A'' ''2'']) ''A''
      \<noteq> get (run new [ReplaceRaw ''A'' ''2'', AddRaw ''A'' ''1'']) ''A''"
    using get_run [OF hmap_wf_new, of "[AddRaw ''A'' ''1'', ReplaceRaw ''A'' ''2'']" "''A''"]
      get_run [OF hmap_wf_new, of "[ReplaceRaw ''A'' ''2'', AddRaw ''A'' ''1'']" "''A''"]
    by (simp add: get_new)
  show ?thesis
    using interleaving_independent [OF hmap_wf_custom_other_map sh ind, of "''A''"]
      sh dep hmap_wf_custom_other_map
    by (simp only: append_Cons append_Nil simp_thms)
qed

end
