(* ===== verification/Cow.thy ===== *)
theory Cow
  imports HashMap
begin

text \<open>
  Text that is borrowed or owned, \<^verbatim>\<open>std::borrow::Cow<'h, str>\<close>, with the state
  that theory \<open>Prelude\<close> leaves out of \<open>cow_str\<close>, and the hash map as the header
  map uses it with such keys: a key is stored as a \<^verbatim>\<open>Cow\<close> and looked up by a
  \<^verbatim>\<open>&str\<close>, through \<^verbatim>\<open>Borrow<str>\<close>.

  \<^item> \<open>cow\<close> is the enum with its two variants; \<open>contents\<close> is the text it
    dereferences to, which is what \<^verbatim>\<open>Deref\<close>, \<^verbatim>\<open>Borrow\<close>, \<^verbatim>\<open>Display\<close>,
    \<^verbatim>\<open>PartialEq\<close> and \<^verbatim>\<open>Hash\<close> of a \<^verbatim>\<open>Cow\<close> read; \<open>hash_cow\<close> is that
    \<^verbatim>\<open>Hash\<close> and \<open>cow_clone\<close> is \<^verbatim>\<open>Clone\<close>, which keeps the variant.
  \<^item> \<open>text_arg\<close> is an argument of a function that takes any \<^verbatim>\<open>Into<Cow<str>>\<close>: a
    \<^verbatim>\<open>&str\<close>, a \<^verbatim>\<open>String\<close> or a \<^verbatim>\<open>Cow\<close>; \<open>into_cow\<close> is the conversion.
  \<^item> \<open>hm_get_by\<close>, \<open>hm_put_by\<close>, \<open>hm_del_by\<close> and \<open>hm_or_insert_by\<close> are the
    operations of theory \<open>HashMap\<close> on a map whose keys are compared through a
    projection \<open>b\<close>, the borrowed form of the key. An insertion at a key that the map
    has keeps the stored key, as the library documents.
  \<^item> \<open>erase b g\<close> forgets what the projections do not read: it maps every key by
    \<open>b\<close> and every value by \<open>g\<close>. The lemmas show that the operations with
    projection commute with it, so a map of \<^verbatim>\<open>Cow\<close> behaves as the map of the
    contents does.
\<close>

section \<open>Definitions\<close>

datatype cow = Borrowed string | Owned string

fun contents :: "cow \<Rightarrow> string" where
  "contents (Borrowed s) = s"
| "contents (Owned s) = s"

fun is_borrowed :: "cow \<Rightarrow> bool" where
  "is_borrowed (Borrowed s) = True"
| "is_borrowed (Owned s) = False"

fun cow_clone :: "cow \<Rightarrow> cow" where
  "cow_clone (Borrowed s) = Borrowed s"
| "cow_clone (Owned s) = Owned s"

text \<open>The \<^verbatim>\<open>Hash\<close> of a \<^verbatim>\<open>Cow\<close> is the \<^verbatim>\<open>Hash\<close> of what it dereferences to.\<close>

definition hash_cow :: "'h hasher \<Rightarrow> cow \<Rightarrow> 'h \<Rightarrow> 'h" where
  "hash_cow write self state = hash_str write (contents self) state"

datatype text_arg = RefStr string | OwnedString string | IsCow cow

fun into_cow :: "text_arg \<Rightarrow> cow" where
  "into_cow (RefStr s) = Borrowed s"
| "into_cow (OwnedString s) = Owned s"
| "into_cow (IsCow c) = c"

primrec hm_get_by :: "('k \<Rightarrow> 'q) \<Rightarrow> ('k, 'v) hash_map \<Rightarrow> 'q \<Rightarrow> 'v option" where
  "hm_get_by b [] q = None"
| "hm_get_by b (e # es) q = (if b (fst e) = q then Some (snd e) else hm_get_by b es q)"

primrec hm_put_by :: "('k \<Rightarrow> 'q) \<Rightarrow> 'k \<Rightarrow> 'v \<Rightarrow> ('k, 'v) hash_map \<Rightarrow> ('k, 'v) hash_map" where
  "hm_put_by b k v [] = [(k, v)]"
| "hm_put_by b k v (e # es) =
     (if b (fst e) = b k then (fst e, v) # es else e # hm_put_by b k v es)"

definition hm_insert_by ::
  "('k \<Rightarrow> 'q) \<Rightarrow> 'k \<Rightarrow> 'v \<Rightarrow> ('k, 'v) hash_map \<Rightarrow> 'v option \<times> ('k, 'v) hash_map" where
  "hm_insert_by b k v m = (hm_get_by b m (b k), hm_put_by b k v m)"

primrec hm_del_by :: "('k \<Rightarrow> 'q) \<Rightarrow> 'q \<Rightarrow> ('k, 'v) hash_map \<Rightarrow> ('k, 'v) hash_map" where
  "hm_del_by b q [] = []"
| "hm_del_by b q (e # es) = (if b (fst e) = q then es else e # hm_del_by b q es)"

definition hm_remove_by ::
  "('k \<Rightarrow> 'q) \<Rightarrow> 'q \<Rightarrow> ('k, 'v) hash_map \<Rightarrow> 'v option \<times> ('k, 'v) hash_map" where
  "hm_remove_by b q m = (hm_get_by b m q, hm_del_by b q m)"

definition hm_or_insert_by ::
  "('k \<Rightarrow> 'q) \<Rightarrow> 'k \<Rightarrow> 'v \<Rightarrow> ('k, 'v) hash_map \<Rightarrow> 'v \<times> ('k, 'v) hash_map" where
  "hm_or_insert_by b k d m =
     (case hm_get_by b m (b k) of None \<Rightarrow> (d, m @ [(k, d)]) | Some v \<Rightarrow> (v, m))"

text \<open>
  Equality of two maps whose keys are compared through \<open>b\<close> and whose values are
  compared by \<open>veq\<close>.
\<close>

definition hm_eq_by ::
  "('k \<Rightarrow> 'q) \<Rightarrow> ('v \<Rightarrow> 'v \<Rightarrow> bool) \<Rightarrow> ('k, 'v) hash_map \<Rightarrow> ('k, 'v) hash_map \<Rightarrow> bool" where
  "hm_eq_by b veq a c \<longleftrightarrow>
     (if hm_len a \<noteq> hm_len c then False
      else list_all (\<lambda>(key, val). case hm_get_by b c (b key) of None \<Rightarrow> False | Some v \<Rightarrow> veq val v)
             (hm_iter a))"

definition erase :: "('k \<Rightarrow> 'q) \<Rightarrow> ('v \<Rightarrow> 'w) \<Rightarrow> ('k, 'v) hash_map \<Rightarrow> ('q, 'w) hash_map" where
  "erase b g m = map (\<lambda>(k, v). (b k, g v)) m"

section \<open>Text and its contents\<close>

lemma contents_cow_clone [simp]: "cow_clone c = c"
  by (cases c) simp_all

lemma contents_into_cow [simp]:
  "contents (into_cow (RefStr s)) = s"
  "contents (into_cow (OwnedString s)) = s"
  by simp_all

lemma cow_cases_contents: "c = Borrowed (contents c) \<or> c = Owned (contents c)"
  by (cases c) simp_all

lemma cow_eq_iff: "c = d \<longleftrightarrow> contents c = contents d \<and> is_borrowed c = is_borrowed d"
  by (cases c; cases d) auto

section \<open>The operations commute with the erasure\<close>

lemma erase_simps [simp]:
  "erase b g [] = []"
  "erase b g (e # es) = (b (fst e), g (snd e)) # erase b g es"
  "erase b g (m @ m') = erase b g m @ erase b g m'"
  by (simp_all add: erase_def split: prod.splits)

lemma length_erase [simp]: "length (erase b g m) = length m"
  by (simp add: erase_def)

lemma hm_get_erase: "hm_get (erase b g m) q = map_option g (hm_get_by b m q)"
  by (induction m) simp_all

lemma erase_hm_put_by: "erase b g (hm_put_by b k v m) = hm_put (b k) (g v) (erase b g m)"
  by (induction m) simp_all

lemma erase_hm_del_by: "erase b g (hm_del_by b q m) = hm_del q (erase b g m)"
  by (induction m) simp_all

lemma erase_hm_or_insert_by:
  "hm_or_insert (b k) (g d) (erase b g m)
     = (g (fst (hm_or_insert_by b k d m)), erase b g (snd (hm_or_insert_by b k d m)))"
  by (simp add: hm_or_insert_def hm_or_insert_by_def hm_get_erase split: option.splits)

lemma erase_hm_insert_by:
  "hm_insert (b k) (g v) (erase b g m)
     = (map_option g (fst (hm_insert_by b k v m)), erase b g (snd (hm_insert_by b k v m)))"
  by (simp add: hm_insert_def hm_insert_by_def hm_get_erase erase_hm_put_by)

lemma erase_hm_remove_by:
  "hm_remove q (erase b g m)
     = (map_option g (fst (hm_remove_by b q m)), erase b g (snd (hm_remove_by b q m)))"
  by (simp add: hm_remove_def hm_remove_by_def hm_get_erase erase_hm_del_by)

lemma hm_eq_by_erase:
  "(\<And>v w. veq v w \<longleftrightarrow> g v = g w) \<Longrightarrow> hm_eq_by b veq a c \<longleftrightarrow> hm_eq (erase b g a) (erase b g c)"
  by (simp add: hm_eq_by_def hm_eq_def hm_len_def hm_iter_def erase_def list_all_iff
      hm_get_erase [unfolded erase_def] split: option.splits prod.splits) 

section \<open>The stored keys\<close>

text \<open>
  Storing at a key that the map has, in whatever form, leaves the stored keys as they
  are: the stored form of the key survives, the form given to the call is dropped.
\<close>

lemma hm_get_by_None_iff: "hm_get_by b m q = None \<longleftrightarrow> q \<notin> b ` fst ` set m"
  by (induction m) auto

lemma keys_hm_put_by:
  "map fst (hm_put_by b k v m)
     = (if b k \<in> b ` fst ` set m then map fst m else map fst m @ [k])"
  by (induction m) auto

lemma keys_hm_or_insert_by:
  "map fst (snd (hm_or_insert_by b k d m))
     = (if b k \<in> b ` fst ` set m then map fst m else map fst m @ [k])"
proof (cases "hm_get_by b m (b k)")
  case None
  then show ?thesis
    by (simp add: hm_or_insert_by_def) (simp add: hm_get_by_None_iff)
next
  case (Some v)
  then have "b k \<in> b ` fst ` set m"
    using hm_get_by_None_iff [of b m "b k"] by simp
  with Some show ?thesis
    by (simp add: hm_or_insert_by_def)
qed

lemma hm_put_by_absent: "b k \<notin> b ` fst ` set m \<Longrightarrow> hm_put_by b k v m = m @ [(k, v)]"
  by (induction m) auto

lemma hm_put_by_append:
  "hm_put_by b k v (m @ [(k', d)])
     = (if b k \<in> b ` fst ` set m then hm_put_by b k v m @ [(k', d)]
        else if b k' = b k then m @ [(k', v)] else m @ [(k', d), (k, v)])"
  by (induction m) auto

lemma hm_put_by_or_insert_by:
  "hm_put_by b k v (snd (hm_or_insert_by b k d m)) = hm_put_by b k v m"
proof (cases "hm_get_by b m (b k)")
  case None
  then have "b k \<notin> b ` fst ` set m"
    by (simp add: hm_get_by_None_iff)
  with None show ?thesis
    by (simp add: hm_or_insert_by_def hm_put_by_append hm_put_by_absent)
next
  case (Some w)
  then show ?thesis
    by (simp add: hm_or_insert_by_def)
qed

lemma fst_hm_or_insert_by:
  "fst (hm_or_insert_by b k d m) = (case hm_get_by b m (b k) of None \<Rightarrow> d | Some v \<Rightarrow> v)"
  by (simp add: hm_or_insert_by_def split: option.splits)

lemma hm_get_by_put_by:
  "hm_get_by b (hm_put_by b k v m) q = (if q = b k then Some v else hm_get_by b m q)"
  by (induction m) auto

lemma set_hm_put_by_values:
  "snd ` set (hm_put_by b k v m) \<subseteq> insert v (snd ` set m)"
  by (induction m) auto

lemma keys_hm_del_by_subset: "set (map fst (hm_del_by b q m)) \<subseteq> set (map fst m)"
  by (induction m) auto

end
