(* ===== verification/HeaderMap_Cow.thy ===== *)
theory HeaderMap_Cow
  imports Cow HeaderMap_Run
begin

text \<open>
  The two components of \<^verbatim>\<open>src/lib/src/http/header.rs\<close> once more, with the texts
  as the \<^verbatim>\<open>Cow<str>\<close> values they are in the source: every name and every value is
  borrowed or owned. The definitions of theories \<open>Header\<close> and \<open>HeaderMap\<close> are
  repeated with the suffix \<open>_cow\<close>, with the conversions written out that the model
  of the contents leaves implicit: \<^verbatim>\<open>into()\<close> where a method takes any
  \<^verbatim>\<open>Into<Cow<str>>\<close>, \<^verbatim>\<open>borrow()\<close> where it hands out a \<^verbatim>\<open>&str\<close>, \<^verbatim>\<open>clone()\<close>
  where \<^verbatim>\<open>into_iter\<close> copies the name. The hash map compares its keys by their
  contents (\<open>hm_get_by contents\<close>).

  \<open>erase_header\<close> and \<open>erase_map\<close> forget the ownership. The lemmas \<open>erase_\<close>... show
  that every method commutes with them, so each lemma of the theories on the
  contents holds of the map of \<^verbatim>\<open>Cow\<close> values; \<open>call_cow\<close>, \<open>apply_call_cow\<close> and
  \<open>run_cow\<close> are the calls and runs of theory \<open>HeaderMap_Run\<close> on such maps, and a
  run commutes with the erasure as well. The remaining lemmas say which texts are
  borrowed and which are owned after each method. \<open>hash_header_cow\<close>,
  \<open>clone_header_cow\<close> and \<open>clone_map_cow\<close> are the derived \<^verbatim>\<open>Hash\<close> and \<^verbatim>\<open>Clone\<close>.
\<close>

section \<open>Definitions\<close>

record header_cow =
  name_cow :: cow
  value_cow :: cow

definition header_new_cow :: "text_arg \<Rightarrow> text_arg \<Rightarrow> header_cow" where
  "header_new_cow n v = \<lparr>name_cow = into_cow n, value_cow = into_cow v\<rparr>"

definition fmt_cow :: "header_cow \<Rightarrow> string" where
  "fmt_cow self = contents (name_cow self) @ '': '' @ contents (value_cow self)"

text \<open>
  \<^verbatim>\<open>T::header_name()\<close> is a \<^verbatim>\<open>&'static str\<close> and \<^verbatim>\<open>format!\<close> returns a
  \<^verbatim>\<open>String\<close>.
\<close>

definition from_hyper_cow :: "'t hyper_header \<Rightarrow> 't \<Rightarrow> header_cow" where
  "from_hyper_cow T hyper_header =
     header_new_cow (RefStr (header_name T)) (OwnedString (fmt_header T hyper_header))"

text \<open>The derived \<^verbatim>\<open>PartialEq\<close> of \<^verbatim>\<open>Header\<close>: both fields, compared as \<^verbatim>\<open>Cow\<close>.\<close>

definition header_eq_cow :: "header_cow \<Rightarrow> header_cow \<Rightarrow> bool" where
  "header_eq_cow a b \<longleftrightarrow>
     contents (name_cow a) = contents (name_cow b) \<and> contents (value_cow a) = contents (value_cow b)"

text \<open>The derived \<^verbatim>\<open>Hash\<close> and \<^verbatim>\<open>Clone\<close> of \<^verbatim>\<open>Header\<close>: field by field.\<close>

definition hash_header_cow :: "'h hasher \<Rightarrow> header_cow \<Rightarrow> 'h \<Rightarrow> 'h" where
  "hash_header_cow write self state
     = hash_cow write (value_cow self) (hash_cow write (name_cow self) state)"

definition clone_header_cow :: "header_cow \<Rightarrow> header_cow" where
  "clone_header_cow self
     = \<lparr>name_cow = cow_clone (name_cow self), value_cow = cow_clone (value_cow self)\<rparr>"

record header_map_cow =
  headers_cow :: "(cow, cow list) hash_map"

definition new_cow :: header_map_cow where
  "new_cow = \<lparr>headers_cow = hm_new\<rparr>"

definition contains_cow :: "header_map_cow \<Rightarrow> string \<Rightarrow> bool" where
  "contains_cow self n = is_some (hm_get_by contents (headers_cow self) n)"

definition len_cow :: "header_map_cow \<Rightarrow> nat" where
  "len_cow self = length (flat_map (\<lambda>(_, values). values) (hm_iter (headers_cow self)))"

definition is_empty_cow :: "header_map_cow \<Rightarrow> bool" where
  "is_empty_cow self = hm_is_empty (headers_cow self)"

definition get_cow :: "header_map_cow \<Rightarrow> string \<Rightarrow> string list" where
  "get_cow self n =
     flat_map (\<lambda>values. map (\<lambda>val. contents val) values)
       (option_into_iter (hm_get_by contents (headers_cow self) n))"

definition get_one_cow :: "header_map_cow \<Rightarrow> string \<Rightarrow> string option" where
  "get_one_cow self n =
     Option.bind (hm_get_by contents (headers_cow self) n)
       (\<lambda>values. if length values \<ge> 1 then Some (contents (values ! 0)) else None)"

definition replace_cow :: "header_map_cow \<Rightarrow> header_cow \<Rightarrow> bool \<times> header_map_cow" where
  "replace_cow self h =
     (let (old, hs) = hm_insert_by contents (name_cow h) [value_cow h] (headers_cow self)
      in (is_some old, self\<lparr>headers_cow := hs\<rparr>))"

definition replace_raw_cow :: "header_map_cow \<Rightarrow> text_arg \<Rightarrow> text_arg \<Rightarrow> bool \<times> header_map_cow" where
  "replace_raw_cow self n v = replace_cow self (header_new_cow n v)"

definition replace_all_cow :: "header_map_cow \<Rightarrow> text_arg \<Rightarrow> cow list \<Rightarrow> header_map_cow" where
  "replace_all_cow self n values =
     (let (old, hs) = hm_insert_by contents (into_cow n) values (headers_cow self)
      in self\<lparr>headers_cow := hs\<rparr>)"

definition add_cow :: "header_map_cow \<Rightarrow> header_cow \<Rightarrow> header_map_cow" where
  "add_cow self h =
     (let (slot, hs) = hm_or_insert_by contents (name_cow h) [] (headers_cow self)
      in self\<lparr>headers_cow := hm_put_by contents (name_cow h) (vec_push slot (value_cow h)) hs\<rparr>)"

definition add_raw_cow :: "header_map_cow \<Rightarrow> text_arg \<Rightarrow> text_arg \<Rightarrow> header_map_cow" where
  "add_raw_cow self n v = add_cow self (header_new_cow n v)"

definition add_all_cow ::
  "header_map_cow \<Rightarrow> text_arg \<Rightarrow> cow list \<Rightarrow> header_map_cow \<times> cow list" where
  "add_all_cow self n values =
     (let k = into_cow n;
          (slot, hs) = hm_or_insert_by contents k [] (headers_cow self);
          (slot', values') = vec_append slot values
      in (self\<lparr>headers_cow := hm_put_by contents k slot' hs\<rparr>, values'))"

definition remove_cow :: "header_map_cow \<Rightarrow> string \<Rightarrow> header_map_cow" where
  "remove_cow self n =
     (let (old, hs) = hm_remove_by contents n (headers_cow self) in self\<lparr>headers_cow := hs\<rparr>)"

definition into_iter_cow :: "header_map_cow \<Rightarrow> header_cow list" where
  "into_iter_cow self =
     flat_map (\<lambda>(n, vs). map (\<lambda>v. \<lparr>name_cow = cow_clone n, value_cow = v\<rparr>) vs)
       (hm_into_iter (headers_cow self))"

definition remove_all_cow :: "header_map_cow \<Rightarrow> header_cow list \<times> header_map_cow" where
  "remove_all_cow self =
     (let (old_map, self') = mem_replace self new_cow in (into_iter_cow old_map, self'))"

definition iter_cow :: "header_map_cow \<Rightarrow> header_cow list" where
  "iter_cow self =
     flat_map (\<lambda>(key, values).
         map (\<lambda>val. header_new_cow (RefStr (contents key)) (RefStr (contents val))) values)
       (hm_iter (headers_cow self))"

definition into_iter_raw_cow :: "header_map_cow \<Rightarrow> (cow \<times> cow list) list" where
  "into_iter_raw_cow self = hm_into_iter (headers_cow self)"

text \<open>
  The derived \<^verbatim>\<open>PartialEq\<close> of \<^verbatim>\<open>HeaderMap\<close>: the equality of the hash maps, with
  the value vectors compared element by element as \<^verbatim>\<open>Cow\<close>.
\<close>

definition header_map_eq_cow :: "header_map_cow \<Rightarrow> header_map_cow \<Rightarrow> bool" where
  "header_map_eq_cow a b =
     hm_eq_by contents (\<lambda>v w. map contents v = map contents w) (headers_cow a) (headers_cow b)"

text \<open>
  The derived \<^verbatim>\<open>Clone\<close> of \<^verbatim>\<open>HeaderMap\<close>: the clone of the hash map, which clones
  every key and every vector of values.
\<close>

definition clone_map_cow :: "header_map_cow \<Rightarrow> header_map_cow" where
  "clone_map_cow self
     = \<lparr>headers_cow = map (\<lambda>(k, vs). (cow_clone k, map cow_clone vs)) (headers_cow self)\<rparr>"

text \<open>Forgetting the ownership.\<close>

definition erase_header :: "header_cow \<Rightarrow> header" where
  "erase_header h = \<lparr>name = contents (name_cow h), value = contents (value_cow h)\<rparr>"

definition erase_map :: "header_map_cow \<Rightarrow> header_map" where
  "erase_map self = \<lparr>headers = erase contents (map contents) (headers_cow self)\<rparr>"

definition borrowed :: "header_cow \<Rightarrow> bool" where
  "borrowed h \<longleftrightarrow> is_borrowed (name_cow h) \<and> is_borrowed (value_cow h)"

text \<open>
  The representation invariant: no two stored names have the same contents.
\<close>

definition hmap_wf_cow :: "header_map_cow \<Rightarrow> bool" where
  "hmap_wf_cow self \<longleftrightarrow> distinct (map (\<lambda>(k, vs). contents k) (headers_cow self))"

text \<open>
  Calls and runs, as in theory \<open>HeaderMap_Run\<close>; \<open>erase_call\<close> is the call on the
  contents that a call stands for.
\<close>

datatype call_cow =
    ReplaceCow header_cow
  | ReplaceRawCow text_arg text_arg
  | ReplaceAllCow text_arg "cow list"
  | AddCow header_cow
  | AddRawCow text_arg text_arg
  | AddAllCow text_arg "cow list"
  | RemoveCow string
  | RemoveAllCow

fun apply_call_cow :: "header_map_cow \<Rightarrow> call_cow \<Rightarrow> header_map_cow" where
  "apply_call_cow self (ReplaceCow h) = snd (replace_cow self h)"
| "apply_call_cow self (ReplaceRawCow n v) = snd (replace_raw_cow self n v)"
| "apply_call_cow self (ReplaceAllCow n vs) = replace_all_cow self n vs"
| "apply_call_cow self (AddCow h) = add_cow self h"
| "apply_call_cow self (AddRawCow n v) = add_raw_cow self n v"
| "apply_call_cow self (AddAllCow n vs) = fst (add_all_cow self n vs)"
| "apply_call_cow self (RemoveCow n) = remove_cow self n"
| "apply_call_cow self RemoveAllCow = snd (remove_all_cow self)"

fun run_cow :: "header_map_cow \<Rightarrow> call_cow list \<Rightarrow> header_map_cow" where
  "run_cow self [] = self"
| "run_cow self (c # cs) = run_cow (apply_call_cow self c) cs"

fun erase_call :: "call_cow \<Rightarrow> call" where
  "erase_call (ReplaceCow h) = Replace (erase_header h)"
| "erase_call (ReplaceRawCow n v) = ReplaceRaw (contents (into_cow n)) (contents (into_cow v))"
| "erase_call (ReplaceAllCow n vs) = ReplaceAll (contents (into_cow n)) (map contents vs)"
| "erase_call (AddCow h) = Add (erase_header h)"
| "erase_call (AddRawCow n v) = AddRaw (contents (into_cow n)) (contents (into_cow v))"
| "erase_call (AddAllCow n vs) = AddAll (contents (into_cow n)) (map contents vs)"
| "erase_call (RemoveCow n) = Remove n"
| "erase_call RemoveAllCow = RemoveAll"

section \<open>Erasure of headers\<close>

lemma erase_header_sel [simp]:
  "name (erase_header h) = contents (name_cow h)"
  "value (erase_header h) = contents (value_cow h)"
  by (simp_all add: erase_header_def)

lemma headers_erase_map [simp]:
  "headers (erase_map self) = erase contents (map contents) (headers_cow self)"
  by (simp add: erase_map_def)

lemma erase_map_update [simp]:
  "erase_map (self\<lparr>headers_cow := hs\<rparr>) = \<lparr>headers = erase contents (map contents) hs\<rparr>"
  by (simp add: erase_map_def)

lemma header_map_update_eq: "self\<lparr>headers := hs\<rparr> = \<lparr>headers = hs\<rparr>"
  by (cases self) simp

lemma erase_header_new:
  "erase_header (header_new_cow n v) = header_new (contents (into_cow n)) (contents (into_cow v))"
  by (simp add: erase_header_def header_new_cow_def header_new_def)

lemma erase_fmt: "fmt_cow h = fmt (erase_header h)"
  by (simp add: fmt_cow_def fmt_def)

lemma erase_from_hyper: "erase_header (from_hyper_cow T x) = from_hyper T x"
  by (simp add: from_hyper_cow_def from_hyper_def erase_header_new)

lemma erase_hash:
  "hash_header_cow write h state = hash_header write (erase_header h) state"
  by (simp add: hash_header_cow_def hash_header_def hash_cow_def)

lemma clone_cow_id [simp]: "clone_header_cow h = h" "clone_map_cow self = self"
proof -
  have "map cow_clone vs = vs" for vs
    by (induction vs) simp_all
  then show "clone_header_cow h = h" "clone_map_cow self = self"
    by (simp_all add: clone_header_cow_def clone_map_cow_def case_prod_unfold)
qed

lemma erase_header_eq: "header_eq_cow a b \<longleftrightarrow> erase_header a = erase_header b"
  by (simp add: header_eq_cow_def erase_header_def)

section \<open>Erasure of the queries\<close>

lemma erase_contains: "contains_cow self n = contains (erase_map self) n"
  by (simp add: contains_cow_def contains_def hm_get_erase)

lemma erase_get: "get_cow self n = get (erase_map self) n"
  by (simp add: get_cow_def get_def hm_get_erase flat_map_option split: option.splits)

lemma erase_get_one: "get_one_cow self n = get_one (erase_map self) n"
proof (cases "hm_get_by contents (headers_cow self) n")
  case None
  then show ?thesis
    by (simp add: get_one_cow_def get_one_def hm_get_erase)
next
  case (Some vs)
  then show ?thesis
    by (cases vs) (simp_all add: get_one_cow_def get_one_def hm_get_erase)
qed

lemma erase_len: "len_cow self = len (erase_map self)"
proof -
  have "length (flat_map (\<lambda>(_, values). values) m)
      = length (flat_map (\<lambda>(_, values). values) (erase contents (map contents) m))"
    for m :: "(cow, cow list) hash_map"
    by (induction m) (simp_all split: prod.splits)
  then show ?thesis
    by (simp add: len_cow_def len_def hm_iter_def)
qed

lemma erase_is_empty: "is_empty_cow self = is_empty (erase_map self)"
  by (simp add: is_empty_cow_def is_empty_def hm_is_empty_def hm_len_def)

lemma erase_iter: "map erase_header (iter_cow self) = iter (erase_map self)"
proof -
  have "map erase_header (flat_map (\<lambda>(key, values).
            map (\<lambda>val. header_new_cow (RefStr (contents key)) (RefStr (contents val))) values) m)
      = flat_map (\<lambda>(key, values). map (\<lambda>val. header_new key val) values)
          (erase contents (map contents) m)"
    for m :: "(cow, cow list) hash_map"
    by (induction m) (simp_all add: erase_header_new comp_def split: prod.splits)
  then show ?thesis
    by (simp add: iter_cow_def iter_def hm_iter_def)
qed

lemma erase_into_iter: "map erase_header (into_iter_cow self) = into_iter (erase_map self)"
proof -
  have "map erase_header (flat_map (\<lambda>(n, vs).
            map (\<lambda>v. \<lparr>name_cow = cow_clone n, value_cow = v\<rparr>) vs) m)
      = flat_map (\<lambda>(n, vs). map (\<lambda>v. \<lparr>name = n, value = v\<rparr>) vs)
          (erase contents (map contents) m)"
    for m :: "(cow, cow list) hash_map"
    by (induction m) (simp_all add: erase_header_def comp_def split: prod.splits)
  then show ?thesis
    by (simp add: into_iter_cow_def into_iter_def hm_into_iter_def)
qed

lemma erase_into_iter_raw:
  "erase contents (map contents) (into_iter_raw_cow self) = into_iter_raw (erase_map self)"
  by (simp add: into_iter_raw_cow_def into_iter_raw_def hm_into_iter_def)

lemma erase_header_map_eq: "header_map_eq_cow a b = header_map_eq (erase_map a) (erase_map b)"
  by (simp add: header_map_eq_cow_def header_map_eq_def
      hm_eq_by_erase [where g = "map contents"])

lemmas erase_queries = erase_contains erase_get erase_get_one erase_len erase_is_empty
  erase_iter erase_into_iter erase_into_iter_raw erase_header_map_eq

section \<open>Erasure of the updates\<close>

lemma erase_new: "erase_map new_cow = new"
  by (simp add: new_cow_def new_def hm_new_def erase_map_def)

lemma erase_replace:
  "erase_map (snd (replace_cow self h)) = snd (replace (erase_map self) (erase_header h))"
  "fst (replace_cow self h) = fst (replace (erase_map self) (erase_header h))"
  by (simp_all add: replace_cow_def replace_def hm_insert_by_def hm_insert_def
      erase_hm_put_by hm_get_erase header_map_update_eq)

lemma erase_replace_raw:
  "erase_map (snd (replace_raw_cow self n v))
     = snd (replace_raw (erase_map self) (contents (into_cow n)) (contents (into_cow v)))"
  "fst (replace_raw_cow self n v)
     = fst (replace_raw (erase_map self) (contents (into_cow n)) (contents (into_cow v)))"
  by (simp_all add: replace_raw_cow_def replace_raw_def erase_replace erase_header_new)

lemma erase_replace_all:
  "erase_map (replace_all_cow self n vs)
     = replace_all (erase_map self) (contents (into_cow n)) (map contents vs)"
  by (simp add: replace_all_cow_def replace_all_def hm_insert_by_def hm_insert_def
      erase_hm_put_by header_map_update_eq)

lemma erase_add: "erase_map (add_cow self h) = add (erase_map self) (erase_header h)"
  using erase_hm_or_insert_by [of contents "name_cow h" "map contents" "[]" "headers_cow self"]
  by (simp add: add_cow_def add_def erase_hm_put_by vec_push_def header_map_update_eq
      split: prod.splits)

lemma erase_add_raw:
  "erase_map (add_raw_cow self n v)
     = add_raw (erase_map self) (contents (into_cow n)) (contents (into_cow v))"
  by (simp add: add_raw_cow_def add_raw_def erase_add erase_header_new)

lemma erase_add_all:
  "erase_map (fst (add_all_cow self n vs))
     = fst (add_all (erase_map self) (contents (into_cow n)) (map contents vs))"
  "map contents (snd (add_all_cow self n vs))
     = snd (add_all (erase_map self) (contents (into_cow n)) (map contents vs))"
  using erase_hm_or_insert_by [of contents "into_cow n" "map contents" "[]" "headers_cow self"]
  by (simp_all add: add_all_cow_def add_all_def erase_hm_put_by vec_append_def
      header_map_update_eq Let_def split: prod.splits)

lemma erase_remove: "erase_map (remove_cow self n) = remove (erase_map self) n"
  by (simp add: remove_cow_def remove_def hm_remove_by_def hm_remove_def erase_hm_del_by
      header_map_update_eq)

lemma erase_remove_all:
  "erase_map (snd (remove_all_cow self)) = snd (remove_all (erase_map self))"
  "map erase_header (fst (remove_all_cow self)) = fst (remove_all (erase_map self))"
  by (simp_all add: remove_all_cow_def remove_all_def mem_replace_def erase_new erase_into_iter)

lemmas erase_updates = erase_new erase_replace erase_replace_raw erase_replace_all erase_add
  erase_add_raw erase_add_all erase_remove erase_remove_all

section \<open>Erasure of runs\<close>

lemma hmap_wf_cow_erase: "hmap_wf_cow self \<longleftrightarrow> hmap_wf (erase_map self)"
  by (simp add: hmap_wf_cow_def hmap_wf_def hm_inv_def erase_def comp_def case_prod_unfold)

lemma erase_apply_call:
  "erase_map (apply_call_cow self c) = apply_call (erase_map self) (erase_call c)"
  by (cases c) (simp_all add: erase_updates)

lemma erase_run: "erase_map (run_cow self cs) = run (erase_map self) (map erase_call cs)"
  by (induction cs arbitrary: self) (simp_all add: erase_apply_call)

lemma hmap_wf_cow_run: "hmap_wf_cow self \<Longrightarrow> hmap_wf_cow (run_cow self cs)"
  by (simp add: hmap_wf_cow_erase erase_run hmap_wf_run)

lemma hmap_wf_new_cow: "hmap_wf_cow new_cow"
  by (simp add: hmap_wf_cow_erase erase_new hmap_wf_new)

text \<open>
  A map in which no two stored names have the same contents is built by installing
  its entries one after the other, each under its stored name with the ownership it
  has in the map.
\<close>

lemma headers_run_install_cow:
  assumes "distinct (map (\<lambda>(k, vs). contents k) m)"
    and "contents ` fst ` set m \<inter> contents ` fst ` set (headers_cow self) = {}"
  shows "headers_cow (run_cow self (map (\<lambda>(k, vs). ReplaceAllCow (IsCow k) vs) m))
           = headers_cow self @ m"
  using assms
proof (induction m arbitrary: self)
  case Nil
  then show ?case by simp
next
  case (Cons e m)
  obtain k vs where e: "e = (k, vs)" by (cases e)
  let ?next = "replace_all_cow self (IsCow k) vs"
  from Cons.prems e have "contents k \<notin> contents ` fst ` set (headers_cow self)"
    by auto
  then have h: "headers_cow ?next = headers_cow self @ [(k, vs)]"
    by (simp add: replace_all_cow_def hm_insert_by_def hm_put_by_absent)
  with Cons.prems e have "contents ` fst ` set m \<inter> contents ` fst ` set (headers_cow ?next) = {}"
    by (auto simp: image_iff)
  with Cons.IH [of ?next] Cons.prems(1) h e show ?case
    by simp
qed

lemma run_install_cow:
  "hmap_wf_cow self
     \<Longrightarrow> run_cow new_cow (map (\<lambda>(k, vs). ReplaceAllCow (IsCow k) vs) (headers_cow self)) = self"
  using headers_run_install_cow [of "headers_cow self" new_cow]
  by (simp add: hmap_wf_cow_def new_cow_def hm_new_def)

section \<open>What is stored, with its ownership\<close>

text \<open>
  The entries after each update. An update at a name that the map holds writes the
  entry of that name where it stands, under the key that is stored: the text of the
  name given to the call is dropped.
\<close>

lemma headers_replace_cow:
  "headers_cow (snd (replace_cow self h))
     = hm_put_by contents (name_cow h) [value_cow h] (headers_cow self)"
  by (simp add: replace_cow_def hm_insert_by_def)

lemma headers_replace_all_cow:
  "headers_cow (replace_all_cow self n vs) = hm_put_by contents (into_cow n) vs (headers_cow self)"
  by (simp add: replace_all_cow_def hm_insert_by_def)

lemma headers_add_cow:
  "headers_cow (add_cow self h)
     = hm_put_by contents (name_cow h)
         ((case hm_get_by contents (headers_cow self) (contents (name_cow h)) of
             None \<Rightarrow> [] | Some vs \<Rightarrow> vs) @ [value_cow h])
         (headers_cow self)"
proof -
  obtain slot hs where oi: "hm_or_insert_by contents (name_cow h) [] (headers_cow self) = (slot, hs)"
    by (cases "hm_or_insert_by contents (name_cow h) [] (headers_cow self)")
  with fst_hm_or_insert_by [of contents "name_cow h" "[]" "headers_cow self"]
    hm_put_by_or_insert_by [of contents "name_cow h" _ "[]" "headers_cow self"]
  show ?thesis
    by (simp add: add_cow_def vec_push_def)
qed

lemma headers_add_all_cow:
  "headers_cow (fst (add_all_cow self n vs))
     = hm_put_by contents (into_cow n)
         ((case hm_get_by contents (headers_cow self) (contents (into_cow n)) of
             None \<Rightarrow> [] | Some ws \<Rightarrow> ws) @ vs)
         (headers_cow self)"
proof -
  obtain slot hs where oi: "hm_or_insert_by contents (into_cow n) [] (headers_cow self) = (slot, hs)"
    by (cases "hm_or_insert_by contents (into_cow n) [] (headers_cow self)")
  with fst_hm_or_insert_by [of contents "into_cow n" "[]" "headers_cow self"]
    hm_put_by_or_insert_by [of contents "into_cow n" _ "[]" "headers_cow self"]
  show ?thesis
    by (simp add: add_all_cow_def vec_append_def Let_def)
qed

lemmas headers_cow_simps = headers_replace_cow headers_replace_all_cow headers_add_cow
  headers_add_all_cow

lemma contains_cow_keys: "contains_cow self n \<longleftrightarrow> n \<in> contents ` fst ` set (headers_cow self)"
  by (simp add: contains_cow_def hm_get_by_None_iff)

lemma keys_after_put:
  "map fst (hm_put_by contents k vs (headers_cow self))
     = (if contains_cow self (contents k) then map fst (headers_cow self)
        else map fst (headers_cow self) @ [k])"
  by (simp add: keys_hm_put_by contains_cow_keys)

lemma into_iter_cow_stored:
  "into_iter_cow self
     = flat_map (\<lambda>(n, vs). map (\<lambda>v. \<lparr>name_cow = n, value_cow = v\<rparr>) vs) (headers_cow self)"
  by (simp add: into_iter_cow_def hm_into_iter_def)

lemma borrowed_iter_cow: "list_all borrowed (iter_cow self)"
proof -
  have "list_all borrowed (flat_map (\<lambda>(key, values).
            map (\<lambda>val. header_new_cow (RefStr (contents key)) (RefStr (contents val))) values) m)"
    for m :: "(cow, cow list) hash_map"
    by (induction m)
      (simp_all add: list.pred_map comp_def borrowed_def header_new_cow_def list.pred_True
        split: prod.splits)
  then show ?thesis
    by (simp add: iter_cow_def hm_iter_def)
qed

section \<open>Properties\<close>

text \<open>
  \<^bold>\<open>C21\<close> Every method on a map of borrowed or owned text commutes with forgetting
  the ownership. The contents of what a mutating method stores and returns are what
  the method of theory \<open>HeaderMap\<close> stores and returns on the contents: whether a
  text is borrowed or owned has no influence on which values a name has. Every query,
  the rendering of a header, both derived equalities and the derived hash of a header
  read the contents only: they return what the query of theory \<open>HeaderMap\<close> returns
  on the contents, the headers of an iteration have the contents of the headers that
  the iteration of the contents yields, and a header is hashed, by every hasher, as
  its contents are, so headers that the derived equality identifies are hashed alike.
\<close>

theorem erasure_commutes:
  "erase_map new_cow = new
   \<and> erase_map (add_cow self h) = add (erase_map self) (erase_header h)
   \<and> erase_map (fst (add_all_cow self k vs))
       = fst (add_all (erase_map self) (contents (into_cow k)) (map contents vs))
   \<and> map contents (snd (add_all_cow self k vs))
       = snd (add_all (erase_map self) (contents (into_cow k)) (map contents vs))
   \<and> erase_map (snd (replace_cow self h)) = snd (replace (erase_map self) (erase_header h))
   \<and> fst (replace_cow self h) = fst (replace (erase_map self) (erase_header h))
   \<and> erase_map (replace_all_cow self k vs)
       = replace_all (erase_map self) (contents (into_cow k)) (map contents vs)
   \<and> erase_map (remove_cow self n) = remove (erase_map self) n
   \<and> erase_map (snd (remove_all_cow self)) = snd (remove_all (erase_map self))
   \<and> map erase_header (fst (remove_all_cow self)) = fst (remove_all (erase_map self))
   \<and> contains_cow self n = contains (erase_map self) n
   \<and> get_cow self n = get (erase_map self) n
   \<and> get_one_cow self n = get_one (erase_map self) n
   \<and> len_cow self = len (erase_map self)
   \<and> is_empty_cow self = is_empty (erase_map self)
   \<and> map erase_header (iter_cow self) = iter (erase_map self)
   \<and> map erase_header (into_iter_cow self) = into_iter (erase_map self)
   \<and> erase contents (map contents) (into_iter_raw_cow self) = into_iter_raw (erase_map self)
   \<and> header_map_eq_cow self other = header_map_eq (erase_map self) (erase_map other)
   \<and> header_eq_cow h h' = (erase_header h = erase_header h')
   \<and> fmt_cow h = fmt (erase_header h)
   \<and> hash_header_cow write h state = hash_header write (erase_header h) state"
  by (simp add: erase_updates erase_queries erase_header_eq erase_fmt erase_hash
      erase_into_iter_raw)

text \<open>
  The values of a name are kept in the order of addition also when the texts
  differ in ownership: \<open>add_cow\<close> appends the contents of the header's value to the
  values of every name with the contents of the header's name, \<open>replace_cow\<close>
  leaves that one value, and \<open>len_cow\<close> counts one more value after \<open>add_cow\<close>.
\<close>

lemma cow_values_fifo:
  "get_cow (add_cow self h) n
     = (if n = contents (name_cow h) then get_cow self n @ [contents (value_cow h)]
        else get_cow self n)
   \<and> get_cow (snd (replace_cow self h)) n
     = (if n = contents (name_cow h) then [contents (value_cow h)] else get_cow self n)
   \<and> len_cow (add_cow self h) = Suc (len_cow self)"
  by (simp add: erase_get erase_len erase_add erase_replace get_add get_replace len_add)

text \<open>
  \<open>iter_cow\<close> yields headers whose name and value are both borrowed, as many as
  \<open>len_cow\<close> counts; \<open>into_iter_cow\<close>, and so \<open>remove_all_cow\<close>, yields the stored
  texts themselves, each value under the stored text of its name, so a text leaves
  the map with the ownership it was stored with.
\<close>

lemma iter_cow_borrows:
  "list_all borrowed (iter_cow self)
   \<and> length (iter_cow self) = len_cow self
   \<and> fst (remove_all_cow self) = into_iter_cow self
   \<and> set (into_iter_cow self)
       = {\<lparr>name_cow = n, value_cow = v\<rparr> |n v vs. (n, vs) \<in> set (headers_cow self) \<and> v \<in> set vs}"
proof -
  have "length (iter_cow self) = length (map erase_header (iter_cow self))"
    by simp
  then have "length (iter_cow self) = len_cow self"
    by (simp only: erase_iter erase_len length_iter)
  moreover have "set (into_iter_cow self)
      = {\<lparr>name_cow = n, value_cow = v\<rparr> |n v vs. (n, vs) \<in> set (headers_cow self) \<and> v \<in> set vs}"
    by (auto simp: into_iter_cow_stored set_flat_map)
  ultimately show ?thesis
    by (simp add: borrowed_iter_cow remove_all_cow_def mem_replace_def)
qed

text \<open>
  \<^bold>\<open>C22\<close> A sequence of calls on a map of borrowed or owned text is, on the contents,
  the sequence of the calls on the contents. So the maps that calls build from the
  empty map never store two names with the same contents, however the texts of one
  name differ in ownership, and the values that \<open>get_cow\<close> yields for a name after
  the calls are those that the calls on that name produce, in their order.
  Conversely every map that stores no two names with the same contents is built by
  calls from the empty map, each text with the ownership it has in the map.
\<close>

theorem run_cow_simulates:
  "erase_map (run_cow self cs) = run (erase_map self) (map erase_call cs)
   \<and> hmap_wf_cow (run_cow new_cow cs)
   \<and> get_cow (run_cow new_cow cs) n = foldl (values_after n) [] (map erase_call cs)
   \<and> hmap_wf_cow self = (\<exists>cs. self = run_cow new_cow cs)"
proof -
  have "hmap_wf_cow (run_cow new_cow cs)" for cs
    using hmap_wf_new_cow by (rule hmap_wf_cow_run)
  moreover from this have "hmap_wf_cow self = (\<exists>cs. self = run_cow new_cow cs)"
    using run_install_cow [of self] by metis
  ultimately show ?thesis
    by (simp add: erase_run erase_get erase_new get_run hmap_wf_new get_new)
qed

end
