(* ===== verification/HeaderMap_Lazy_Cow.thy ===== *)
theory HeaderMap_Lazy_Cow
  imports HeaderMap_Lazy HeaderMap_Cow
begin

text \<open>
  The two refinements of the list model together: the iterators of \<^verbatim>\<open>HeaderMap\<close> as
  lazy cursors (theory \<open>HeaderMap_Lazy\<close>) over a map whose texts are borrowed or
  owned (theory \<open>HeaderMap_Cow\<close>). This is the form the methods have in the source:
  \<^verbatim>\<open>get\<close> yields the borrowed form \<^verbatim>\<open>val.borrow()\<close> of each value; \<^verbatim>\<open>iter\<close> yields
  \<^verbatim>\<open>Header::new(key.borrow(), val.borrow())\<close>, a header of two borrowed texts;
  \<^verbatim>\<open>into_iter\<close> yields \<^verbatim>\<open>Header { name: name.clone(), value: value }\<close>, the stored
  value under a clone of the stored name.

  The lemmas show that the cursors walk through the lists of theory
  \<open>HeaderMap_Cow\<close>, so the loops over them return, and that forgetting the
  ownership takes what they yield to what the cursors of theory \<open>HeaderMap_Lazy\<close>
  yield on the contents.
\<close>

section \<open>Definitions\<close>

type_synonym values_iter_cow = "((cow \<times> cow list) list, cow list) flat_map_iter"
type_synonym get_iter_cow = "(cow list option, cow list) flat_map_iter"
type_synonym headers_iter_cow = "((cow \<times> cow list) list, cow \<times> cow list) flat_map_iter"

definition len_lazy_iter_cow :: "header_map_cow \<Rightarrow> values_iter_cow" where
  "len_lazy_iter_cow self
     = \<lparr>fm_iter = hm_iter (headers_cow self), frontiter = None, backiter = None\<rparr>"

definition len_lazy_next_cow :: "values_iter_cow \<Rightarrow> (cow option \<times> values_iter_cow) option" where
  "len_lazy_next_cow = flat_map_next iter_next (\<lambda>(_, values). values) iter_next"

definition len_lazy_cow :: "header_map_cow \<Rightarrow> 'c::semiring_1 option" where
  "len_lazy_cow self = iter_count len_lazy_next_cow (len_lazy_iter_cow self)"

definition get_lazy_cow :: "header_map_cow \<Rightarrow> string \<Rightarrow> get_iter_cow" where
  "get_lazy_cow self n
     = \<lparr>fm_iter = hm_get_by contents (headers_cow self) n, frontiter = None, backiter = None\<rparr>"

definition get_lazy_next_cow :: "get_iter_cow \<Rightarrow> (string option \<times> get_iter_cow) option" where
  "get_lazy_next_cow =
     flat_map_next option_next (\<lambda>values. values) (map_next iter_next (\<lambda>val. contents val))"

definition iter_lazy_cow :: "header_map_cow \<Rightarrow> headers_iter_cow" where
  "iter_lazy_cow self
     = \<lparr>fm_iter = hm_iter (headers_cow self), frontiter = None, backiter = None\<rparr>"

definition iter_lazy_next_cow ::
  "headers_iter_cow \<Rightarrow> (header_cow option \<times> headers_iter_cow) option" where
  "iter_lazy_next_cow =
     flat_map_next iter_next (\<lambda>(key, values). (key, values))
       (entry_next (\<lambda>key val. header_new_cow (RefStr (contents key)) (RefStr (contents val))))"

definition into_iter_lazy_cow :: "header_map_cow \<Rightarrow> headers_iter_cow" where
  "into_iter_lazy_cow self
     = \<lparr>fm_iter = hm_into_iter (headers_cow self), frontiter = None, backiter = None\<rparr>"

definition into_iter_lazy_next_cow ::
  "headers_iter_cow \<Rightarrow> (header_cow option \<times> headers_iter_cow) option" where
  "into_iter_lazy_next_cow =
     flat_map_next iter_next (\<lambda>(n, vs). (n, vs))
       (entry_next (\<lambda>n v. \<lparr>name_cow = cow_clone n, value_cow = v\<rparr>))"

definition remove_all_lazy_cow ::
  "header_map_cow \<Rightarrow> header_cow list option \<times> header_map_cow" where
  "remove_all_lazy_cow self =
     (let (old_map, self') = mem_replace self new_cow
      in (iter_collect into_iter_lazy_next_cow (into_iter_lazy_cow old_map), self'))"

section \<open>The iterators walk through the lists\<close>

lemma yields_len_lazy_next_cow:
  "yields_opt len_lazy_next_cow (fm_items (\<lambda>xs. xs) (\<lambda>(_, values). values) (\<lambda>xs. xs))"
  unfolding len_lazy_next_cow_def
  by (intro yields_flat_map_next yields_iter_next)

lemma yields_get_lazy_next_cow:
  "yields_opt get_lazy_next_cow
     (fm_items option_into_iter (\<lambda>values. values) (\<lambda>s. map (\<lambda>val. contents val) s))"
  unfolding get_lazy_next_cow_def
  by (intro yields_flat_map_next yields_option_next yields_map_next yields_iter_next)

lemma yields_iter_lazy_next_cow:
  "yields_opt iter_lazy_next_cow
     (fm_items (\<lambda>xs. xs) (\<lambda>(key, values). (key, values))
        (\<lambda>(key, vs).
           map (\<lambda>val. header_new_cow (RefStr (contents key)) (RefStr (contents val))) vs))"
  unfolding iter_lazy_next_cow_def
  by (intro yields_flat_map_next yields_iter_next yields_entry_next)

lemma yields_into_iter_lazy_next_cow:
  "yields_opt into_iter_lazy_next_cow
     (fm_items (\<lambda>xs. xs) (\<lambda>(n, vs). (n, vs))
        (\<lambda>(n, vs). map (\<lambda>v. \<lparr>name_cow = cow_clone n, value_cow = v\<rparr>) vs))"
  unfolding into_iter_lazy_next_cow_def
  by (intro yields_flat_map_next yields_iter_next yields_entry_next)

lemma items_len_lazy_cow:
  "length (fm_items (\<lambda>xs. xs) (\<lambda>(_, values). values) (\<lambda>xs. xs) (len_lazy_iter_cow self))
     = len_cow self"
  by (simp add: len_lazy_iter_cow_def fm_items_start len_cow_def case_prod_unfold)

lemma items_get_lazy_cow:
  "fm_items option_into_iter (\<lambda>values. values) (\<lambda>s. map (\<lambda>val. contents val) s)
     (get_lazy_cow self n) = get_cow self n"
  by (simp add: get_lazy_cow_def fm_items_start get_cow_def)

lemma items_iter_lazy_cow:
  "fm_items (\<lambda>xs. xs) (\<lambda>(key, values). (key, values))
     (\<lambda>(key, vs). map (\<lambda>val. header_new_cow (RefStr (contents key)) (RefStr (contents val))) vs)
     (iter_lazy_cow self) = iter_cow self"
  by (simp add: iter_lazy_cow_def fm_items_start iter_cow_def case_prod_unfold)

lemma items_into_iter_lazy_cow:
  "fm_items (\<lambda>xs. xs) (\<lambda>(n, vs). (n, vs))
     (\<lambda>(n, vs). map (\<lambda>v. \<lparr>name_cow = cow_clone n, value_cow = v\<rparr>) vs)
     (into_iter_lazy_cow self) = into_iter_cow self"
  by (simp add: into_iter_lazy_cow_def fm_items_start into_iter_cow_def case_prod_unfold)

section \<open>The loops return\<close>

lemma len_lazy_cow_eq: "len_lazy_cow self = Some (of_nat (len_cow self))"
  by (simp only: len_lazy_cow_def iter_count_yields [OF yields_len_lazy_next_cow]
      items_len_lazy_cow)

lemma collect_get_lazy_cow:
  "iter_collect get_lazy_next_cow (get_lazy_cow self n) = Some (get_cow self n)"
  by (simp only: iter_collect_yields [OF yields_get_lazy_next_cow] items_get_lazy_cow)

lemma collect_iter_lazy_cow:
  "iter_collect iter_lazy_next_cow (iter_lazy_cow self) = Some (iter_cow self)"
  by (simp only: iter_collect_yields [OF yields_iter_lazy_next_cow] items_iter_lazy_cow)

lemma collect_into_iter_lazy_cow:
  "iter_collect into_iter_lazy_next_cow (into_iter_lazy_cow self) = Some (into_iter_cow self)"
  by (simp only: iter_collect_yields [OF yields_into_iter_lazy_next_cow]
      items_into_iter_lazy_cow)

lemma remove_all_lazy_cow_eq:
  "remove_all_lazy_cow self = (Some (fst (remove_all_cow self)), snd (remove_all_cow self))"
  by (simp add: remove_all_lazy_cow_def remove_all_cow_def mem_replace_def
      collect_into_iter_lazy_cow)

lemma nexts_iter_lazy_cow:
  "map_option fst (nexts k iter_lazy_next_cow (iter_lazy_cow self))
     = Some (if k < length (iter_cow self) then Some (iter_cow self ! k) else None)"
  using nexts_yields [OF yields_iter_lazy_next_cow, of k "iter_lazy_cow self"]
  unfolding items_iter_lazy_cow by auto

section \<open>Forgetting the ownership\<close>

lemma erase_collect_iter_lazy:
  "map_option (map erase_header) (iter_collect iter_lazy_next_cow (iter_lazy_cow self))
     = iter_collect iter_lazy_next (iter_lazy (erase_map self))"
  by (simp add: collect_iter_lazy_cow collect_iter_lazy erase_iter)

lemma erase_collect_into_iter_lazy:
  "map_option (map erase_header) (iter_collect into_iter_lazy_next_cow (into_iter_lazy_cow self))
     = iter_collect into_iter_lazy_next (into_iter_lazy (erase_map self))"
  by (simp add: collect_into_iter_lazy_cow collect_into_iter_lazy erase_into_iter)

lemma erase_nexts_iter_lazy:
  "map_option (map_option erase_header \<circ> fst) (nexts k iter_lazy_next_cow (iter_lazy_cow self))
     = map_option fst (nexts k iter_lazy_next (iter_lazy (erase_map self)))"
proof -
  have "length (iter_cow self) = len (erase_map self)"
    using erase_iter [of self] length_iter [of "erase_map self"] by (metis length_map)
  moreover have "erase_header (iter_cow self ! k) = iter (erase_map self) ! k"
    if "k < length (iter_cow self)"
    using that erase_iter [of self] by (metis nth_map)
  ultimately show ?thesis
    using nexts_iter_lazy_cow [of k self] nexts_iter_lazy [of k "erase_map self"]
    by (auto simp: option.map_comp [symmetric])
qed

section \<open>Properties\<close>

text \<open>
  \<^bold>\<open>C28\<close> The iterators of a map of borrowed or owned text, driven as the lazy cursors
  they are, return on every map and yield the lists of theory \<open>HeaderMap_Cow\<close>:
  \<^verbatim>\<open>iter\<close> yields headers of two borrowed texts, \<^verbatim>\<open>into_iter\<close> and \<^verbatim>\<open>remove_all\<close>
  yield each stored value under the stored text of its name, with the ownership it
  was stored with, and \<^verbatim>\<open>get\<close> yields the contents of the values. Forgetting the
  ownership takes what the cursor of \<^verbatim>\<open>iter\<close> yields, as a whole and call by call,
  to what the cursor of theory \<open>HeaderMap_Lazy\<close> yields on the contents.
\<close>

theorem lazy_cow_refines:
  "iter_collect iter_lazy_next_cow (iter_lazy_cow self) = Some (iter_cow self)
   \<and> list_all borrowed (iter_cow self)
   \<and> iter_collect into_iter_lazy_next_cow (into_iter_lazy_cow self) = Some (into_iter_cow self)
   \<and> set (into_iter_cow self)
       = {\<lparr>name_cow = n, value_cow = v\<rparr> |n v vs. (n, vs) \<in> set (headers_cow self) \<and> v \<in> set vs}
   \<and> remove_all_lazy_cow self = (Some (into_iter_cow self), new_cow)
   \<and> iter_collect get_lazy_next_cow (get_lazy_cow self n) = Some (get_cow self n)
   \<and> (len_lazy_cow self :: nat option) = Some (len_cow self)
   \<and> map_option (map erase_header) (iter_collect iter_lazy_next_cow (iter_lazy_cow self))
       = iter_collect iter_lazy_next (iter_lazy (erase_map self))
   \<and> map_option (map_option erase_header \<circ> fst)
         (nexts k iter_lazy_next_cow (iter_lazy_cow self))
       = map_option fst (nexts k iter_lazy_next (iter_lazy (erase_map self)))"
  using iter_cow_borrows [of self] erase_nexts_iter_lazy [of k self]
    erase_collect_iter_lazy [of self]
  by (simp add: collect_iter_lazy_cow collect_into_iter_lazy_cow collect_get_lazy_cow
      len_lazy_cow_eq remove_all_lazy_cow_eq remove_all_cow_def mem_replace_def)

end
