(* ===== verification/HeaderMap_Panic.thy ===== *)
theory HeaderMap_Panic
  imports HeaderMap_Usize
begin

text \<open>
  The two places of \<^verbatim>\<open>HeaderMap\<close> where the Rust code can panic, with the panic as
  a value of the result.

  \<^item> \<^verbatim>\<open>get_one\<close> indexes the vector of values with \<^verbatim>\<open>values[0]\<close>. Indexing a vector
    out of its bounds panics; \<open>vec_index\<close> is the indexing with that outcome, and
    \<open>get_one_checked\<close> is \<^verbatim>\<open>get_one\<close> with it. The method guards the index by
    \<^verbatim>\<open>values.len() >= 1\<close>.
  \<^item> \<^verbatim>\<open>len\<close> counts with \<^verbatim>\<open>Iterator::count\<close>, which adds one per item. In a build
    with overflow checks the addition panics when the count does not fit into a
    \<^verbatim>\<open>usize\<close>; \<open>count_checked\<close> is the count with that outcome and \<open>len_checked\<close>
    is \<^verbatim>\<open>len\<close> with it. (Without overflow checks the count wraps: \<open>len_usize\<close> of
    theory \<open>HeaderMap_Usize\<close>.)

  The lemmas show that \<open>get_one_checked\<close> never panics, and \<open>len_checked_eq\<close> says
  when \<open>len_checked\<close> does: when the map stores \<open>2 ^ LENGTH('w)\<close> values or more,
  which no map in the address space of the machine does.
\<close>

section \<open>Definitions\<close>

datatype panic = IndexOutOfBounds nat nat | AddOverflow

text \<open>\<^verbatim>\<open>v[i]\<close>: the element, or the panic that reports the length and the index.\<close>

definition vec_index :: "'a list \<Rightarrow> nat \<Rightarrow> panic + 'a" where
  "vec_index v i = (if i < length v then Inr (v ! i) else Inl (IndexOutOfBounds (length v) i))"

definition get_one_checked :: "header_map \<Rightarrow> string \<Rightarrow> panic + string option" where
  "get_one_checked self n =
     (case hm_get (headers self) n of
        None \<Rightarrow> Inr None
      | Some values \<Rightarrow>
          (if length values \<ge> 1
           then (case vec_index values 0 of Inl p \<Rightarrow> Inl p | Inr val \<Rightarrow> Inr (Some val))
           else Inr None))"

text \<open>One step of the count: adding one to a count that is the largest word panics.\<close>

definition checked_succ :: "panic + 'w::len word \<Rightarrow> panic + 'w word" where
  "checked_succ r =
     (case r of Inl p \<Rightarrow> Inl p | Inr c \<Rightarrow> if c = - 1 then Inl AddOverflow else Inr (c + 1))"

definition count_checked :: "'a list \<Rightarrow> panic + 'w::len word" where
  "count_checked xs = foldl (\<lambda>r _. checked_succ r) (Inr 0) xs"

definition len_checked :: "header_map \<Rightarrow> panic + 'w::len word" where
  "len_checked self = count_checked (flat_map (\<lambda>(_, values). values) (hm_iter (headers self)))"

section \<open>Indexing\<close>

lemma vec_index_simps [simp]:
  "vec_index [] i = Inl (IndexOutOfBounds 0 i)"
  "vec_index (x # xs) 0 = Inr x"
  by (simp_all add: vec_index_def)

lemma get_one_checked_eq: "get_one_checked self n = Inr (get_one self n)"
proof (cases "hm_get (headers self) n")
  case None
  then show ?thesis
    by (simp add: get_one_checked_def get_one_def)
next
  case (Some vs)
  then show ?thesis
    by (cases vs) (simp_all add: get_one_checked_def get_one_def)
qed

section \<open>Counting with overflow checks\<close>

lemma checked_succ_simps [simp]:
  "checked_succ (Inl p) = Inl p"
  "checked_succ (Inr c) = (if c = - 1 then Inl AddOverflow else Inr (c + 1))"
  by (simp_all add: checked_succ_def)

lemma foldl_checked_succ_Inl: "foldl (\<lambda>r _. checked_succ r) (Inl p) xs = Inl p"
  by (induction xs) simp_all

lemma unat_max: "unat (- 1 :: 'w::len word) = 2 ^ LENGTH('w) - 1"
  by (simp add: unsigned_minus_1_eq_mask mask_eq_exp_minus_1)

lemma unat_succ: "(c :: 'w::len word) \<noteq> - 1 \<Longrightarrow> unat (c + 1) = Suc (unat c)"
  by (simp add: add.commute add_eq_0_iff unatSuc)

lemma of_nat_eq_max:
  "n < 2 ^ LENGTH('w) \<Longrightarrow> (of_nat n :: 'w::len word) = - 1 \<longleftrightarrow> Suc n = 2 ^ LENGTH('w)"
  by (auto simp: word_unat_eq_iff unat_max unat_of_nat)

lemma foldl_checked_succ:
  "foldl (\<lambda>r _. checked_succ r) (Inr (c :: 'w::len word)) xs
     = (if unat c + length xs < 2 ^ LENGTH('w) then Inr (c + of_nat (length xs))
        else Inl AddOverflow)"
proof (induction xs arbitrary: c)
  case Nil
  then show ?case by simp
next
  case (Cons x xs)
  show ?case
  proof (cases "c = - 1")
    case True
    then show ?thesis
      by (simp add: foldl_checked_succ_Inl unat_max)
  next
    case False
    then have "unat (c + 1) = Suc (unat c)"
      by (rule unat_succ)
    moreover have "c + 1 + of_nat (length xs) = c + of_nat (length (x # xs))"
      by simp
    ultimately show ?thesis
      using False Cons [of "c + 1"] by simp
  qed
qed

lemma count_checked_eq:
  "(count_checked xs :: panic + 'w::len word)
     = (if length xs < 2 ^ LENGTH('w) then Inr (of_nat (length xs)) else Inl AddOverflow)"
  by (simp add: count_checked_def foldl_checked_succ)

lemma len_checked_eq:
  "(len_checked self :: panic + 'w::len word)
     = (if len self < 2 ^ LENGTH('w) then Inr (of_nat (len self)) else Inl AddOverflow)"
  by (simp add: len_checked_def count_checked_eq len_def)

section \<open>Properties\<close>

text \<open>
  \<^bold>\<open>C15\<close> \<open>get_one_checked\<close> never panics: on every map and for every name it returns
  the first of the values that \<open>get\<close> yields, or nothing when there is none. The
  guard of the method is what makes this so: after \<open>replace_all\<close> with an empty
  vector the name has an entry without values, on which the guarded method returns
  nothing while indexing the values at 0 would panic.
\<close>

theorem get_one_never_panics:
  "get_one_checked self n = Inr (case get self n of [] \<Rightarrow> None | val # _ \<Rightarrow> Some val)
   \<and> get_one_checked (replace_all self n []) n = Inr None
   \<and> hm_get (headers (replace_all self n [])) n = Some []
   \<and> vec_index (get (replace_all self n []) n) 0 = Inl (IndexOutOfBounds 0 0)"
  by (simp add: get_one_checked_eq get_one_eq get_replace_all lookup_replace_all)

end
