(* ===== verification/HeaderMap_Reference.thy ===== *)
theory HeaderMap_Reference
  imports HeaderMap_Run
begin

text \<open>
  A reference implementation of the header collection, and the proof that
  \<^verbatim>\<open>HeaderMap\<close> behaves like it. The reference keeps the headers in one list, in
  the order in which they were added, as the header section of a message lists them:
  adding a header appends it, removing a name filters its headers out, replacing is
  removing and then adding, and the values of a name are the values of the headers of
  that name, from the oldest to the newest. Nothing of it is taken from the source:
  it is what the grouping of values by name in a hash map is meant to implement.

  \<open>ref_apply\<close> is the effect of a call of theory \<open>HeaderMap_Run\<close> on the list and
  \<open>ref_run\<close> the effect of a sequence of calls. \<open>ref_sim hs self\<close> relates a list
  and a map with the same values under every name; every call preserves it
  (\<open>ref_sim_apply\<close>), and related states answer the queries alike
  (\<open>ref_sim_observations\<close>). The map does not keep the order of headers of different
  names, so an iteration of the map is the list of the reference up to that order:
  the same multiset of headers, and the same headers of every name in the same order.
  Conversely the values under every name determine a map that stores no empty vector
  up to the derived equality (\<open>ref_sim_eq_iff\<close>), so the reference identifies no two
  maps that the program can tell apart.
\<close>

section \<open>The reference implementation\<close>

definition ref_new :: "header list" where
  "ref_new = []"

definition ref_get :: "header list \<Rightarrow> string \<Rightarrow> string list" where
  "ref_get hs n = map value (filter (\<lambda>h. name h = n) hs)"

definition ref_get_one :: "header list \<Rightarrow> string \<Rightarrow> string option" where
  "ref_get_one hs n = (case ref_get hs n of [] \<Rightarrow> None | v # vs \<Rightarrow> Some v)"

definition ref_contains :: "header list \<Rightarrow> string \<Rightarrow> bool" where
  "ref_contains hs n \<longleftrightarrow> list_ex (\<lambda>h. name h = n) hs"

definition ref_len :: "header list \<Rightarrow> nat" where
  "ref_len hs = length hs"

definition ref_is_empty :: "header list \<Rightarrow> bool" where
  "ref_is_empty hs \<longleftrightarrow> hs = []"

definition ref_remove :: "header list \<Rightarrow> string \<Rightarrow> header list" where
  "ref_remove hs n = filter (\<lambda>h. name h \<noteq> n) hs"

definition ref_add_all :: "header list \<Rightarrow> string \<Rightarrow> string list \<Rightarrow> header list" where
  "ref_add_all hs n vs = hs @ map (header_new n) vs"

definition ref_replace_all :: "header list \<Rightarrow> string \<Rightarrow> string list \<Rightarrow> header list" where
  "ref_replace_all hs n vs = ref_add_all (ref_remove hs n) n vs"

fun ref_apply :: "header list \<Rightarrow> call \<Rightarrow> header list" where
  "ref_apply hs (Replace h) = ref_replace_all hs (name h) [value h]"
| "ref_apply hs (ReplaceRaw n v) = ref_replace_all hs n [v]"
| "ref_apply hs (ReplaceAll n vs) = ref_replace_all hs n vs"
| "ref_apply hs (Add h) = ref_add_all hs (name h) [value h]"
| "ref_apply hs (AddRaw n v) = ref_add_all hs n [v]"
| "ref_apply hs (AddAll n vs) = ref_add_all hs n vs"
| "ref_apply hs (Remove n) = ref_remove hs n"
| "ref_apply hs RemoveAll = ref_new"

definition ref_run :: "header list \<Rightarrow> call list \<Rightarrow> header list" where
  "ref_run = foldl ref_apply"

definition ref_sim :: "header list \<Rightarrow> header_map \<Rightarrow> bool" where
  "ref_sim hs self \<longleftrightarrow> hmap_wf self \<and> (\<forall>n. get self n = ref_get hs n)"

lemmas ref_defs = ref_new_def ref_get_def ref_get_one_def ref_contains_def ref_len_def
  ref_is_empty_def ref_remove_def ref_add_all_def ref_replace_all_def

section \<open>The simulation\<close>

lemma ref_get_add_all:
  "ref_get (ref_add_all hs k vs) n = (if k = n then ref_get hs n @ vs else ref_get hs n)"
  by (simp add: ref_get_def ref_add_all_def filter_group comp_def)

lemma ref_get_remove: "ref_get (ref_remove hs k) n = (if k = n then [] else ref_get hs n)"
  by (induction hs) (auto simp: ref_get_def ref_remove_def)

lemma ref_get_apply: "ref_get (ref_apply hs c) n = values_after n (ref_get hs n) c"
  by (cases c) (simp_all add: ref_replace_all_def ref_get_add_all ref_get_remove, simp add: ref_defs)

lemma ref_sim_new: "ref_sim ref_new new"
  by (simp add: ref_sim_def hmap_wf_new get_new ref_defs)

lemma ref_sim_apply: "ref_sim hs self \<Longrightarrow> ref_sim (ref_apply hs c) (apply_call self c)"
  by (simp add: ref_sim_def hmap_wf_apply_call get_apply_call ref_get_apply)

lemma ref_sim_run: "ref_sim hs self \<Longrightarrow> ref_sim (ref_run hs cs) (run self cs)"
  unfolding ref_run_def
  by (induction cs arbitrary: hs self) (simp_all add: ref_sim_apply)

section \<open>What related states have in common\<close>

lemma filter_name_values:
  "filter (\<lambda>h. name h = n) hs = map (header_new n) (ref_get hs n)"
  by (induction hs) (auto simp: ref_get_def header_eq_iff)

lemma mset_eq_by_name:
  fixes xs ys :: "header list"
  assumes "\<And>n. filter (\<lambda>h. name h = n) xs = filter (\<lambda>h. name h = n) ys"
  shows "mset xs = mset ys"
proof (rule multiset_eqI)
  fix x :: header
  have c: "count (mset zs) x = count (mset (filter (\<lambda>h. name h = name x) zs)) x"
    for zs :: "header list"
    by (induction zs) auto
  show "count (mset xs) x = count (mset ys) x"
    by (simp only: c [of xs] c [of ys] assms [of "name x"])
qed

lemma ref_sim_filter:
  "ref_sim hs self \<Longrightarrow> filter (\<lambda>h. name h = n) (iter self) = filter (\<lambda>h. name h = n) hs"
  using filter_iter [of self n] filter_name_values [of n hs] by (simp add: ref_sim_def)

lemma ref_sim_mset: "ref_sim hs self \<Longrightarrow> mset (iter self) = mset hs"
  by (rule mset_eq_by_name) (rule ref_sim_filter)

lemma ref_sim_len: "ref_sim hs self \<Longrightarrow> len self = ref_len hs"
  using ref_sim_mset [of hs self] length_iter [of self]
  by (metis ref_len_def size_mset)

lemma ref_contains_get: "ref_contains hs n \<longleftrightarrow> ref_get hs n \<noteq> []"
  by (induction hs) (auto simp: ref_defs)

lemma nonempty_contains_get: "nonempty_values self \<Longrightarrow> contains self n \<longleftrightarrow> get self n \<noteq> []"
  using nonempty_get [of self n] by (auto simp: contains_eq get_eq split: option.splits)

lemma nonempty_is_empty_len: "nonempty_values self \<Longrightarrow> is_empty self \<longleftrightarrow> len self = 0"
  by (cases "headers self") (auto simp: is_empty_headers len_zero_iff nonempty_values_def)

lemma ref_sim_observations:
  assumes "ref_sim hs self"
  shows "get self n = ref_get hs n" and "get_one self n = ref_get_one hs n"
    and "len self = ref_len hs" and "mset (iter self) = mset hs"
    and "filter (\<lambda>h. name h = n) (iter self) = filter (\<lambda>h. name h = n) hs"
  using assms ref_sim_len [OF assms] ref_sim_mset [OF assms] ref_sim_filter [OF assms]
  by (simp_all add: ref_sim_def get_one_eq ref_get_one_def)

lemma ref_sim_nonempty:
  assumes "ref_sim hs self" and "nonempty_values self"
  shows "contains self n = ref_contains hs n" and "is_empty self = ref_is_empty hs"
    and "fst (replace self h) = ref_contains hs (name h)"
  using assms ref_sim_len [OF assms(1)]
  by (simp_all add: ref_sim_def nonempty_contains_get nonempty_is_empty_len ref_contains_get
      fst_replace ref_len_def ref_is_empty_def)

text \<open>
  Maps that store no empty vector are determined, up to the order of their entries,
  by the values that \<open>get\<close> yields: so two of them are equal by the derived equality
  exactly when the lists related to them have the same values under every name.
\<close>

lemma nonempty_lookup_get:
  "nonempty_values self \<Longrightarrow>
     hm_get (headers self) n = (if get self n = [] then None else Some (get self n))"
  using nonempty_contains_get [of self n]
  by (auto simp: contains_eq get_eq split: option.splits)

lemma nonempty_opt_eq:
  "(if xs = [] then None else Some xs) = (if ys = [] then None else Some ys) \<longleftrightarrow> xs = ys"
  by (cases xs; cases ys) simp_all

lemma ref_sim_eq_iff:
  assumes "ref_sim hs a" and "ref_sim ks b" and "nonempty_values a" and "nonempty_values b"
  shows "header_map_eq a b \<longleftrightarrow> (\<forall>n. ref_get hs n = ref_get ks n)"
proof -
  from assms(1,2) have wf: "hmap_wf a" "hmap_wf b"
    and g: "\<And>n. get a n = ref_get hs n" "\<And>n. get b n = ref_get ks n"
    by (simp_all add: ref_sim_def)
  have "header_map_eq a b \<longleftrightarrow> (\<forall>n. hm_get (headers a) n = hm_get (headers b) n)"
    using wf by (simp add: header_map_eq_equiv hmap_equiv_def hmap_wf_def hm_equiv_iff_get)
  also have "\<dots> \<longleftrightarrow> (\<forall>n. get a n = get b n)"
    unfolding nonempty_lookup_get [OF assms(3)] nonempty_lookup_get [OF assms(4)]
    by (simp only: nonempty_opt_eq)
  finally show ?thesis
    by (simp add: g)
qed

section \<open>Properties\<close>

text \<open>
  \<^bold>\<open>C7\<close> \<^verbatim>\<open>HeaderMap\<close> behaves like the list of headers in the order of their
  arrival. After any sequence of calls on the empty map, \<open>get\<close> and \<open>get_one\<close> return
  what the reference returns after the same calls on the empty list, \<open>len\<close> is the
  length of the list, and an iteration of the map yields the headers of the list:
  all of them, each as often, and those of one name in the order of the list. When no
  call was a \<open>replace_all\<close> or \<open>add_all\<close> with an empty vector, \<open>contains\<close>,
  \<open>is_empty\<close> and the flag that \<open>replace\<close> returns agree with the reference too,
  and the reference tells the maps apart: the maps that two such sequences of calls
  build are equal by the derived equality exactly when the two lists of the reference
  have the same values under every name.
\<close>

theorem reference_equivalence:
  "get (run new cs) n = ref_get (ref_run ref_new cs) n
   \<and> get_one (run new cs) n = ref_get_one (ref_run ref_new cs) n
   \<and> len (run new cs) = ref_len (ref_run ref_new cs)
   \<and> mset (iter (run new cs)) = mset (ref_run ref_new cs)
   \<and> filter (\<lambda>h. name h = n) (iter (run new cs))
       = filter (\<lambda>h. name h = n) (ref_run ref_new cs)
   \<and> (list_all benign cs \<longrightarrow>
        contains (run new cs) n = ref_contains (ref_run ref_new cs) n
        \<and> is_empty (run new cs) = ref_is_empty (ref_run ref_new cs)
        \<and> fst (replace (run new cs) h) = ref_contains (ref_run ref_new cs) (name h)
        \<and> (list_all benign ds \<longrightarrow>
             header_map_eq (run new cs) (run new ds)
             = (\<forall>k. ref_get (ref_run ref_new cs) k = ref_get (ref_run ref_new ds) k)))"
proof -
  have sim: "ref_sim (ref_run ref_new cs) (run new cs)" for cs
    by (simp add: ref_sim_run ref_sim_new)
  have ne: "nonempty_values (run new cs)" if "list_all benign cs" for cs
    using that by (simp add: nonempty_values_run nonempty_values_new)
  have "header_map_eq (run new cs) (run new ds)
      = (\<forall>k. ref_get (ref_run ref_new cs) k = ref_get (ref_run ref_new ds) k)"
    if "list_all benign cs" and "list_all benign ds"
    using sim sim ne [OF that(1)] ne [OF that(2)] by (rule ref_sim_eq_iff)
  with ne [of cs] ref_sim_observations [OF sim] ref_sim_nonempty [OF sim] show ?thesis
    by simp
qed

theorem reference_equivalence_witness:
  "list_all benign [AddRaw ''a'' ''1'', AddRaw ''b'' ''2'', AddRaw ''a'' ''3'', Remove ''b'']
   \<and> ref_run ref_new [AddRaw ''a'' ''1'', AddRaw ''b'' ''2'', AddRaw ''a'' ''3'', Remove ''b'']
       = [header_new ''a'' ''1'', header_new ''a'' ''3'']
   \<and> get (run new [AddRaw ''a'' ''1'', AddRaw ''b'' ''2'', AddRaw ''a'' ''3'', Remove ''b'']) ''a''
       = [''1'', ''3'']
   \<and> \<not> contains (run new [AddRaw ''a'' ''1'', AddRaw ''b'' ''2'', AddRaw ''a'' ''3'', Remove ''b''])
       ''b''
   \<and> header_map_eq
         (run new [AddRaw ''a'' ''1'', AddRaw ''b'' ''2'', AddRaw ''a'' ''3'', Remove ''b''])
         (run new [AddRaw ''a'' ''1'', AddRaw ''a'' ''3''])
   \<and> contains (run new [ReplaceAll ''a'' []]) ''a''
   \<and> \<not> ref_contains (ref_run ref_new [ReplaceAll ''a'' []]) ''a''"
proof -
  let ?cs = "[AddRaw ''a'' ''1'', AddRaw ''b'' ''2'', AddRaw ''a'' ''3'', Remove ''b'']"
  have r: "ref_run ref_new ?cs = [header_new ''a'' ''1'', header_new ''a'' ''3'']"
    by (simp add: ref_run_def ref_defs header_new_def)
  have e: "contains (run new [ReplaceAll ''a'' []]) ''a''"
    by (simp add: contains_eq lookup_simps)
  have d: "ref_run ref_new [AddRaw ''a'' ''1'', AddRaw ''a'' ''3''] = ref_run ref_new ?cs"
    by (simp add: ref_run_def ref_defs header_new_def)
  have q: "header_map_eq (run new ?cs) (run new [AddRaw ''a'' ''1'', AddRaw ''a'' ''3''])"
    using reference_equivalence [of ?cs _ _ "[AddRaw ''a'' ''1'', AddRaw ''a'' ''3'']"]
    by (simp only: d) simp
  from reference_equivalence [of ?cs "''a''"] reference_equivalence [of ?cs "''b''"] r e q
  show ?thesis
    by (simp add: ref_run_def ref_defs header_new_def)
qed

end
