(* ===== verification/HeaderMap_Type.thy ===== *)
theory HeaderMap_Type
  imports HeaderMap_Run
begin

text \<open>
  The field \<^verbatim>\<open>headers\<close> of \<^verbatim>\<open>HeaderMap\<close> is private: a program outside the module
  gets a map from \<^verbatim>\<open>new\<close> or \<^verbatim>\<open>default\<close> and changes it through the methods only.
  The type \<open>valid_map\<close> is the record \<open>header_map\<close> restricted to the maps with one
  entry per name (\<open>hmap_wf\<close>), and every method is lifted to it: the proof that
  comes with each lifted update is that the method keeps the invariant. On the type
  the properties of theories \<open>HeaderMap\<close> and \<open>HeaderMap_Spec\<close> hold without a
  hypothesis on the map, and the type has no other inhabitants than the maps that
  calls build from the empty map.
\<close>

section \<open>The type and its operations\<close>

typedef valid_map = "{self :: header_map. hmap_wf self}"
  morphisms rep_map abs_map
  by (rule exI [of _ new]) (simp add: hmap_wf_new)

setup_lifting type_definition_valid_map

lift_definition new_valid :: valid_map is new
  by (rule hmap_wf_new)

lift_definition default_valid :: valid_map is default
  by (simp add: default_eq_new hmap_wf_new)

lift_definition contains_valid :: "valid_map \<Rightarrow> string \<Rightarrow> bool" is contains .

lift_definition len_valid :: "valid_map \<Rightarrow> nat" is len .

lift_definition is_empty_valid :: "valid_map \<Rightarrow> bool" is is_empty .

lift_definition get_valid :: "valid_map \<Rightarrow> string \<Rightarrow> string list" is get .

lift_definition get_one_valid :: "valid_map \<Rightarrow> string \<Rightarrow> string option" is get_one .

lift_definition iter_valid :: "valid_map \<Rightarrow> header list" is iter .

lift_definition replace_valid :: "valid_map \<Rightarrow> header \<Rightarrow> bool \<times> valid_map" is replace
  by (simp add: pred_prod_beta hmap_wf_replace)

lift_definition replace_raw_valid :: "valid_map \<Rightarrow> cow_str \<Rightarrow> cow_str \<Rightarrow> bool \<times> valid_map"
  is replace_raw
  by (simp add: pred_prod_beta replace_raw_def hmap_wf_replace)

lift_definition replace_all_valid :: "valid_map \<Rightarrow> cow_str \<Rightarrow> cow_str list \<Rightarrow> valid_map"
  is replace_all
  by (rule hmap_wf_replace_all)

lift_definition add_valid :: "valid_map \<Rightarrow> header \<Rightarrow> valid_map" is add
  by (rule hmap_wf_add)

lift_definition add_raw_valid :: "valid_map \<Rightarrow> cow_str \<Rightarrow> cow_str \<Rightarrow> valid_map" is add_raw
  by (simp add: add_raw_def hmap_wf_add)

lift_definition add_all_valid ::
  "valid_map \<Rightarrow> cow_str \<Rightarrow> cow_str list \<Rightarrow> valid_map \<times> cow_str list" is add_all
  by (simp add: pred_prod_beta hmap_wf_add_all)

lift_definition remove_valid :: "valid_map \<Rightarrow> string \<Rightarrow> valid_map" is remove
  by (rule hmap_wf_remove)

lift_definition remove_all_valid :: "valid_map \<Rightarrow> header list \<times> valid_map" is remove_all
  by (simp add: pred_prod_beta hmap_wf_new)

lift_definition eq_valid :: "valid_map \<Rightarrow> valid_map \<Rightarrow> bool" is header_map_eq .

text \<open>Calls, runs and the abstraction to the specification, on the type.\<close>

lift_definition apply_valid :: "valid_map \<Rightarrow> call \<Rightarrow> valid_map" is apply_call
  by (rule hmap_wf_apply_call)

lift_definition run_valid :: "valid_map \<Rightarrow> call list \<Rightarrow> valid_map" is run
  by (rule hmap_wf_run)

lift_definition abs_valid :: "valid_map \<Rightarrow> abs_headers" is abs_of .

section \<open>The operations on the type\<close>

lemma hmap_wf_rep_map [simp]: "hmap_wf (rep_map m)"
  using rep_map [of m] by simp

lemma valid_map_eqI: "rep_map a = rep_map b \<Longrightarrow> a = b"
  by (simp add: rep_map_inject)

lemma default_valid_eq: "default_valid = new_valid"
  by transfer (rule default_eq_new)

lemma apply_valid_simps:
  "apply_valid m (Replace h) = snd (replace_valid m h)"
  "apply_valid m (ReplaceRaw n v) = snd (replace_raw_valid m n v)"
  "apply_valid m (ReplaceAll n vs) = replace_all_valid m n vs"
  "apply_valid m (Add h) = add_valid m h"
  "apply_valid m (AddRaw n v) = add_raw_valid m n v"
  "apply_valid m (AddAll n vs) = fst (add_all_valid m n vs)"
  "apply_valid m (Remove n) = remove_valid m n"
  "apply_valid m RemoveAll = snd (remove_all_valid m)"
  by (transfer, simp)+

lemma run_valid_simps [simp]:
  "run_valid m [] = m"
  "run_valid m (c # cs) = run_valid (apply_valid m c) cs"
  by (transfer, simp)+

lemma valid_map_reached: "\<exists>cs. m = run_valid new_valid cs"
proof -
  have "rep_map m = rep_map (run_valid new_valid (map (\<lambda>(n, vs). ReplaceAll n vs) (headers (rep_map m))))"
    by (simp add: run_valid.rep_eq new_valid.rep_eq run_install)
  then show ?thesis
    by (blast intro: valid_map_eqI)
qed

lemma abs_valid_apply: "abs_valid (apply_valid m c) = a_apply (abs_valid m) c"
  by transfer (rule refines_apply_call)

lemma eq_valid_iff: "eq_valid a b \<longleftrightarrow> abs_valid a = abs_valid b"
  by transfer
    (auto simp: header_map_eq_equiv hmap_equiv_def hmap_wf_def hm_equiv_iff_get abs_of_def)

end
