(* ===== verification/Spec2Isabelle.thy ===== *)
theory Spec2Isabelle
  imports DocTests HashMap_Mapping HeaderMap_Cost HeaderMap_Interleave HeaderMap_Lazy_Cow
    HeaderMap_Panic HeaderMap_Reference HeaderMap_Type
begin

text \<open>
  \<^bold>\<open>A verification development for the HTTP header collection of Rocket\<close>
  (\<^verbatim>\<open>src/lib/src/http/header.rs\<close>).

  \<^bold>\<open>The program.\<close> The file has two components. \<^verbatim>\<open>Header\<close> is one name and one
  value, both text that is borrowed or owned (\<^verbatim>\<open>Cow<str>\<close>), with a constructor, a
  rendering \<^verbatim>\<open>name: value\<close> and a conversion from the typed headers of the protocol
  library. \<^verbatim>\<open>HeaderMap\<close> is a hash map from a header name to the vector of the values
  stored under that name; its methods look a name up (\<^verbatim>\<open>contains\<close>, \<^verbatim>\<open>get\<close>,
  \<^verbatim>\<open>get_one\<close>), count (\<^verbatim>\<open>len\<close>, \<^verbatim>\<open>is_empty\<close>), overwrite the values of a name
  (\<^verbatim>\<open>replace\<close>, \<^verbatim>\<open>replace_raw\<close>, \<^verbatim>\<open>replace_all\<close>), append to them (\<^verbatim>\<open>add\<close>,
  \<^verbatim>\<open>add_raw\<close>, \<^verbatim>\<open>add_all\<close>), delete them (\<^verbatim>\<open>remove\<close>, \<^verbatim>\<open>remove_all\<close>) and iterate
  (\<^verbatim>\<open>iter\<close>, \<^verbatim>\<open>into_iter\<close>, \<^verbatim>\<open>into_iter_raw\<close>). The map is built on the standard
  library's \<^verbatim>\<open>HashMap\<close> and \<^verbatim>\<open>Vec\<close>; \<^verbatim>\<open>Header\<close> is the type in which single entries
  enter and leave it.

  \<^bold>\<open>The theories.\<close>
  \<^item> \<open>Prelude\<close>: the type \<open>cow_str\<close> of header text, the fact collections of the
    development, generic lemmas on association lists and flattened lists.
  \<^item> \<open>Std\<close>: the functions of the standard library that the file calls on options,
    vectors and iterators (\<open>is_some\<close>, \<open>option_into_iter\<close>, \<open>iter_next\<close>,
    \<open>flat_map\<close>, \<open>vec_push\<close>, \<open>vec_append\<close>, \<open>mem_replace\<close>), the hasher that a
    derived \<^verbatim>\<open>Hash\<close> writes to (\<open>hasher\<close>, \<open>write_u8\<close>, \<open>hash_str\<close>) and the sink
    that \<^verbatim>\<open>write!\<close> writes to, which can fail (\<open>writer\<close>, \<open>fmt_error\<close>,
    \<open>write_fmt\<close>, \<open>string_write_str\<close>). They are modelled from the library's
    documentation: its code is not part of the repository.
  \<^item> \<open>HashMap\<close>: the hash map as the list of its entries in iteration order, its
    operations \<open>hm_new\<close>, \<open>hm_get\<close>, \<open>hm_insert\<close>, \<open>hm_remove\<close>,
    \<open>hm_or_insert\<close>, \<open>hm_len\<close>, \<open>hm_is_empty\<close>, \<open>hm_iter\<close>, \<open>hm_into_iter\<close>,
    \<open>hm_eq\<close>, the invariant \<open>hm_inv\<close> (one entry per key) and the relation
    \<open>hm_equiv\<close> between the representations of one map in different orders. Also
    modelled from the library's documentation.
  \<^item> \<open>Header\<close>: the struct \<^verbatim>\<open>Header\<close> as the record \<open>header\<close>, \<^verbatim>\<open>Header::new\<close> as
    \<open>header_new\<close>, \<^verbatim>\<open>Display::fmt\<close> as \<open>fmt\<close>, the text it writes, and as
    \<open>fmt_to\<close>, with the sink it writes to, \<^verbatim>\<open>From<T>\<close> as \<open>from_hyper\<close> over
    the record \<open>hyper_header\<close> of the two capabilities of a typed header, the
    derived \<^verbatim>\<open>Hash\<close> as \<open>hash_header\<close>.
  \<^item> \<open>HeaderMap\<close>: the struct \<^verbatim>\<open>HeaderMap\<close> as the record \<open>header_map\<close> and one
    definition per method, under the method's name; the derived \<^verbatim>\<open>PartialEq\<close> and
    \<^verbatim>\<open>Default\<close> as \<open>header_map_eq\<close> and \<open>default\<close>; the invariants \<open>hmap_wf\<close>
    and \<open>nonempty_values\<close>; the properties of each method.
  \<^item> \<open>HeaderMap_Iter\<close>: the iterators \<open>iter\<close>, \<open>into_iter\<close> and
    \<open>into_iter_raw\<close> of a map with one entry per name: the headers of a name stand
    together and in the order of \<open>get\<close>, the multiset of the iteration after each
    update, and the relation \<open>hmap_equiv\<close> of two maps that hold the same entries in
    different iteration orders, which every query and every update respects.
  \<^item> \<open>HeaderMap_Spec\<close>: the abstract specification, a function \<open>abs_headers\<close> from
    names to value lists with one specified operation \<open>a_\<close>... per method, the
    abstraction \<open>abs_of\<close>, and the refinement of every method:
    \<open>abs_of (f self) = a_f (abs_of self)\<close>.
  \<^item> \<open>HeaderMap_Run\<close>: the mutating methods as the datatype \<open>call\<close>, the step
    function \<open>apply_call\<close>, sequences of calls \<open>run\<close>, and the maps \<open>reachable\<close>
    from the empty map as an inductive predicate; the invariants by rule induction
    and, conversely, that every map satisfying them is reachable; the runs
    \<open>run_rehash\<close> of a table that reorders its entries between the calls.
  \<^item> \<open>HeaderMap_Reference\<close>: a reference implementation that keeps the headers in
    one list in the order of their arrival (\<open>ref_get\<close>, \<open>ref_add_all\<close>,
    \<open>ref_remove\<close>, ..., \<open>ref_apply\<close>, \<open>ref_run\<close>), the relation \<open>ref_sim\<close>
    between a list and a map with the same values under every name, and that the
    calls preserve it.
  \<^item> \<open>HashMap_Mapping\<close>: the list of entries as a mapping of the library
    (\<open>hm_abs\<close>, \<open>headers_abs\<close>), the operations of the hash map as
    \<open>Mapping.lookup\<close>, \<open>Mapping.update\<close>, \<open>Mapping.delete\<close> and
    \<open>Mapping.default\<close>, and the methods of the header map as operations on the
    mapping from names to vectors of values.
  \<^item> \<open>HeaderMap_Interleave\<close>: the name a call works on (\<open>call_name\<close>), calls that
    are \<open>independent\<close> because they work on different names, and the interleavings
    of two sequences of independent calls.
  \<^item> \<open>HeaderMap_Type\<close>: the maps with one entry per name as the type \<open>valid_map\<close>,
    which stands for the struct with its private field, and every method lifted to
    it (suffix \<open>_valid\<close>).
  \<^item> \<open>Cow\<close>: text that is borrowed or owned as the datatype \<open>cow\<close> with its
    \<open>contents\<close>, the conversion \<open>into_cow\<close> of the arguments that a method accepts
    as \<^verbatim>\<open>Into<Cow<str>>\<close>, and the hash map whose keys are compared through their
    borrowed form (\<open>hm_get_by\<close>, \<open>hm_put_by\<close>, \<open>hm_del_by\<close>,
    \<open>hm_or_insert_by\<close>), with the erasure \<open>erase\<close> to the map of theory
    \<open>HashMap\<close>.
  \<^item> \<open>HeaderMap_Cow\<close>: both components with the ownership of every text kept
    (\<open>header_cow\<close>, \<open>header_map_cow\<close> and one definition with suffix \<open>_cow\<close> per
    method), the erasures \<open>erase_header\<close> and \<open>erase_map\<close> to the model of the
    contents, that every method commutes with them, and the derived \<^verbatim>\<open>Hash\<close> and \<^verbatim>\<open>Clone\<close> (\<open>hash_header_cow\<close>,
    \<open>clone_header_cow\<close>, \<open>clone_map_cow\<close>).
  \<^item> \<open>HeaderMap_Usize\<close>: \<^verbatim>\<open>len\<close> counted in a machine word of the width of
    \<^verbatim>\<open>usize\<close> (\<open>len_usize\<close>), and its agreement with \<open>len\<close> modulo the
    range of the word.
  \<^item> \<open>HeaderMap_Panic\<close>: the two places where the code can panic, with the panic
    as a value: the indexing \<^verbatim>\<open>values[0]\<close> of \<^verbatim>\<open>get_one\<close> (\<open>vec_index\<close>,
    \<open>get_one_checked\<close>) and the addition of \<^verbatim>\<open>count\<close> in a build with overflow
    checks (\<open>count_checked\<close>, \<open>len_checked\<close>).
  \<^item> \<open>Lazy_Iterator\<close>: iterators as cursors, a state and its \<^verbatim>\<open>next\<close>: the
    adaptors \<open>option_next\<close>, \<open>map_next\<close>, \<open>flat_map_next\<close> and the loops
    \<open>iter_fold\<close>, \<open>iter_count\<close>, \<open>iter_collect\<close> over them, the loops as partial
    functions; that they return and yield the lists of theory \<open>Std\<close>.
  \<^item> \<open>HeaderMap_Lazy\<close>: the iterators of \<^verbatim>\<open>len\<close>, \<^verbatim>\<open>get\<close>, \<^verbatim>\<open>iter\<close>,
    \<^verbatim>\<open>into_iter\<close> and \<^verbatim>\<open>remove_all\<close> as such cursors, chained as in the source,
    and their agreement with the lists of theory \<open>HeaderMap\<close>.
  \<^item> \<open>Lazy_Cost\<close>: the cost of the loops over a cursor, in calls of \<^verbatim>\<open>next\<close> on
    the iterators at the bottom of the chain: one function \<open>T_f\<close> per loop \<open>f\<close>
    that follows the equations of \<open>f\<close> (\<open>T_flat_map_next\<close>, \<open>T_iter_fold\<close>), and
    the potential \<open>fm_cost\<close> that pays for every call.
  \<^item> \<open>HeaderMap_Cost\<close>: the cost of \<^verbatim>\<open>len\<close>, of \<^verbatim>\<open>remove_all\<close> and of driving the
    iterators of \<^verbatim>\<open>get\<close> and \<^verbatim>\<open>iter\<close> to their end (\<open>T_len_lazy\<close>,
    \<open>T_remove_all_lazy\<close>, \<open>T_get_lazy\<close>, \<open>T_iter_lazy\<close>).
  \<^item> \<open>HeaderMap_Lazy_Cow\<close>: the same cursors over a map of borrowed or owned text
    (suffix \<open>_cow\<close>), the form the iterators have in the source, and that
    forgetting the ownership takes them to the cursors on the contents.
  \<^item> \<open>DocTests\<close>: every example of the documentation comments of the file as a
    definition \<open>doc_\<close>... that makes the calls of the example and returns the values
    its assertions inspect, with the assertions as lemmas.
  \<^item> \<open>Spec2Isabelle\<close> (this theory): the properties that span the components: a map
    drained into headers and rebuilt from them, the lines \<open>render\<close> that a
    serialization of a map consists of, and the program as it is written against the
    reference implementation.

  \<^bold>\<open>How the model corresponds to the code.\<close> The file is modelled at two levels of
  detail in each of two respects, the ownership of the texts and the laziness of the
  iterators. In the
  theories \<open>Header\<close> and \<open>HeaderMap\<close> a text is its contents, a \<open>string\<close>: every
  operation of the file reads a \<^verbatim>\<open>Cow<str>\<close> through its contents, and Rust compares
  and hashes it by contents. Theory \<open>HeaderMap_Cow\<close> keeps the variant of every
  \<^verbatim>\<open>Cow\<close> and writes the conversions out; its lemmas \<open>erase_\<close>... show that the
  first model is what is left of the second when the variants are forgotten, so the
  properties proved of the contents hold of the maps of \<^verbatim>\<open>Cow\<close> values
  (\<open>cow_values_fifo\<close> is an instance). A method on \<^verbatim>\<open>&mut self\<close> returns the new map; a
  lazy iterator is the list of the items it yields in the theories \<open>HeaderMap\<close> to
  \<open>HeaderMap_Cow\<close>; the theories \<open>HeaderMap_Lazy\<close> and \<open>HeaderMap_Lazy_Cow\<close> have
  the iterators as the cursors they are and show that a caller who drives them sees
  these lists. The struct with its private field is the type \<open>valid_map\<close> of theory
  \<open>HeaderMap_Type\<close>. \<^verbatim>\<open>usize\<close> counts are natural
  numbers: \<^verbatim>\<open>len\<close> counts values that are all held in memory at once, so the count
  cannot reach the range where \<^verbatim>\<open>usize\<close> wraps; theory \<open>HeaderMap_Usize\<close> has the
  count in a word of that width and shows that it is the count of theory
  \<open>HeaderMap\<close> modulo \<open>2 ^ LENGTH('w)\<close> (\<open>len_usize_of_nat\<close>,
  \<open>unat_len_usize_mod\<close>). No method of \<^verbatim>\<open>HeaderMap\<close> returns an error; the two
  panics that the code can raise are values of the type \<open>panic\<close> in theory
  \<open>HeaderMap_Panic\<close>. \<^verbatim>\<open>Display::fmt\<close> returns a \<^verbatim>\<open>fmt::Result\<close>: \<open>fmt_to\<close>
  returns the sink or the error as a value of a sum type, and \<open>fmt\<close> is the text
  that it writes, which is what \<^verbatim>\<open>to_string\<close> returns (\<open>to_string_eq\<close>). The
  definitions compute, and the witnesses evaluate by \<open>simp\<close>.

  \<^bold>\<open>The iteration order.\<close> The library does not specify the order in which a hash
  map is iterated. The model keeps the entries in a list and fixes an order for what
  the operations build, but no property depends on it: the properties of the
  iterators are stated for every map that satisfies the invariant, whatever the order
  of its entries, and \<open>hmap_equiv\<close> with its congruence lemmas shows that the same
  calls on two orderings of one map give two orderings of one map.

  \<^bold>\<open>What the lemmas show.\<close>
  \<^item> For each method (theory \<open>HeaderMap\<close>): the values stored under every name
    after the call (\<open>lookup_\<close>..., \<open>get_\<close>...), the result it returns, the effect on
    \<open>len\<close> (\<open>len_\<close>...), that it keeps \<open>hmap_wf\<close> (\<open>hmap_wf_\<close>...), and whether
    it keeps \<open>nonempty_values\<close> (\<open>nonempty_values_\<close>...).
  \<^item> Values of one name are kept in the order of addition (\<open>add_appends\<close>,
    \<open>add_all_appends\<close>, \<open>run_adds_fifo\<close>); a replacement leaves exactly the new
    values (\<open>replace_overwrites\<close>, \<open>replace_all_installs\<close>); a removal leaves none
    (\<open>remove_deletes\<close>, \<open>remove_all_drains\<close>); a bulk method leaves the map that
    the single methods leave, one value or name at a time (\<open>add_all_adds\<close>,
    \<open>replace_all_adds\<close>, \<open>remove_all_removes\<close>); \<open>len\<close> counts values
    (\<open>len_counts_values\<close>); on a name that is absent \<open>replace\<close> is \<open>add\<close>
    and \<open>remove\<close> does nothing (\<open>absent_name_behaviour\<close>).
  \<^item> The representation invariant \<open>hmap_wf\<close> characterises the maps that calls can
    build, and with \<open>nonempty_values\<close> it characterises the maps built without
    installing an empty vector (\<open>reachable_iff_wf\<close>). Theory \<open>HeaderMap_Type\<close>
    has the maps with the invariant as a type: the proof that comes with each
    lifted method is that the method keeps the invariant.
  \<^item> Calls on different names do not interfere: every interleaving of two sequences
    of calls that work on different names leaves the same entries
    (\<open>interleaving_independent\<close>).
  \<^item> The methods refine the abstract map (\<open>refinement_updates\<close>,
    \<open>refinement_queries\<close>, \<open>run_values\<close>). The lemmas of theory
    \<open>HashMap_Mapping\<close> check the model of the hash map against the mappings of the
    library: \<open>hm_put\<close> is \<open>AList.update\<close>, \<open>hm_del\<close> is \<open>AList.delete\<close>, and
    on the mapping from names to vectors \<open>add\<close> is \<open>Mapping.map_default\<close>,
    \<open>replace\<close> is \<open>Mapping.update\<close>, \<open>remove\<close> is \<open>Mapping.delete\<close>
    (\<open>headers_abs_\<close>...).
  \<^item> The map behaves like the reference implementation, the list of headers in the
    order of their arrival: after the same calls every query answers alike, and an
    iteration yields the headers of the list, those of one name in the order of the
    list (\<open>reference_equivalence\<close>). \<open>contains\<close> and \<open>is_empty\<close> agree with the
    reference as long as no call installs an empty vector, and then two maps are
    equal by the derived equality exactly when their reference lists have the same
    values under every name (\<open>ref_sim_eq_iff\<close>). The same holds of the
    program as it is written, with texts of any ownership and the iterators driven as
    lazy cursors (\<open>program_meets_reference\<close>).
  \<^item> Iteration yields each stored value once, grouped by name and in the order of
    addition (\<open>iter_grouped\<close>, \<open>iter_multiset\<close>), and nothing that can be
    observed depends on the iteration order of the hash map, not even when the table
    reorders its entries between the calls (\<open>rehash_runs_agree\<close>,
    \<open>header_map_eq_iff\<close>).
  \<^item> Termination and panics: the loops \<^verbatim>\<open>count\<close> and \<^verbatim>\<open>collect\<close> and the loop inside
    \<^verbatim>\<open>FlatMap::next\<close> return on every map (\<open>lazy_loops_return\<close>), every call of
    \<^verbatim>\<open>next\<close> returns and the iterators reach every item and then end
    (\<open>lazy_next_reaches_all\<close>); \<^verbatim>\<open>get_one\<close> never panics
    (\<open>get_one_never_panics\<close>).
  \<^item> Cost: \<^verbatim>\<open>len\<close>, \<^verbatim>\<open>remove_all\<close> and a full iteration make one step for every
    stored value, two for every name and one more; \<^verbatim>\<open>len\<close> is linear in the number
    of values, not only in the number of names (\<open>iteration_cost\<close>).
  \<^item> The specification's invariant that no stored vector is empty does not hold of
    the code: \<open>replace_all\<close> and \<open>add_all\<close> store an empty vector when given one
    (\<open>replace_all_empty_entry\<close>). Where it holds, the queries agree with each other
    (\<open>nonempty_observations\<close>) and a drained map can be rebuilt from its headers
    and where it fails the rebuilt map differs (\<open>drain_rebuild\<close>).
  \<^item> Ownership (theory \<open>HeaderMap_Cow\<close>): the methods and the runs of calls
    commute with the erasure (\<open>erasure_commutes\<close>, \<open>run_cow_simulates\<close>), and the
    maps that calls build are those that store no two names with the same contents;
    the derived hash of a header is the hash of its contents; \<open>iter_cow\<close> yields
    borrowed headers and \<open>into_iter_cow\<close> the stored texts, also when the iterators
    are driven as lazy cursors (\<open>lazy_cow_refines\<close>).
  \<^item> The rendering of a header determines the header, and the rendered lines
    determine the map, when names contain no colon (\<open>encodings_determine_header\<close>,
    \<open>render_determines_map\<close>), and not otherwise, as nothing is escaped (the last
    part of \<open>encodings_determine_header\<close>). What the derived \<^verbatim>\<open>Hash\<close> feeds to
    the hasher determines the header too.
  \<^item> The assertions of every documentation example hold in the model (the lemmas
    \<open>doc_\<close>...\<open>_ok\<close> of theory \<open>DocTests\<close>): they are tests of the definitions on
    the data of the source, not properties of the program.

  \<^bold>\<open>Bounds and fuel.\<close> There is no fuel. The definitions of the list model are
  total functions defined by \<open>definition\<close>, \<open>fun\<close> or \<open>primrec\<close>. The loops of the
  cursor model (\<open>flat_map_next\<close>, \<open>iter_fold\<close>) are partial functions with an
  \<open>option\<close> result, because they do not end on every iterator; that they end on the
  iterators of a header map is a theorem (\<open>lazy_loops_return\<close>). The cost
  functions \<open>T_flat_map_next\<close> and \<open>T_iter_fold\<close> are partial in the same way, and
  \<open>iteration_cost\<close> shows that they have a value on every map. The properties
  hold for maps and call sequences of every size. \<open>len\<close> is a natural number;
  the count at the width of \<^verbatim>\<open>usize\<close> agrees with it for fewer than
  \<open>2 ^ LENGTH('w)\<close> stored values (\<open>unat_len_usize_mod\<close>, \<open>len_checked_eq\<close>, for
  every width \<open>'w\<close>), and a map with that many values does not fit into the memory
  that the width can address.

  \<^bold>\<open>Plan.\<close> Done: the two components with every method, the hash map and the standard
  library as far as the file calls them, the invariants, the runs of calls, the
  abstract specification with the refinement of every method, the iterators and the
  independence from the iteration order, the documentation examples, the rendering,
  the borrowed or owned state of every text, \<^verbatim>\<open>len\<close> at the width of \<^verbatim>\<open>usize\<close>,
  the panics, the iterators as lazy cursors with the termination of their loops, also
  over maps of \<^verbatim>\<open>Cow\<close> values, the calls of independent parts of a program in every
  interleaving, the maps with the invariant as a type, the reachable maps of \<^verbatim>\<open>Cow\<close>
  values, the derived \<^verbatim>\<open>Hash\<close> and \<^verbatim>\<open>Clone\<close>, the equivalence with a reference
  implementation on one list, the cost of the loops, the error that formatting can
  return, the hash map and the header map as mappings of the library, and the
  program as it is written (texts borrowed or owned, lazy
  iterators) against the reference implementation.
  Left: nothing of the file; what is not modelled is listed below with the reason.

  \<^bold>\<open>Not modelled.\<close> The lifetimes of the borrowed texts, which the compiler checks
  and which no operation reads; the derived \<^verbatim>\<open>Debug\<close>, whose output no operation of
  the file reads; the typed headers of the protocol library beyond the two
  capabilities that \<open>hyper_header\<close> holds (\<^verbatim>\<open>ContentType\<close> and \<^verbatim>\<open>SetCookie\<close> appear
  in theory \<open>DocTests\<close> with the names and renderings the examples assert), and so
  the panic of \<^verbatim>\<open>format!\<close> in \<^verbatim>\<open>From<T>\<close> when the formatter of a typed header
  returns an error: the formatters are not in the repository, and \<open>fmt_header\<close> is
  the text that one of them writes; the buckets and the memory layout of the hash table, which belong
  to the standard library and are not specified by it: what the file can observe of
  them is the order of an iteration, which the model leaves open (\<open>hmap_equiv\<close>,
  \<open>run_rehash\<close>), and the cost of a lookup, which depends on them and is not
  counted in theory \<open>HeaderMap_Cost\<close>; a serializer that writes the lines of a map
  with their terminators and a parser that reads them back, which belong to the layer
  that consumes the map: the repository has no code for them and the specification
  puts them out of scope, so \<open>render\<close> stops at the lines; the request and response
  pipeline that owns the maps, whose code is not in the repository.
\<close>

section \<open>Definitions\<close>

text \<open>
  The serialization layer that consumes a header map writes one line per header of an
  iteration, the rendering of the header: \<open>render\<close> is the list of these lines.
  \<open>plain_names\<close> holds of a map none of whose names contains a colon.
\<close>

definition render :: "header_map \<Rightarrow> string list" where
  "render self = map fmt (iter self)"

definition plain_names :: "header_map \<Rightarrow> bool" where
  "plain_names self \<longleftrightarrow> list_all (\<lambda>(n, vs). CHR '':'' \<notin> set n) (headers self)"

text \<open>
  A second way to build the entries of \<open>custom_other_map\<close>: the values of the first
  name are installed together after the second name was added.
\<close>

definition installed_map :: header_map where
  "installed_map =
     replace_all (add_raw (add_raw new ''X-Custom'' ''value_0'') ''X-Other'' ''other'')
       ''X-Custom'' [''value_1'', ''value_2'']"

section \<open>Headers in, headers out\<close>

lemma hmap_wf_foldl_add: "hmap_wf self \<Longrightarrow> hmap_wf (foldl add self hs)"
  by (induction hs arbitrary: self) (simp_all add: hmap_wf_add)

lemma lookup_foldl_add:
  "hm_get (headers (foldl add self hs)) n =
     (if n \<in> name ` set hs
      then Some (get self n @ map value (filter (\<lambda>h. name h = n) hs))
      else hm_get (headers self) n)"
proof (induction hs arbitrary: self)
  case Nil
  then show ?case by simp
next
  case (Cons h hs)
  show ?case
  proof (cases "n \<in> name ` set hs")
    case True
    then show ?thesis
      by (simp add: Cons.IH get_add)
  next
    case False
    then have "filter (\<lambda>h. name h = n) hs = []"
      by (rule filter_name_absent)
    with False show ?thesis
      by (auto simp: Cons.IH lookup_add)
  qed
qed

text \<open>
  Adding the headers of an iteration to the empty map stores, under every name, what
  the iterated map stored, provided that map stored no empty vector: a name without
  values yields no header and is lost.
\<close>

lemma rebuild_lookup:
  assumes "hmap_wf self" and "nonempty_values self"
  shows "hm_get (headers (foldl add new (iter self))) n = hm_get (headers self) n"
proof (cases "hm_get (headers self) n")
  case None
  then have "n \<notin> name ` set (iter self)"
    by (rule iter_absent)
  with None show ?thesis
    by (simp add: lookup_foldl_add)
next
  case (Some vs)
  then have g: "get self n = vs" and c: "contains self n"
    by (simp_all add: get_eq contains_eq)
  have "get self n \<noteq> []"
    by (rule nonempty_get [OF assms(2) c])
  then have "n \<in> name ` set (iter self)"
    using assms(1) by (simp add: names_iter)
  with Some g show ?thesis
    by (simp add: lookup_foldl_add filter_iter [OF assms(1)] get_new comp_def)
qed

lemma header_map_eq_lookupI:
  assumes "hmap_wf a" and "hmap_wf b"
    and "\<And>n. hm_get (headers a) n = hm_get (headers b) n"
  shows "header_map_eq a b"
  using assms by (simp add: header_map_eq_equiv hmap_equiv_def hmap_wf_def hm_equiv_iff_get)

lemma iter_eq_lookup:
  assumes "hmap_wf a" and "hmap_wf b" and "nonempty_values a" and "nonempty_values b"
    and "iter a = iter b"
  shows "hm_get (headers a) n = hm_get (headers b) n"
proof -
  have "hm_get (headers a) n = hm_get (headers (foldl add new (iter a))) n"
    using assms(1,3) by (simp add: rebuild_lookup)
  also have "\<dots> = hm_get (headers b) n"
    using assms(2,4,5) by (simp add: rebuild_lookup)
  finally show ?thesis .
qed

lemma plain_names_iter:
  "plain_names self \<Longrightarrow> h \<in> set (iter self) \<Longrightarrow> CHR '':'' \<notin> set (name h)"
  by (auto simp: plain_names_def list_all_iff iter_headers set_flat_map)

lemma headers_installed_map:
  "headers installed_map =
     [(''X-Custom'', [''value_1'', ''value_2'']), (''X-Other'', [''other''])]"
  by (simp add: installed_map_def add_raw_def headers_simps get_eq)

section \<open>Properties that span the components\<close>

text \<open>
  \<^bold>\<open>C29\<close> Draining a map and adding the drained headers to an empty map, one by one
  in the order of the drain, gives a map that is equal to the drained one by the
  derived equality, provided the map has one entry per name and stores no empty
  vector. The condition on the vectors cannot be dropped: a name stored with an empty
  vector does not survive a drain, as \<open>remove_all\<close> returns no header for it, so the
  rebuilt map is not equal to the drained one.
\<close>

theorem drain_rebuild:
  assumes "hmap_wf self" and "nonempty_values self"
  shows "header_map_eq (foldl add new (fst (remove_all self))) self
         \<and> fst (remove_all (replace_all new n [])) = []
         \<and> \<not> header_map_eq (foldl add new (fst (remove_all (replace_all new n []))))
               (replace_all new n [])"
proof -
  have "hmap_wf (foldl add new (iter self))"
    by (simp add: hmap_wf_foldl_add hmap_wf_new)
  then have "header_map_eq (foldl add new (iter self)) self"
    using assms(1) rebuild_lookup [OF assms] by (rule header_map_eq_lookupI)
  moreover have "\<not> header_map_eq (foldl add new (fst (remove_all (replace_all new n []))))
      (replace_all new n [])"
    by (simp add: fst_remove_all into_iter_eq_iter iter_headers headers_replace_all
        header_map_eq_def hm_eq_def hm_len_def)
  ultimately show ?thesis
    by (simp add: fst_remove_all into_iter_eq_iter iter_headers headers_replace_all)
qed

theorem drain_rebuild_witness:
  "hmap_wf custom_other_map \<and> nonempty_values custom_other_map
   \<and> header_map_eq (foldl add new (fst (remove_all custom_other_map))) custom_other_map
   \<and> \<not> nonempty_values (replace_all new ''X-Custom'' [])"
proof -
  have "\<not> nonempty_values (replace_all new ''X-Custom'' [])"
    by (simp add: nonempty_values_def headers_replace_all headers_new)
  then show ?thesis
    using drain_rebuild [OF hmap_wf_custom_other_map nonempty_values_custom_other_map]
    by (simp add: hmap_wf_custom_other_map nonempty_values_custom_other_map)
qed

text \<open>
  \<^bold>\<open>C30\<close> The lines that the serialization layer writes determine the map: two maps
  with one entry per name, no empty vector and no colon in a name, whose iterations
  render to the same lines, are equal by the derived equality.
\<close>

theorem render_determines_map:
  assumes "hmap_wf a" and "hmap_wf b" and "nonempty_values a" and "nonempty_values b"
    and "plain_names a" and "plain_names b"
    and "render a = render b"
  shows "header_map_eq a b"
proof -
  have "inj_on fmt (set (iter a) \<union> set (iter b))"
    using assms(5,6) by (intro inj_onI fmt_inject) (auto dest: plain_names_iter)
  with assms(7) have "iter a = iter b"
    by (simp add: render_def inj_on_map_eq_map)
  with assms(1-4) have "hm_get (headers a) n = hm_get (headers b) n" for n
    by (rule iter_eq_lookup)
  with assms(1,2) show ?thesis
    by (rule header_map_eq_lookupI)
qed

theorem render_determines_map_witness:
  "hmap_wf custom_other_map \<and> hmap_wf installed_map
   \<and> nonempty_values custom_other_map \<and> nonempty_values installed_map
   \<and> plain_names custom_other_map \<and> plain_names installed_map
   \<and> render custom_other_map = render installed_map
   \<and> render installed_map = [''X-Custom: value_1'', ''X-Custom: value_2'', ''X-Other: other'']
   \<and> header_map_eq custom_other_map installed_map"
proof -
  have wf: "hmap_wf installed_map"
    by (simp add: installed_map_def add_raw_def hmap_wf_intros)
  have ne: "nonempty_values installed_map"
    by (simp add: nonempty_values_def headers_installed_map)
  have pn: "plain_names custom_other_map" "plain_names installed_map"
    by (simp_all add: plain_names_def headers_installed_map headers_custom_other_map)
  have r: "render custom_other_map = render installed_map"
    by (simp add: render_def iter_headers headers_installed_map headers_custom_other_map)
  have "render installed_map = [''X-Custom: value_1'', ''X-Custom: value_2'', ''X-Other: other'']"
    by (simp add: render_def iter_headers headers_installed_map fmt_def)
  then show ?thesis
    using render_determines_map [OF hmap_wf_custom_other_map wf
        nonempty_values_custom_other_map ne pn r]
    by (simp add: hmap_wf_custom_other_map wf nonempty_values_custom_other_map ne pn r)
qed

section \<open>The program and the reference\<close>

text \<open>
  The chain from the program as it is written to the reference implementation: a call
  on a map of borrowed or owned text is the call on the contents (theory
  \<open>HeaderMap_Cow\<close>), the lazy iterators yield the lists of the list model (theory
  \<open>HeaderMap_Lazy_Cow\<close>), and the map of the contents is related to the list of the
  reference (theory \<open>HeaderMap_Reference\<close>).
\<close>

lemma ref_sim_cow:
  "ref_sim (ref_run ref_new (map erase_call cs)) (erase_map (run_cow new_cow cs))"
  by (simp add: erase_run erase_new ref_sim_run ref_sim_new)

lemma nonempty_values_cow_run:
  "list_all benign (map erase_call cs) \<Longrightarrow> nonempty_values (erase_map (run_cow new_cow cs))"
  by (simp add: erase_run erase_new nonempty_values_run nonempty_values_new)

lemma mset_fmt_cow: "map fmt_cow hs = map fmt (map erase_header hs)"
  by (simp add: erase_fmt)

text \<open>
  \<^bold>\<open>C8\<close> The program as it is written, with texts that are borrowed or owned, a
  hash map of vectors and lazy iterators, behaves like the list of headers in the
  order of their arrival. After any sequence of calls on the empty map, with
  arguments of any ownership: driving the iterator of \<^verbatim>\<open>get\<close> to its end yields the
  values that the reference has for the name, \<^verbatim>\<open>get_one\<close> its first value, the
  loop of \<^verbatim>\<open>len\<close> returns the length of the list; the loops over the iterators of
  \<^verbatim>\<open>iter\<close> and \<^verbatim>\<open>remove_all\<close> return, with headers whose contents are the headers
  of the list, each as often and those of one name in the order of the list, so the
  lines they render to are the lines of the list; and \<^verbatim>\<open>contains\<close> and
  \<^verbatim>\<open>is_empty\<close> agree with the reference when no call installed an empty vector.
\<close>

theorem program_meets_reference:
  "(let self = run_cow new_cow cs; hs = ref_run ref_new (map erase_call cs) in
      iter_collect get_lazy_next_cow (get_lazy_cow self n) = Some (ref_get hs n)
    \<and> get_one_cow self n = ref_get_one hs n
    \<and> (len_lazy_cow self :: nat option) = Some (ref_len hs)
    \<and> iter_collect iter_lazy_next_cow (iter_lazy_cow self) = Some (iter_cow self)
    \<and> mset (map erase_header (iter_cow self)) = mset hs
    \<and> filter (\<lambda>h. name h = n) (map erase_header (iter_cow self)) = filter (\<lambda>h. name h = n) hs
    \<and> mset (map fmt_cow (iter_cow self)) = mset (map fmt hs)
    \<and> fst (remove_all_lazy_cow self) = Some (into_iter_cow self)
    \<and> mset (map erase_header (into_iter_cow self)) = mset hs
    \<and> filter (\<lambda>h. name h = n) (map erase_header (into_iter_cow self))
        = filter (\<lambda>h. name h = n) hs
    \<and> (list_all benign (map erase_call cs) \<longrightarrow>
         contains_cow self n = ref_contains hs n \<and> is_empty_cow self = ref_is_empty hs))"
proof -
  let ?self = "run_cow new_cow cs" and ?hs = "ref_run ref_new (map erase_call cs)"
  note sim = ref_sim_cow [of cs]
  have it: "mset (map erase_header (iter_cow ?self)) = mset ?hs"
    by (simp only: erase_iter ref_sim_observations(4) [OF sim])
  then have "mset (map fmt_cow (iter_cow ?self)) = mset (map fmt ?hs)"
    by (simp only: mset_fmt_cow mset_map)
  moreover have "contains_cow ?self n = ref_contains ?hs n \<and> is_empty_cow ?self = ref_is_empty ?hs"
    if "list_all benign (map erase_call cs)"
    using ref_sim_nonempty(1,2) [OF sim nonempty_values_cow_run [OF that]]
    by (simp add: erase_contains erase_is_empty)
  ultimately show ?thesis
    using it ref_sim_observations [OF sim]
    by (simp add: Let_def collect_get_lazy_cow collect_iter_lazy_cow len_lazy_cow_eq
        remove_all_lazy_cow_eq erase_get erase_get_one erase_len erase_iter erase_into_iter
        into_iter_eq_iter remove_all_cow_def mem_replace_def)
qed

theorem program_meets_reference_witness:
  "list_all benign (map erase_call
     [AddRawCow (RefStr ''a'') (OwnedString ''1''), AddRawCow (RefStr ''b'') (RefStr ''2''),
      AddRawCow (OwnedString ''a'') (RefStr ''3''), RemoveCow ''b''])
   \<and> iter_collect get_lazy_next_cow (get_lazy_cow (run_cow new_cow
       [AddRawCow (RefStr ''a'') (OwnedString ''1''), AddRawCow (RefStr ''b'') (RefStr ''2''),
        AddRawCow (OwnedString ''a'') (RefStr ''3''), RemoveCow ''b'']) ''a'')
       = Some [''1'', ''3'']
   \<and> \<not> contains_cow (run_cow new_cow
       [AddRawCow (RefStr ''a'') (OwnedString ''1''), AddRawCow (RefStr ''b'') (RefStr ''2''),
        AddRawCow (OwnedString ''a'') (RefStr ''3''), RemoveCow ''b'']) ''b''"
proof -
  let ?cs = "[AddRawCow (RefStr ''a'') (OwnedString ''1''), AddRawCow (RefStr ''b'') (RefStr ''2''),
      AddRawCow (OwnedString ''a'') (RefStr ''3''), RemoveCow ''b'']"
  have r: "ref_run ref_new (map erase_call ?cs) = [header_new ''a'' ''1'', header_new ''a'' ''3'']"
    by (simp add: ref_run_def ref_defs header_new_def)
  have b: "list_all benign (map erase_call ?cs)"
    by simp
  from program_meets_reference [of ?cs "''a''"] program_meets_reference [of ?cs "''b''"] b
  show ?thesis
    unfolding Let_def r by (simp add: ref_defs header_new_def)
qed

end
